theory Spec2Isabelle
  imports Main "HOL-Library.Word"
begin

section \<open>Data model (shared/schema.ts)\<close>

text \<open>
  Every table of \<^verbatim>\<open>shared/schema.ts\<close> becomes a record whose fields are the columns.
  Field names carry a short prefix for the table, since a field name is a constant of the
  theory (\<open>u_id\<close> is \<^verbatim>\<open>users.id\<close>, \<open>fs_fileId\<close> is \<^verbatim>\<open>fileShares.fileId\<close>, and so on).
  Integers of the program (serial ids, counters, byte sizes) are \<open>int\<close>; a timestamp is
  the number of milliseconds since the epoch; a nullable column is an \<open>option\<close>.
  The counters of a \<^verbatim>\<open>Stat\<close> row are only ever written by \<^verbatim>\<open>createUserStats\<close>
  (zeros) and \<^verbatim>\<open>updateUserStats\<close> (numbers), so they are plain integers here.
\<close>

type_synonym timestamp = int

record User =
  u_id :: int
  u_username :: string
  u_password :: string
  u_email :: string
  u_createdAt :: timestamp

record FileRow =
  f_id :: int
  f_name :: string
  f_size :: int
  f_type :: string
  f_cid :: string
  f_encryptionKey :: string
  f_ownerId :: int
  f_uploadedAt :: timestamp
  f_status :: string

text \<open>\<^verbatim>\<open>type File = typeof files.$inferSelect & { owner: string }\<close>\<close>

record File = FileRow +
  f_owner :: string

record FileShare =
  fs_id :: int
  fs_fileId :: int
  fs_userId :: int
  fs_permission :: string
  fs_createdAt :: timestamp

record ShareLink =
  sl_id :: int
  sl_fileId :: int
  sl_linkToken :: string
  sl_requiresPassword :: "bool option"
  sl_password :: "string option"
  sl_expiresAt :: "timestamp option"
  sl_createdAt :: timestamp

record Transaction =
  tx_id :: int
  tx_txId :: string
  tx_cid :: string
  tx_fileId :: "int option"
  tx_type :: string
  tx_status :: string
  tx_timestamp :: timestamp
  tx_metadata :: string

record Stat =
  st_id :: int
  st_userId :: int
  st_filesUploaded :: int
  st_filesShared :: int
  st_storageUsed :: int
  st_downloads :: int
  st_lastUpdated :: timestamp

text \<open>
  The insert types (\<^verbatim>\<open>createInsertSchema(...).omit({...})\<close>). A field that the insert
  schema makes optional and nullable has three shapes in JavaScript: absent, \<^verbatim>\<open>null\<close>,
  or a value.
\<close>

datatype 'a optional = Undefined | Null | Val 'a

fun nullish :: "'a optional \<Rightarrow> 'a option" where
  "nullish Undefined = None"
| "nullish Null = None"
| "nullish (Val x) = Some x"

record InsertUser =
  iu_username :: string
  iu_password :: string
  iu_email :: string

record InsertFile =
  if_name :: string
  if_size :: int
  if_type :: string
  if_cid :: string
  if_encryptionKey :: string
  if_ownerId :: int

record InsertFileShare =
  ifs_fileId :: int
  ifs_userId :: int
  ifs_permission :: string

record InsertShareLink =
  isl_fileId :: int
  isl_linkToken :: string
  isl_requiresPassword :: "bool optional"
  isl_password :: "string optional"
  isl_expiresAt :: "timestamp optional"

record InsertTransaction =
  itx_txId :: string
  itx_cid :: string
  itx_fileId :: "int option"
  itx_type :: string
  itx_status :: string
  itx_metadata :: string

text \<open>
  The \<^verbatim>\<open>updates\<close> argument of \<^verbatim>\<open>updateUserStats\<close>: four optional numbers.
  \<^verbatim>\<open>updates.x || 0\<close> is \<open>0\<close> for an absent field and for the number zero.
\<close>

record StatUpdates =
  up_filesUploaded :: "int option"
  up_filesShared :: "int option"
  up_storageUsed :: "int option"
  up_downloads :: "int option"

definition no_updates :: StatUpdates where
  "no_updates = \<lparr>up_filesUploaded = None, up_filesShared = None,
                  up_storageUsed = None, up_downloads = None\<rparr>"

fun or_zero :: "int option \<Rightarrow> int" where
  "or_zero None = 0"
| "or_zero (Some n) = n"

section \<open>JavaScript \<^verbatim>\<open>Map\<close> with numeric keys\<close>

text \<open>
  A \<^verbatim>\<open>Map<number, V>\<close> keeps its entries in insertion order, and
  \<^verbatim>\<open>Array.from(m.values())\<close> lists them in that order. It is modelled as an association
  list: \<^verbatim>\<open>set\<close> on a present key replaces the value in place, on a new key appends.
\<close>

type_synonym 'v jsmap = "(int \<times> 'v) list"

definition Map_get :: "'v jsmap \<Rightarrow> int \<Rightarrow> 'v option" where
  "Map_get m k = map_of m k"

fun Map_set :: "'v jsmap \<Rightarrow> int \<Rightarrow> 'v \<Rightarrow> 'v jsmap" where
  "Map_set [] k v = [(k, v)]"
| "Map_set ((k', v') # m) k v =
     (if k' = k then (k, v) # m else (k', v') # Map_set m k v)"

definition Map_delete :: "'v jsmap \<Rightarrow> int \<Rightarrow> 'v jsmap" where
  "Map_delete m k = filter (\<lambda>e. fst e \<noteq> k) m"

definition Map_values :: "'v jsmap \<Rightarrow> 'v list" where
  "Map_values m = map snd m"

text \<open>
  \<^verbatim>\<open>String.prototype.toLowerCase\<close>. A character of the model is a code point below
  256 (Latin-1), so a string of the model is a JavaScript string over these characters.
  Among them the upper-case letters are A to Z (65 to 90) and the accented capitals 192
  to 222 without the multiplication sign 215; each has its lower-case form 32 places
  higher, and every other character is left as it is.
\<close>

definition lower_char :: "char \<Rightarrow> char" where
  "lower_char c =
     (let n = (of_char c :: nat)
      in if (65 \<le> n \<and> n \<le> 90) \<or> (192 \<le> n \<and> n \<le> 222 \<and> n \<noteq> 215)
         then char_of (n + 32) else c)"

definition toLowerCase :: "string \<Rightarrow> string" where
  "toLowerCase s = map lower_char s"

section \<open>MemStorage (server/storage.ts)\<close>

record currentId =
  id_users :: int
  id_files :: int
  id_fileShares :: int
  id_shareLinks :: int
  id_transactions :: int
  id_stats :: int

record MemStorage =
  usersMap :: "User jsmap"
  filesMap :: "File jsmap"
  fileSharesMap :: "FileShare jsmap"
  shareLinksMap :: "ShareLink jsmap"
  transactionsMap :: "Transaction jsmap"
  statsMap :: "Stat jsmap"
  currentId :: currentId

text \<open>
  Every method that reads the clock (\<^verbatim>\<open>new Date()\<close>) takes the time read as the
  argument \<open>now\<close>. A method that mutates the store returns its result together with
  the new store.
\<close>

definition MemStorage_getUser :: "MemStorage \<Rightarrow> int \<Rightarrow> User option" where
  "MemStorage_getUser s i = Map_get (usersMap s) i"

definition MemStorage_getUserByUsername :: "MemStorage \<Rightarrow> string \<Rightarrow> User option" where
  "MemStorage_getUserByUsername s username =
     find (\<lambda>user. toLowerCase (u_username user) = toLowerCase username)
       (Map_values (usersMap s))"

definition MemStorage_getUserByEmail :: "MemStorage \<Rightarrow> string \<Rightarrow> User option" where
  "MemStorage_getUserByEmail s email =
     find (\<lambda>user. toLowerCase (u_email user) = toLowerCase email)
       (Map_values (usersMap s))"

definition MemStorage_createUser ::
  "MemStorage \<Rightarrow> timestamp \<Rightarrow> InsertUser \<Rightarrow> User \<times> MemStorage" where
  "MemStorage_createUser s now userData =
     (let i = id_users (currentId s);
          user = \<lparr>u_id = i, u_username = iu_username userData,
                  u_password = iu_password userData, u_email = iu_email userData,
                  u_createdAt = now\<rparr>
      in (user, s\<lparr>usersMap := Map_set (usersMap s) i user,
                   currentId := (currentId s)\<lparr>id_users := i + 1\<rparr>\<rparr>))"

text \<open>The constructor: empty maps, every counter at 1, then the default test user.\<close>

definition MemStorage_empty :: MemStorage where
  "MemStorage_empty =
     \<lparr>usersMap = [], filesMap = [], fileSharesMap = [], shareLinksMap = [],
      transactionsMap = [], statsMap = [],
      currentId = \<lparr>id_users = 1, id_files = 1, id_fileShares = 1, id_shareLinks = 1,
                   id_transactions = 1, id_stats = 1\<rparr>\<rparr>"

definition MemStorage_new :: "timestamp \<Rightarrow> MemStorage" where
  "MemStorage_new now =
     snd (MemStorage_createUser MemStorage_empty now
       \<lparr>iu_username = ''testuser'',
        iu_password = ''5e884898da28047151d0e56f8dc6292773603d0d6aabbdd62a11ef721d1542d8'',
        iu_email = ''test@example.com''\<rparr>)"

definition owner_name :: "User option \<Rightarrow> string" where
  "owner_name owner = (case owner of Some u \<Rightarrow> u_username u | None \<Rightarrow> ''Unknown'')"

definition MemStorage_getFile :: "MemStorage \<Rightarrow> int \<Rightarrow> File option" where
  "MemStorage_getFile s i =
     (case Map_get (filesMap s) i of
        None \<Rightarrow> None
      | Some file \<Rightarrow>
          Some (file\<lparr>f_owner := owner_name (Map_get (usersMap s) (f_ownerId file))\<rparr>))"

definition MemStorage_getUserFiles :: "MemStorage \<Rightarrow> int \<Rightarrow> File list" where
  "MemStorage_getUserFiles s userId =
     map (\<lambda>file. file\<lparr>f_owner := owner_name (Map_get (usersMap s) (f_ownerId file))\<rparr>)
       (filter (\<lambda>file. f_ownerId file = userId) (Map_values (filesMap s)))"

definition MemStorage_createFile ::
  "MemStorage \<Rightarrow> timestamp \<Rightarrow> InsertFile \<Rightarrow> File \<times> MemStorage" where
  "MemStorage_createFile s now fileData =
     (let i = id_files (currentId s);
          file = \<lparr>f_id = i, f_name = if_name fileData, f_size = if_size fileData,
                  f_type = if_type fileData, f_cid = if_cid fileData,
                  f_encryptionKey = if_encryptionKey fileData,
                  f_ownerId = if_ownerId fileData, f_uploadedAt = now,
                  f_status = ''encrypted'',
                  f_owner = owner_name (Map_get (usersMap s) (if_ownerId fileData))\<rparr>
      in (file, s\<lparr>filesMap := Map_set (filesMap s) i file,
                   currentId := (currentId s)\<lparr>id_files := i + 1\<rparr>\<rparr>))"

text \<open>
  \<^verbatim>\<open>deleteFile\<close> deletes the file entry, then walks the values of the two dependent
  maps and deletes, for each value that refers to the file, the entry under that
  value's own \<^verbatim>\<open>id\<close>. The list of values is taken before the loop runs.
\<close>

definition MemStorage_deleteFile :: "MemStorage \<Rightarrow> int \<Rightarrow> MemStorage" where
  "MemStorage_deleteFile s i =
     (let s1 = s\<lparr>filesMap := Map_delete (filesMap s) i\<rparr>;
          shares = filter (\<lambda>share. fs_fileId share = i) (Map_values (fileSharesMap s1));
          s2 = s1\<lparr>fileSharesMap :=
                    fold (\<lambda>share m. Map_delete m (fs_id share)) shares (fileSharesMap s1)\<rparr>;
          links = filter (\<lambda>link. sl_fileId link = i) (Map_values (shareLinksMap s2))
      in s2\<lparr>shareLinksMap :=
               fold (\<lambda>link m. Map_delete m (sl_id link)) links (shareLinksMap s2)\<rparr>)"

definition MemStorage_checkFileAccess :: "MemStorage \<Rightarrow> int \<Rightarrow> int \<Rightarrow> bool" where
  "MemStorage_checkFileAccess s fileId userId =
     (case Map_get (filesMap s) fileId of
        None \<Rightarrow> False
      | Some file \<Rightarrow>
          if f_ownerId file = userId then True
          else list_ex (\<lambda>share. fs_fileId share = fileId \<and> fs_userId share = userId)
                 (Map_values (fileSharesMap s)))"

definition MemStorage_getSharedFiles :: "MemStorage \<Rightarrow> int \<Rightarrow> File list" where
  "MemStorage_getSharedFiles s userId =
     (let shares = filter (\<lambda>share. fs_userId share = userId) (Map_values (fileSharesMap s))
      in List.map_filter
           (\<lambda>share. case Map_get (filesMap s) (fs_fileId share) of
               None \<Rightarrow> None
             | Some file \<Rightarrow>
                 Some (file\<lparr>f_owner := owner_name (Map_get (usersMap s) (f_ownerId file))\<rparr>))
           shares)"

definition MemStorage_createFileShare ::
  "MemStorage \<Rightarrow> timestamp \<Rightarrow> InsertFileShare \<Rightarrow> FileShare \<times> MemStorage" where
  "MemStorage_createFileShare s now fileShareData =
     (let i = id_fileShares (currentId s);
          fileShare = \<lparr>fs_id = i, fs_fileId = ifs_fileId fileShareData,
                       fs_userId = ifs_userId fileShareData,
                       fs_permission = ifs_permission fileShareData,
                       fs_createdAt = now\<rparr>
      in (fileShare, s\<lparr>fileSharesMap := Map_set (fileSharesMap s) i fileShare,
                        currentId := (currentId s)\<lparr>id_fileShares := i + 1\<rparr>\<rparr>))"

definition MemStorage_createShareLink ::
  "MemStorage \<Rightarrow> timestamp \<Rightarrow> InsertShareLink \<Rightarrow> ShareLink \<times> MemStorage" where
  "MemStorage_createShareLink s now shareLinkData =
     (let i = id_shareLinks (currentId s);
          shareLink = \<lparr>sl_id = i, sl_fileId = isl_fileId shareLinkData,
                       sl_linkToken = isl_linkToken shareLinkData,
                       sl_requiresPassword = nullish (isl_requiresPassword shareLinkData),
                       sl_password = nullish (isl_password shareLinkData),
                       sl_expiresAt = nullish (isl_expiresAt shareLinkData),
                       sl_createdAt = now\<rparr>
      in (shareLink, s\<lparr>shareLinksMap := Map_set (shareLinksMap s) i shareLink,
                        currentId := (currentId s)\<lparr>id_shareLinks := i + 1\<rparr>\<rparr>))"

definition MemStorage_getShareLink :: "MemStorage \<Rightarrow> string \<Rightarrow> ShareLink option" where
  "MemStorage_getShareLink s token =
     find (\<lambda>link. sl_linkToken link = token) (Map_values (shareLinksMap s))"

definition MemStorage_logTransaction ::
  "MemStorage \<Rightarrow> timestamp \<Rightarrow> InsertTransaction \<Rightarrow> Transaction \<times> MemStorage" where
  "MemStorage_logTransaction s now transactionData =
     (let i = id_transactions (currentId s);
          transaction = \<lparr>tx_id = i, tx_txId = itx_txId transactionData,
                         tx_cid = itx_cid transactionData,
                         tx_fileId = itx_fileId transactionData,
                         tx_type = itx_type transactionData,
                         tx_status = itx_status transactionData,
                         tx_timestamp = now,
                         tx_metadata = itx_metadata transactionData\<rparr>
      in (transaction, s\<lparr>transactionsMap := Map_set (transactionsMap s) i transaction,
                          currentId := (currentId s)\<lparr>id_transactions := i + 1\<rparr>\<rparr>))"


definition MemStorage_createUserStats ::
  "MemStorage \<Rightarrow> timestamp \<Rightarrow> int \<Rightarrow> Stat \<times> MemStorage" where
  "MemStorage_createUserStats s now userId =
     (let i = id_stats (currentId s);
          stat = \<lparr>st_id = i, st_userId = userId, st_filesUploaded = 0,
                  st_filesShared = 0, st_storageUsed = 0, st_downloads = 0,
                  st_lastUpdated = now\<rparr>
      in (stat, s\<lparr>statsMap := Map_set (statsMap s) userId stat,
                   currentId := (currentId s)\<lparr>id_stats := i + 1\<rparr>\<rparr>))"

definition MemStorage_getUserStats :: "MemStorage \<Rightarrow> int \<Rightarrow> Stat option" where
  "MemStorage_getUserStats s userId = Map_get (statsMap s) userId"

text \<open>
  \<^verbatim>\<open>updateUserStats\<close> reads the clock twice when it has to create the row
  (\<open>now0\<close>, inside \<^verbatim>\<open>createUserStats\<close>) and once for \<^verbatim>\<open>lastUpdated\<close> (\<open>now\<close>).
\<close>

definition MemStorage_updateUserStats ::
  "MemStorage \<Rightarrow> timestamp \<Rightarrow> timestamp \<Rightarrow> int \<Rightarrow> StatUpdates \<Rightarrow> Stat \<times> MemStorage" where
  "MemStorage_updateUserStats s now0 now userId updates =
     (let (stat, s1) = (case Map_get (statsMap s) userId of
                          None \<Rightarrow> MemStorage_createUserStats s now0 userId
                        | Some stat \<Rightarrow> (stat, s));
          updatedStat = stat\<lparr>
            st_filesUploaded := st_filesUploaded stat + or_zero (up_filesUploaded updates),
            st_filesShared := st_filesShared stat + or_zero (up_filesShared updates),
            st_storageUsed := st_storageUsed stat + or_zero (up_storageUsed updates),
            st_downloads := st_downloads stat + or_zero (up_downloads updates),
            st_lastUpdated := now\<rparr>;
          updatedStat = updatedStat\<lparr>st_filesUploaded := max 0 (st_filesUploaded updatedStat)\<rparr>;
          updatedStat = updatedStat\<lparr>st_filesShared := max 0 (st_filesShared updatedStat)\<rparr>;
          updatedStat = updatedStat\<lparr>st_storageUsed := max 0 (st_storageUsed updatedStat)\<rparr>
      in (updatedStat, s1\<lparr>statsMap := Map_set (statsMap s1) userId updatedStat\<rparr>))"

section \<open>DatabaseStorage (server/storage.ts)\<close>

text \<open>
  The database behind \<^verbatim>\<open>db\<close> is modelled as six tables, each a list of rows in
  insertion order, and the six \<^verbatim>\<open>serial\<close> sequences of the primary keys.
  \<^verbatim>\<open>select().from(t).where(p)\<close> is the list of rows that satisfy \<open>p\<close>, in table order;
  \<^verbatim>\<open>insert(t).values(v).returning()\<close> appends one row whose id is the next value of the
  sequence and whose defaulted columns take their defaults; \<^verbatim>\<open>delete(t).where(p)\<close>
  removes the rows that satisfy \<open>p\<close>; \<^verbatim>\<open>update(t).set(v).where(p).returning()\<close>
  rewrites the rows that satisfy \<open>p\<close> in place and returns them.
  Of the checks that the database engine makes, the model has the two that the calls
  of this program run into. A 32-bit \<^verbatim>\<open>integer\<close> column rejects a value outside its
  range: the counters of \<^verbatim>\<open>stats\<close> are such columns, and \<^verbatim>\<open>updateUserStats\<close> writes
  sums into them. A row of \<^verbatim>\<open>files\<close> cannot be deleted while a row of
  \<^verbatim>\<open>transactions\<close> refers to it (\<^verbatim>\<open>fileId: integer("file_id").references(() => files.id)\<close>,
  with no \<^verbatim>\<open>onDelete\<close> action). A rejected statement raises an error and changes
  nothing; the statements that ran before it stay in effect, since the methods open no
  transaction. The \<^verbatim>\<open>unique\<close> declarations and the references checked on insertion are
  not part of the model: the handlers insert a row only with the ids of rows that they
  have just read.
\<close>

datatype pg_error = NumericValueOutOfRange | ForeignKeyViolation

definition int4 :: "int \<Rightarrow> bool" where
  "int4 n \<longleftrightarrow> - 2147483648 \<le> n \<and> n \<le> 2147483647"

definition int4_stat :: "Stat \<Rightarrow> bool" where
  "int4_stat r \<longleftrightarrow>
     int4 (st_filesUploaded r) \<and> int4 (st_filesShared r) \<and>
     int4 (st_storageUsed r) \<and> int4 (st_downloads r)"

record Database =
  users :: "User list"
  files :: "FileRow list"
  fileShares :: "FileShare list"
  shareLinks :: "ShareLink list"
  transactions :: "Transaction list"
  stats :: "Stat list"
  users_id_seq :: int
  files_id_seq :: int
  file_shares_id_seq :: int
  share_links_id_seq :: int
  transactions_id_seq :: int
  stats_id_seq :: int

text \<open>\<^verbatim>\<open>const [x] = rows\<close>: the first row, or \<^verbatim>\<open>undefined\<close>.\<close>

fun first :: "'a list \<Rightarrow> 'a option" where
  "first [] = None"
| "first (x # xs) = Some x"

definition DatabaseStorage_getUser :: "Database \<Rightarrow> int \<Rightarrow> User option" where
  "DatabaseStorage_getUser db i = first (filter (\<lambda>u. u_id u = i) (users db))"

definition DatabaseStorage_getUserByUsername :: "Database \<Rightarrow> string \<Rightarrow> User option" where
  "DatabaseStorage_getUserByUsername db username =
     first (filter (\<lambda>u. u_username u = username) (users db))"

definition DatabaseStorage_getUserByEmail :: "Database \<Rightarrow> string \<Rightarrow> User option" where
  "DatabaseStorage_getUserByEmail db email =
     first (filter (\<lambda>u. u_email u = email) (users db))"

definition DatabaseStorage_createUser ::
  "Database \<Rightarrow> timestamp \<Rightarrow> InsertUser \<Rightarrow> User \<times> Database" where
  "DatabaseStorage_createUser db now insertUser =
     (let user = \<lparr>u_id = users_id_seq db, u_username = iu_username insertUser,
                  u_password = iu_password insertUser, u_email = iu_email insertUser,
                  u_createdAt = now\<rparr>
      in (user, db\<lparr>users := users db @ [user], users_id_seq := users_id_seq db + 1\<rparr>))"

definition with_owner :: "FileRow \<Rightarrow> string \<Rightarrow> File" where
  "with_owner file name = FileRow.extend file (File.fields name)"

definition DatabaseStorage_getFile :: "Database \<Rightarrow> int \<Rightarrow> File option" where
  "DatabaseStorage_getFile db i =
     (case first (filter (\<lambda>f. f_id f = i) (files db)) of
        None \<Rightarrow> None
      | Some file \<Rightarrow>
          Some (with_owner file
                  (owner_name (first (filter (\<lambda>u. u_id u = f_ownerId file) (users db))))))"

definition DatabaseStorage_getUserFiles :: "Database \<Rightarrow> int \<Rightarrow> File list" where
  "DatabaseStorage_getUserFiles db userId =
     (let userFiles = filter (\<lambda>f. f_ownerId f = userId) (files db);
          owner = first (filter (\<lambda>u. u_id u = userId) (users db))
      in map (\<lambda>file. with_owner file (owner_name owner)) userFiles)"

definition DatabaseStorage_createFile ::
  "Database \<Rightarrow> timestamp \<Rightarrow> InsertFile \<Rightarrow> File \<times> Database" where
  "DatabaseStorage_createFile db now file =
     (let newFile = \<lparr>f_id = files_id_seq db, f_name = if_name file, f_size = if_size file,
                     f_type = if_type file, f_cid = if_cid file,
                     f_encryptionKey = if_encryptionKey file, f_ownerId = if_ownerId file,
                     f_uploadedAt = now, f_status = ''encrypted''\<rparr>;
          db1 = db\<lparr>files := files db @ [newFile], files_id_seq := files_id_seq db + 1\<rparr>
      in (with_owner newFile
            (owner_name (first (filter (\<lambda>u. u_id u = f_ownerId newFile) (users db1)))),
          db1))"

text \<open>
  Three statements, each committed on its own. The third is rejected when it would
  delete a file row that a transaction row refers to; \<open>Inl\<close> is the error that the
  method then throws, next to the database as the first two statements left it.
\<close>

definition DatabaseStorage_deleteFile ::
  "Database \<Rightarrow> int \<Rightarrow> (pg_error + unit) \<times> Database" where
  "DatabaseStorage_deleteFile db i =
     (let db1 = db\<lparr>fileShares := filter (\<lambda>r. \<not> fs_fileId r = i) (fileShares db)\<rparr>;
          db2 = db1\<lparr>shareLinks := filter (\<lambda>r. \<not> sl_fileId r = i) (shareLinks db1)\<rparr>
      in if list_ex (\<lambda>r. f_id r = i) (files db2)
            \<and> list_ex (\<lambda>tx. tx_fileId tx = Some i) (transactions db2)
         then (Inl ForeignKeyViolation, db2)
         else (Inr (), db2\<lparr>files := filter (\<lambda>r. \<not> f_id r = i) (files db2)\<rparr>))"

definition DatabaseStorage_checkFileAccess :: "Database \<Rightarrow> int \<Rightarrow> int \<Rightarrow> bool" where
  "DatabaseStorage_checkFileAccess db fileId userId =
     (case first (filter (\<lambda>f. f_id f = fileId) (files db)) of
        None \<Rightarrow> False
      | Some file \<Rightarrow>
          if f_ownerId file = userId then True
          else (case first (filter (\<lambda>r. fs_fileId r = fileId \<and> fs_userId r = userId)
                              (fileShares db)) of
                  None \<Rightarrow> False
                | Some share \<Rightarrow> True))"

definition DatabaseStorage_getSharedFiles :: "Database \<Rightarrow> int \<Rightarrow> File list" where
  "DatabaseStorage_getSharedFiles db userId =
     (let shares = filter (\<lambda>r. fs_userId r = userId) (fileShares db)
      in if length shares = 0 then []
         else List.map_filter
                (\<lambda>share. case first (filter (\<lambda>f. f_id f = fs_fileId share) (files db)) of
                    None \<Rightarrow> None
                  | Some file \<Rightarrow>
                      Some (with_owner file
                              (owner_name (first (filter (\<lambda>u. u_id u = f_ownerId file)
                                                    (users db))))))
                shares)"

definition DatabaseStorage_createFileShare ::
  "Database \<Rightarrow> timestamp \<Rightarrow> InsertFileShare \<Rightarrow> FileShare \<times> Database" where
  "DatabaseStorage_createFileShare db now fileShare =
     (let newFileShare = \<lparr>fs_id = file_shares_id_seq db, fs_fileId = ifs_fileId fileShare,
                          fs_userId = ifs_userId fileShare,
                          fs_permission = ifs_permission fileShare, fs_createdAt = now\<rparr>
      in (newFileShare, db\<lparr>fileShares := fileShares db @ [newFileShare],
                            file_shares_id_seq := file_shares_id_seq db + 1\<rparr>))"

text \<open>
  \<^verbatim>\<open>requiresPassword: boolean("requires_password").default(false)\<close>: an absent value
  takes the default, an explicit \<^verbatim>\<open>null\<close> is stored as NULL.
\<close>

fun default_false :: "bool optional \<Rightarrow> bool option" where
  "default_false Undefined = Some False"
| "default_false Null = None"
| "default_false (Val b) = Some b"

definition DatabaseStorage_createShareLink ::
  "Database \<Rightarrow> timestamp \<Rightarrow> InsertShareLink \<Rightarrow> ShareLink \<times> Database" where
  "DatabaseStorage_createShareLink db now shareLink =
     (let newShareLink = \<lparr>sl_id = share_links_id_seq db, sl_fileId = isl_fileId shareLink,
                          sl_linkToken = isl_linkToken shareLink,
                          sl_requiresPassword = default_false (isl_requiresPassword shareLink),
                          sl_password = nullish (isl_password shareLink),
                          sl_expiresAt = nullish (isl_expiresAt shareLink),
                          sl_createdAt = now\<rparr>
      in (newShareLink, db\<lparr>shareLinks := shareLinks db @ [newShareLink],
                            share_links_id_seq := share_links_id_seq db + 1\<rparr>))"

definition DatabaseStorage_getShareLink :: "Database \<Rightarrow> string \<Rightarrow> ShareLink option" where
  "DatabaseStorage_getShareLink db token =
     first (filter (\<lambda>r. sl_linkToken r = token) (shareLinks db))"

definition DatabaseStorage_logTransaction ::
  "Database \<Rightarrow> timestamp \<Rightarrow> InsertTransaction \<Rightarrow> Transaction \<times> Database" where
  "DatabaseStorage_logTransaction db now transaction =
     (let newTransaction = \<lparr>tx_id = transactions_id_seq db, tx_txId = itx_txId transaction,
                            tx_cid = itx_cid transaction, tx_fileId = itx_fileId transaction,
                            tx_type = itx_type transaction, tx_status = itx_status transaction,
                            tx_timestamp = now, tx_metadata = itx_metadata transaction\<rparr>
      in (newTransaction, db\<lparr>transactions := transactions db @ [newTransaction],
                              transactions_id_seq := transactions_id_seq db + 1\<rparr>))"

definition DatabaseStorage_getUserTransactions :: "Database \<Rightarrow> int \<Rightarrow> Transaction list" where
  "DatabaseStorage_getUserTransactions db userId =
     (let userFiles = filter (\<lambda>f. f_ownerId f = userId) (files db)
      in if length userFiles = 0 then []
         else sort_key (\<lambda>tx. - tx_timestamp tx)
                (concat (map (\<lambda>file. filter (\<lambda>tx. tx_fileId tx = Some (f_id file))
                                        (transactions db))
                           userFiles)))"

definition DatabaseStorage_createUserStats ::
  "Database \<Rightarrow> timestamp \<Rightarrow> int \<Rightarrow> Stat \<times> Database" where
  "DatabaseStorage_createUserStats db now userId =
     (let newStat = \<lparr>st_id = stats_id_seq db, st_userId = userId, st_filesUploaded = 0,
                     st_filesShared = 0, st_storageUsed = 0, st_downloads = 0,
                     st_lastUpdated = now\<rparr>
      in (newStat, db\<lparr>stats := stats db @ [newStat], stats_id_seq := stats_id_seq db + 1\<rparr>))"

definition DatabaseStorage_getUserStats :: "Database \<Rightarrow> int \<Rightarrow> Stat option" where
  "DatabaseStorage_getUserStats db userId =
     first (filter (\<lambda>r. st_userId r = userId) (stats db))"

text \<open>
  \<^verbatim>\<open>newValues\<close>, computed from the row read, as the rewrite \<^verbatim>\<open>set(newValues)\<close> of a
  row. The update rewrites every row whose \<^verbatim>\<open>id\<close> is that of the row read (or
  created) and returns the first of the rewritten rows;
  \<^verbatim>\<open>const [updatedStat] = ...\<close> is \<^verbatim>\<open>undefined\<close> when the update matched no row.
  The four counters are 32-bit columns: when one of the new values is out of range the
  update is rejected and the method throws, after a row it had to create was inserted.
\<close>

definition newValues :: "Stat \<Rightarrow> timestamp \<Rightarrow> StatUpdates \<Rightarrow> Stat \<Rightarrow> Stat" where
  "newValues userStat now updates r =
     r\<lparr>st_filesUploaded :=
         max 0 (st_filesUploaded userStat + or_zero (up_filesUploaded updates)),
       st_filesShared :=
         max 0 (st_filesShared userStat + or_zero (up_filesShared updates)),
       st_storageUsed :=
         max 0 (st_storageUsed userStat + or_zero (up_storageUsed updates)),
       st_downloads := st_downloads userStat + or_zero (up_downloads updates),
       st_lastUpdated := now\<rparr>"

definition DatabaseStorage_updateUserStats ::
  "Database \<Rightarrow> timestamp \<Rightarrow> timestamp \<Rightarrow> int \<Rightarrow> StatUpdates \<Rightarrow>
   (pg_error + Stat option) \<times> Database" where
  "DatabaseStorage_updateUserStats db now0 now userId updates =
     (let (userStat, db1) = (case DatabaseStorage_getUserStats db userId of
                               None \<Rightarrow> DatabaseStorage_createUserStats db now0 userId
                             | Some userStat \<Rightarrow> (userStat, db))
      in if \<not> int4_stat (newValues userStat now updates userStat)
         then (Inl NumericValueOutOfRange, db1)
         else
           (let rows = map (\<lambda>r. if st_id r = st_id userStat
                                 then newValues userStat now updates r else r) (stats db1)
            in (Inr (first (filter (\<lambda>r. st_id r = st_id userStat) rows)),
                db1\<lparr>stats := rows\<rparr>)))"

text \<open>\<^verbatim>\<open>export const storage = new DatabaseStorage();\<close>\<close>


section \<open>The storage interface (IStorage)\<close>

text \<open>
  The route handlers call the module-level object \<^verbatim>\<open>storage\<close> through the interface
  \<^verbatim>\<open>IStorage\<close>. The interface is a record of the methods the modelled handlers call,
  over the type \<open>'s\<close> of the store; both classes implement it. No handler uses the
  row that \<^verbatim>\<open>updateUserStats\<close> returns, so the interface keeps the new store and,
  when the promise is rejected, the error (\<open>None\<close> when it is fulfilled).
  \<^verbatim>\<open>MemStorage.updateUserStats\<close> never throws.
\<close>

record 's IStorage =
  getUser :: "'s \<Rightarrow> int \<Rightarrow> User option"
  getUserByEmail :: "'s \<Rightarrow> string \<Rightarrow> User option"
  getFile :: "'s \<Rightarrow> int \<Rightarrow> File option"
  checkFileAccess :: "'s \<Rightarrow> int \<Rightarrow> int \<Rightarrow> bool"
  createFileShare :: "'s \<Rightarrow> timestamp \<Rightarrow> InsertFileShare \<Rightarrow> FileShare \<times> 's"
  createShareLink :: "'s \<Rightarrow> timestamp \<Rightarrow> InsertShareLink \<Rightarrow> ShareLink \<times> 's"
  logTransaction :: "'s \<Rightarrow> timestamp \<Rightarrow> InsertTransaction \<Rightarrow> Transaction \<times> 's"
  getUserStats :: "'s \<Rightarrow> int \<Rightarrow> Stat option"
  updateUserStats ::
    "'s \<Rightarrow> timestamp \<Rightarrow> timestamp \<Rightarrow> int \<Rightarrow> StatUpdates \<Rightarrow> pg_error option \<times> 's"

definition MemStorage_ops :: "MemStorage IStorage" where
  "MemStorage_ops =
     \<lparr>getUser = MemStorage_getUser,
      getUserByEmail = MemStorage_getUserByEmail,
      getFile = MemStorage_getFile,
      checkFileAccess = MemStorage_checkFileAccess,
      createFileShare = MemStorage_createFileShare,
      createShareLink = MemStorage_createShareLink,
      logTransaction = MemStorage_logTransaction,
      getUserStats = MemStorage_getUserStats,
      updateUserStats = (\<lambda>s now0 now userId updates.
         (None, snd (MemStorage_updateUserStats s now0 now userId updates)))\<rparr>"

definition DatabaseStorage_ops :: "Database IStorage" where
  "DatabaseStorage_ops =
     \<lparr>getUser = DatabaseStorage_getUser,
      getUserByEmail = DatabaseStorage_getUserByEmail,
      getFile = DatabaseStorage_getFile,
      checkFileAccess = DatabaseStorage_checkFileAccess,
      createFileShare = DatabaseStorage_createFileShare,
      createShareLink = DatabaseStorage_createShareLink,
      logTransaction = DatabaseStorage_logTransaction,
      getUserStats = DatabaseStorage_getUserStats,
      updateUserStats = (\<lambda>db now0 now userId updates.
         (case DatabaseStorage_updateUserStats db now0 now userId updates of
            (Inl e, db1) \<Rightarrow> (Some e, db1)
          | (Inr r, db1) \<Rightarrow> (None, db1)))\<rparr>"

section \<open>Route handlers (server/routes.ts)\<close>

text \<open>
  A handler is a function from the store and the request to the response and the new
  store. The session user is \<open>None\<close> when \<^verbatim>\<open>req.isAuthenticated()\<close> is false. A file or
  recipient id of a request is the integer that \<^verbatim>\<open>parseInt\<close> returned; the model starts
  after that call and takes the \<^verbatim>\<open>email\<close> field to be a string. The other body fields
  are JSON values, since the handlers test them for truthiness and the schemas validate
  their type.
\<close>

datatype jsval = JUndefined | JNull | JBool bool | JNum int | JStr string | JOther

text \<open>
  \<open>JOther\<close> stands for the JSON values that no handler distinguishes: a number that is
  not an integer, an array, an object. All of them are truthy.
\<close>

fun truthy :: "jsval \<Rightarrow> bool" where
  "truthy JUndefined = False"
| "truthy JNull = False"
| "truthy (JBool b) = b"
| "truthy (JNum n) = (n \<noteq> 0)"
| "truthy (JStr s) = (s \<noteq> [])"
| "truthy JOther = True"

datatype body =
    ErrorBody string
  | ValidationErrorBody
  | UnhandledErrorBody
  | FileShareBody FileShare
  | ShareLinkBody string "timestamp option"
  | DownloadBody string string string string
  | StatsBody int int string int

record response =
  res_status :: nat
  res_body :: body

definition reply :: "nat \<Rightarrow> body \<Rightarrow> response" where
  "reply code b = \<lparr>res_status = code, res_body = b\<rparr>"

text \<open>
  \<open>ValidationErrorBody\<close> is the answer of \<^verbatim>\<open>handleZodError\<close>. An error that is not a
  \<^verbatim>\<open>ZodError\<close> is passed on with \<^verbatim>\<open>next(err)\<close> to the error handler behind the router,
  which answers 500 for an error that carries no status of its own, as the errors of
  the database do; \<open>UnhandledErrorBody\<close> stands for the body of that answer.
\<close>

text \<open>
  The insert schemas of drizzle-zod, on the fields a handler passes that are not already
  of the right type: \<^verbatim>\<open>permission\<close> is a required string; \<^verbatim>\<open>requiresPassword\<close> is an
  optional nullable boolean and \<^verbatim>\<open>password\<close> an optional nullable string;
  \<^verbatim>\<open>expiresAt\<close> is a date, and an invalid date is refused. \<open>None\<close> is
  the \<^verbatim>\<open>ZodError\<close> that \<^verbatim>\<open>parse\<close> throws.
\<close>

fun zod_string :: "jsval \<Rightarrow> string option" where
  "zod_string (JStr s) = Some s"
| "zod_string v = None"

fun zod_optional_boolean :: "jsval \<Rightarrow> bool optional option" where
  "zod_optional_boolean JUndefined = Some Undefined"
| "zod_optional_boolean JNull = Some Null"
| "zod_optional_boolean (JBool b) = Some (Val b)"
| "zod_optional_boolean v = None"

fun zod_optional_string :: "jsval \<Rightarrow> string optional option" where
  "zod_optional_string JUndefined = Some Undefined"
| "zod_optional_string JNull = Some Null"
| "zod_optional_string (JStr s) = Some (Val s)"
| "zod_optional_string v = None"

definition insertFileShareSchema_parse :: "int \<Rightarrow> int \<Rightarrow> jsval \<Rightarrow> InsertFileShare option" where
  "insertFileShareSchema_parse fileId userId permission =
     (case zod_string permission of
        None \<Rightarrow> None
      | Some p \<Rightarrow> Some \<lparr>ifs_fileId = fileId, ifs_userId = userId, ifs_permission = p\<rparr>)"

definition insertShareLinkSchema_parse ::
  "int \<Rightarrow> string \<Rightarrow> jsval \<Rightarrow> jsval \<Rightarrow> timestamp option \<Rightarrow> InsertShareLink option" where
  "insertShareLinkSchema_parse fileId linkToken requiresPassword password expiresAt =
     (case zod_optional_boolean requiresPassword of
        None \<Rightarrow> None
      | Some rp \<Rightarrow>
          (case zod_optional_string password of
             None \<Rightarrow> None
           | Some pw \<Rightarrow>
               (case expiresAt of
                  None \<Rightarrow> None
                | Some e \<Rightarrow>
                    Some \<lparr>isl_fileId = fileId, isl_linkToken = linkToken,
                          isl_requiresPassword = rp, isl_password = pw,
                          isl_expiresAt = Val e\<rparr>)))"

subsection \<open>POST /files/share and POST /files/share-by-id\<close>

record ShareRequest =
  sr_fileId :: int
  sr_email :: string
  sr_permission :: jsval

record ShareByIdRequest =
  sbi_fileId :: int
  sbi_recipientId :: int
  sbi_permission :: jsval

text \<open>
  The three clock readings of a share request: \<open>t_share\<close> for the grant's
  \<^verbatim>\<open>createdAt\<close>, \<open>t_stat\<close> for a Stat row created on the way, \<open>t_upd\<close> for
  \<^verbatim>\<open>lastUpdated\<close>. When \<^verbatim>\<open>updateUserStats\<close> throws, the \<^verbatim>\<open>catch\<close> block passes the
  error to \<^verbatim>\<open>next\<close>; the grant inserted before stays.
\<close>

definition post_files_share ::
  "'s IStorage \<Rightarrow> 's \<Rightarrow> User option \<Rightarrow> ShareRequest \<Rightarrow>
   timestamp \<Rightarrow> timestamp \<Rightarrow> timestamp \<Rightarrow> response \<times> 's" where
  "post_files_share storage st req_user req t_share t_stat t_upd =
     (case req_user of
        None \<Rightarrow> (reply 401 (ErrorBody ''Authentication required''), st)
      | Some user \<Rightarrow>
     (case getFile storage st (sr_fileId req) of
        None \<Rightarrow> (reply 404 (ErrorBody ''File not found''), st)
      | Some file \<Rightarrow>
     if f_ownerId file \<noteq> u_id user then (reply 403 (ErrorBody ''Access denied''), st)
     else
     (case getUserByEmail storage st (sr_email req) of
        None \<Rightarrow> (reply 404 (ErrorBody ''User not found''), st)
      | Some userToShare \<Rightarrow>
     (case insertFileShareSchema_parse (sr_fileId req) (u_id userToShare)
             (sr_permission req) of
        None \<Rightarrow> (reply 400 ValidationErrorBody, st)
      | Some shareData \<Rightarrow>
          (let (fileShare, st1) = createFileShare storage st t_share shareData;
               (thrown, st2) = updateUserStats storage st1 t_stat t_upd (u_id user)
                                 (no_updates\<lparr>up_filesShared := Some 1\<rparr>)
           in case thrown of
                Some e \<Rightarrow> (reply 500 UnhandledErrorBody, st2)
              | None \<Rightarrow> (reply 201 (FileShareBody fileShare), st2))))))"

text \<open>
  The by-id route also calls \<^verbatim>\<open>supabase.shareFile\<close>, an external service, inside a
  \<^verbatim>\<open>try\<close> whose \<^verbatim>\<open>catch\<close> only logs: the call changes neither the store nor the
  response.
\<close>

definition post_files_share_by_id ::
  "'s IStorage \<Rightarrow> 's \<Rightarrow> User option \<Rightarrow> ShareByIdRequest \<Rightarrow>
   timestamp \<Rightarrow> timestamp \<Rightarrow> timestamp \<Rightarrow> response \<times> 's" where
  "post_files_share_by_id storage st req_user req t_share t_stat t_upd =
     (case req_user of
        None \<Rightarrow> (reply 401 (ErrorBody ''Authentication required''), st)
      | Some user \<Rightarrow>
     (case getFile storage st (sbi_fileId req) of
        None \<Rightarrow> (reply 404 (ErrorBody ''File not found''), st)
      | Some file \<Rightarrow>
     if f_ownerId file \<noteq> u_id user then (reply 403 (ErrorBody ''Access denied''), st)
     else
     (case getUser storage st (sbi_recipientId req) of
        None \<Rightarrow> (reply 404 (ErrorBody ''Recipient user not found''), st)
      | Some recipientUser \<Rightarrow>
     (case insertFileShareSchema_parse (sbi_fileId req) (u_id recipientUser)
             (sbi_permission req) of
        None \<Rightarrow> (reply 400 ValidationErrorBody, st)
      | Some shareData \<Rightarrow>
          (let (fileShare, st1) = createFileShare storage st t_share shareData;
               (thrown, st2) = updateUserStats storage st1 t_stat t_upd (u_id user)
                                 (no_updates\<lparr>up_filesShared := Some 1\<rparr>)
           in case thrown of
                Some e \<Rightarrow> (reply 500 UnhandledErrorBody, st2)
              | None \<Rightarrow> (reply 201 (FileShareBody fileShare), st2))))))"

subsection \<open>POST /files/share-link\<close>

text \<open>\<^verbatim>\<open>Buffer.toString('hex')\<close>: two lower-case hexadecimal digits for each byte.\<close>

definition hex_alphabet :: string where
  "hex_alphabet = ''0123456789abcdef''"

definition hex_digit :: "nat \<Rightarrow> char" where
  "hex_digit n = hex_alphabet ! n"

definition hex_byte :: "8 word \<Rightarrow> string" where
  "hex_byte b = [hex_digit (unat b div 16), hex_digit (unat b mod 16)]"

definition toString_hex :: "8 word list \<Rightarrow> string" where
  "toString_hex bytes = concat (map hex_byte bytes)"

text \<open>
  \<^verbatim>\<open>crypto.randomBytes(n)\<close> of Node returns a buffer of \<open>n\<close> bytes taken from the
  cryptographically secure generator of the operating system. The generator is an input
  of the model: \<open>source k\<close> is the \<open>k\<close>-th byte it hands to the call. That these
  bytes cannot be predicted is a property of the generator, not of this program.
\<close>

definition crypto_randomBytes :: "(nat \<Rightarrow> 8 word) \<Rightarrow> nat \<Rightarrow> 8 word list" where
  "crypto_randomBytes source n = map source [0..<n]"

text \<open>
  Dates, after the ECMAScript specification. A \<^verbatim>\<open>Date\<close> holds a time value, the
  milliseconds since the epoch in UTC; \<^verbatim>\<open>getDate\<close> and \<^verbatim>\<open>setDate\<close> work in the local
  time of the server. The time zone is an input of the model: \<open>LocalTZA_utc z t\<close> is the
  offset of local time from UTC in force at the UTC time \<open>t\<close>, \<open>LocalTZA_local z t\<close>
  the offset that the zone assigns to the local time \<open>t\<close>.
  \<^verbatim>\<open>d.getDate()\<close> is the day of the month of \<open>LocalTime t\<close>, and \<^verbatim>\<open>d.setDate(x)\<close> makes
  the time value \<open>TimeClip (UTC (MakeDate (MakeDay year month x) (TimeWithinDay
  (LocalTime t))))\<close>. \<open>MakeDay year month x\<close> is the day number of the first of the
  month plus \<open>x - 1\<close>, so for \<open>x = d.getDate() + n\<close> it is the day number of
  \<open>LocalTime t\<close> plus \<open>n\<close>, whatever the month: the date moves \<open>n\<close> calendar days
  and keeps its local time of day. \<open>TimeClip\<close> gives an invalid date (\<open>None\<close>)
  beyond 8.64e15 milliseconds.
\<close>

record timezone =
  LocalTZA_utc :: "timestamp \<Rightarrow> int"
  LocalTZA_local :: "timestamp \<Rightarrow> int"

definition msPerDay :: int where
  "msPerDay = 86400000"

definition LocalTime :: "timezone \<Rightarrow> timestamp \<Rightarrow> int" where
  "LocalTime z t = t + LocalTZA_utc z t"

definition UTC :: "timezone \<Rightarrow> int \<Rightarrow> timestamp" where
  "UTC z t = t - LocalTZA_local z t"

definition Day :: "int \<Rightarrow> int" where
  "Day t = t div msPerDay"

definition TimeWithinDay :: "int \<Rightarrow> int" where
  "TimeWithinDay t = t mod msPerDay"

definition MakeDate :: "int \<Rightarrow> int \<Rightarrow> int" where
  "MakeDate day time = day * msPerDay + time"

definition TimeClip :: "int \<Rightarrow> timestamp option" where
  "TimeClip t = (if \<bar>t\<bar> > 8640000000000000 then None else Some t)"

text \<open>\<^verbatim>\<open>d.setDate(d.getDate() + n)\<close> on a date with time value \<open>t\<close>.\<close>

definition setDate_getDate_plus :: "timezone \<Rightarrow> timestamp \<Rightarrow> int \<Rightarrow> timestamp option" where
  "setDate_getDate_plus z t n =
     TimeClip (UTC z (MakeDate (Day (LocalTime z t) + n) (TimeWithinDay (LocalTime z t))))"

record ShareLinkRequest =
  slr_fileId :: int
  slr_requirePassword :: jsval
  slr_password :: jsval

text \<open>
  \<open>zone\<close> is the time zone of the server and \<open>source\<close> the random generator behind
  \<^verbatim>\<open>crypto.randomBytes\<close>; \<open>t_issue\<close> is the reading of the clock in the handler,
  \<open>t_row\<close> the one for the row's \<^verbatim>\<open>createdAt\<close>, \<open>APP_DOMAIN\<close> the environment
  variable of that name. The answer repeats the \<^verbatim>\<open>expiresAt\<close> of the handler.
\<close>

definition post_files_share_link ::
  "'s IStorage \<Rightarrow> 's \<Rightarrow> User option \<Rightarrow> ShareLinkRequest \<Rightarrow> timezone \<Rightarrow>
   (nat \<Rightarrow> 8 word) \<Rightarrow> timestamp \<Rightarrow> timestamp \<Rightarrow> string option \<Rightarrow> response \<times> 's" where
  "post_files_share_link storage st req_user req zone source t_issue t_row APP_DOMAIN =
     (case req_user of
        None \<Rightarrow> (reply 401 (ErrorBody ''Authentication required''), st)
      | Some user \<Rightarrow>
     (case getFile storage st (slr_fileId req) of
        None \<Rightarrow> (reply 404 (ErrorBody ''File not found''), st)
      | Some file \<Rightarrow>
     if f_ownerId file \<noteq> u_id user then (reply 403 (ErrorBody ''Access denied''), st)
     else
     (let linkToken = toString_hex (crypto_randomBytes source 16);
          expiresAt = setDate_getDate_plus zone t_issue 7
      in case insertShareLinkSchema_parse (slr_fileId req) linkToken
                (slr_requirePassword req)
                (if truthy (slr_requirePassword req) then slr_password req else JNull)
                expiresAt of
           None \<Rightarrow> (reply 400 ValidationErrorBody, st)
         | Some shareLinkData \<Rightarrow>
             (let (shareLink, st1) = createShareLink storage st t_row shareLinkData;
                  domain = (case APP_DOMAIN of
                              None \<Rightarrow> ''https://blockshare.app''
                            | Some d \<Rightarrow> if d = [] then ''https://blockshare.app'' else d);
                  fullShareLink = domain @ ''/shared/'' @ linkToken
              in (reply 201 (ShareLinkBody fullShareLink expiresAt), st1)))))"

subsection \<open>GET /files/:id/download\<close>

text \<open>Decimal digits of a number, as template literals print an integer.\<close>

fun show_nat :: "nat \<Rightarrow> string" where
  "show_nat n =
     (if n < 10 then [char_of (48 + n)]
      else show_nat (n div 10) @ [char_of (48 + n mod 10)])"

definition show_int :: "int \<Rightarrow> string" where
  "show_int i = (if i < 0 then CHR ''-'' # show_nat (nat (- i)) else show_nat (nat i))"

text \<open>
  \<^verbatim>\<open>FilecoinMockService.retrieveFile\<close> (server/filecoin.ts): the mock keeps the stored
  data in a map from cid to string and throws when the map has nothing, or the empty
  string, for the cid. \<open>None\<close> is the exception.
\<close>

definition retrieveFile :: "(string \<rightharpoonup> string) \<Rightarrow> string \<Rightarrow> string option" where
  "retrieveFile storedFiles cid =
     (case storedFiles cid of
        None \<Rightarrow> None
      | Some d \<Rightarrow> if d = [] then None else Some d)"

text \<open>
  \<open>t_stat\<close> and \<open>t_upd\<close> are the clock readings inside \<^verbatim>\<open>updateUserStats\<close>,
  \<open>t_txid\<close> is \<^verbatim>\<open>Date.now()\<close> in the transaction id and \<open>t_tx\<close> the transaction's
  timestamp.
\<close>

definition get_files_id_download ::
  "'s IStorage \<Rightarrow> 's \<Rightarrow> (string \<rightharpoonup> string) \<Rightarrow> User option \<Rightarrow> int \<Rightarrow>
   timestamp \<Rightarrow> timestamp \<Rightarrow> timestamp \<Rightarrow> timestamp \<Rightarrow> response \<times> 's" where
  "get_files_id_download storage st storedFiles req_user fileId t_stat t_upd t_txid t_tx =
     (case req_user of
        None \<Rightarrow> (reply 401 (ErrorBody ''Authentication required''), st)
      | Some user \<Rightarrow>
     (case getFile storage st fileId of
        None \<Rightarrow> (reply 404 (ErrorBody ''File not found''), st)
      | Some file \<Rightarrow>
     if \<not> checkFileAccess storage st (f_id file) (u_id user)
     then (reply 403 (ErrorBody ''Access denied''), st)
     else
     (case retrieveFile storedFiles (f_cid file) of
        None \<Rightarrow> (reply 500 (ErrorBody ''Failed to download file''), st)
      | Some encryptedData \<Rightarrow>
          (let (thrown, st1) = updateUserStats storage st t_stat t_upd (f_ownerId file)
                                 (no_updates\<lparr>up_downloads := Some 1\<rparr>)
           in case thrown of
                Some e \<Rightarrow> (reply 500 (ErrorBody ''Failed to download file''), st1)
              | None \<Rightarrow>
                  (let (tx, st2) = logTransaction storage st1 t_tx
                         \<lparr>itx_txId = ''tx_'' @ show_int t_txid, itx_cid = f_cid file,
                          itx_fileId = Some (f_id file), itx_type = ''retrieve'',
                          itx_status = ''confirmed'', itx_metadata = ''{}''\<rparr>
                   in (reply 200 (DownloadBody encryptedData (f_encryptionKey file)
                                    (f_name file) (f_type file)),
                       st2))))))"

subsection \<open>GET /stats\<close>

text \<open>
  \<^verbatim>\<open>(n / d).toFixed(1)\<close> for a positive integer \<open>n\<close> and a power of two \<open>d\<close>: the
  quotient is exact in floating point, and \<^verbatim>\<open>toFixed\<close> rounds it to the nearest
  tenth, the larger one on a tie.
\<close>

definition toFixed1 :: "int \<Rightarrow> int \<Rightarrow> string" where
  "toFixed1 n d =
     (let tenths = (20 * n + d) div (2 * d)
      in show_int (tenths div 10) @ ''.'' @ show_int (tenths mod 10))"

definition storageUsedStr :: "int \<Rightarrow> string" where
  "storageUsedStr used =
     (let str = show_int used @ '' B'';
          str = (if used \<noteq> 0 \<and> used > 1024
                 then toFixed1 used 1024 @ '' KB'' else str);
          str = (if used \<noteq> 0 \<and> used > 1024 * 1024
                 then toFixed1 used (1024 * 1024) @ '' MB'' else str);
          str = (if used \<noteq> 0 \<and> used > 1024 * 1024 * 1024
                 then toFixed1 used (1024 * 1024 * 1024) @ '' GB'' else str)
      in str)"

definition get_stats :: "'s IStorage \<Rightarrow> 's \<Rightarrow> User option \<Rightarrow> response \<times> 's" where
  "get_stats storage st req_user =
     (case req_user of
        None \<Rightarrow> (reply 401 (ErrorBody ''Authentication required''), st)
      | Some user \<Rightarrow>
     (case getUserStats storage st (u_id user) of
        None \<Rightarrow> (reply 404 (ErrorBody ''Stats not found''), st)
      | Some stat \<Rightarrow>
          (reply 200 (StatsBody (st_filesUploaded stat) (st_filesShared stat)
                        (storageUsedStr (st_storageUsed stat)) (st_downloads stat)),
           st)))"

section \<open>Store invariants and call sequences\<close>

text \<open>
  What the constructor of \<^verbatim>\<open>MemStorage\<close> establishes and every method keeps: each map
  holds a row under the row's own id (the stats map under the row's user id), below the
  counter the next id is taken from, and the three clamped counters of a Stat row are
  not negative.
\<close>

definition keyed_by :: "('v \<Rightarrow> int) \<Rightarrow> 'v jsmap \<Rightarrow> bool" where
  "keyed_by idf m \<longleftrightarrow> distinct (map fst m) \<and> (\<forall>e \<in> set m. idf (snd e) = fst e)"

definition ids_below :: "('v \<Rightarrow> int) \<Rightarrow> int \<Rightarrow> 'v list \<Rightarrow> bool" where
  "ids_below idf n rows \<longleftrightarrow> (\<forall>r \<in> set rows. idf r < n)"

definition clamped :: "Stat \<Rightarrow> bool" where
  "clamped r \<longleftrightarrow> 0 \<le> st_filesUploaded r \<and> 0 \<le> st_filesShared r \<and> 0 \<le> st_storageUsed r"

definition MemStorage_inv :: "MemStorage \<Rightarrow> bool" where
  "MemStorage_inv s \<longleftrightarrow>
     keyed_by u_id (usersMap s) \<and>
     ids_below u_id (id_users (currentId s)) (Map_values (usersMap s)) \<and>
     keyed_by f_id (filesMap s) \<and>
     ids_below f_id (id_files (currentId s)) (Map_values (filesMap s)) \<and>
     keyed_by fs_id (fileSharesMap s) \<and>
     ids_below fs_id (id_fileShares (currentId s)) (Map_values (fileSharesMap s)) \<and>
     keyed_by sl_id (shareLinksMap s) \<and>
     ids_below sl_id (id_shareLinks (currentId s)) (Map_values (shareLinksMap s)) \<and>
     keyed_by tx_id (transactionsMap s) \<and>
     ids_below tx_id (id_transactions (currentId s)) (Map_values (transactionsMap s)) \<and>
     keyed_by st_userId (statsMap s) \<and>
     ids_below st_id (id_stats (currentId s)) (Map_values (statsMap s)) \<and>
     list_all clamped (Map_values (statsMap s))"

text \<open>
  For the database: the primary key of each table is unique and below the next value of
  its sequence, and the clamped counters are not negative.
\<close>

definition serial :: "('r \<Rightarrow> int) \<Rightarrow> int \<Rightarrow> 'r list \<Rightarrow> bool" where
  "serial idf n rows \<longleftrightarrow> distinct (map idf rows) \<and> ids_below idf n rows"

definition Database_inv :: "Database \<Rightarrow> bool" where
  "Database_inv db \<longleftrightarrow>
     serial u_id (users_id_seq db) (users db) \<and>
     serial f_id (files_id_seq db) (files db) \<and>
     serial fs_id (file_shares_id_seq db) (fileShares db) \<and>
     serial sl_id (share_links_id_seq db) (shareLinks db) \<and>
     serial tx_id (transactions_id_seq db) (transactions db) \<and>
     serial st_id (stats_id_seq db) (stats db) \<and>
     list_all clamped (stats db)"

text \<open>
  What the engine guarantees of the stored counters: each is in the range of its 32-bit
  column.
\<close>

definition Database_int4 :: "Database \<Rightarrow> bool" where
  "Database_int4 db \<longleftrightarrow> list_all int4_stat (stats db)"

definition Database_empty :: Database where
  "Database_empty =
     \<lparr>users = [], files = [], fileShares = [], shareLinks = [], transactions = [],
      stats = [], users_id_seq = 1, files_id_seq = 1, file_shares_id_seq = 1,
      share_links_id_seq = 1, transactions_id_seq = 1, stats_id_seq = 1\<rparr>"

text \<open>
  The mutating methods of \<^verbatim>\<open>IStorage\<close> as data, so that a statement can range over
  every call; a call is paired with its clock reading.
\<close>

datatype storage_call =
    CreateUser InsertUser
  | CreateFile InsertFile
  | DeleteFile int
  | CreateFileShare InsertFileShare
  | CreateShareLink InsertShareLink
  | LogTransaction InsertTransaction
  | CreateUserStats int
  | UpdateUserStats int StatUpdates

fun MemStorage_call :: "timestamp \<times> storage_call \<Rightarrow> MemStorage \<Rightarrow> MemStorage" where
  "MemStorage_call (now, CreateUser d) s = snd (MemStorage_createUser s now d)"
| "MemStorage_call (now, CreateFile d) s = snd (MemStorage_createFile s now d)"
| "MemStorage_call (now, DeleteFile i) s = MemStorage_deleteFile s i"
| "MemStorage_call (now, CreateFileShare d) s = snd (MemStorage_createFileShare s now d)"
| "MemStorage_call (now, CreateShareLink d) s = snd (MemStorage_createShareLink s now d)"
| "MemStorage_call (now, LogTransaction d) s = snd (MemStorage_logTransaction s now d)"
| "MemStorage_call (now, CreateUserStats u) s = snd (MemStorage_createUserStats s now u)"
| "MemStorage_call (now, UpdateUserStats u d) s =
     snd (MemStorage_updateUserStats s now now u d)"

fun DatabaseStorage_call :: "timestamp \<times> storage_call \<Rightarrow> Database \<Rightarrow> Database" where
  "DatabaseStorage_call (now, CreateUser d) db = snd (DatabaseStorage_createUser db now d)"
| "DatabaseStorage_call (now, CreateFile d) db = snd (DatabaseStorage_createFile db now d)"
| "DatabaseStorage_call (now, DeleteFile i) db = snd (DatabaseStorage_deleteFile db i)"
| "DatabaseStorage_call (now, CreateFileShare d) db =
     snd (DatabaseStorage_createFileShare db now d)"
| "DatabaseStorage_call (now, CreateShareLink d) db =
     snd (DatabaseStorage_createShareLink db now d)"
| "DatabaseStorage_call (now, LogTransaction d) db =
     snd (DatabaseStorage_logTransaction db now d)"
| "DatabaseStorage_call (now, CreateUserStats u) db =
     snd (DatabaseStorage_createUserStats db now u)"
| "DatabaseStorage_call (now, UpdateUserStats u d) db =
     snd (DatabaseStorage_updateUserStats db now now u d)"

text \<open>A run of calls, applied left to right.\<close>

definition MemStorage_run :: "(timestamp \<times> storage_call) list \<Rightarrow> MemStorage \<Rightarrow> MemStorage" where
  "MemStorage_run calls s = fold MemStorage_call calls s"

definition DatabaseStorage_run :: "(timestamp \<times> storage_call) list \<Rightarrow> Database \<Rightarrow> Database" where
  "DatabaseStorage_run calls db = fold DatabaseStorage_call calls db"

text \<open>
  The grant rows of a pair (file id, user id), and a run of \<^verbatim>\<open>createFileShare\<close> calls
  for one pair, each with its own clock reading and permission.
\<close>

definition grants_for :: "int \<Rightarrow> int \<Rightarrow> FileShare list \<Rightarrow> FileShare list" where
  "grants_for F U rows = filter (\<lambda>r. fs_fileId r = F \<and> fs_userId r = U) rows"

definition grant_calls :: "int \<Rightarrow> int \<Rightarrow> (timestamp \<times> string) list \<Rightarrow> (timestamp \<times> storage_call) list" where
  "grant_calls F U tps =
     map (\<lambda>tp. (fst tp, CreateFileShare
                  \<lparr>ifs_fileId = F, ifs_userId = U, ifs_permission = snd tp\<rparr>)) tps"


definition downloads_of :: "Stat option \<Rightarrow> int" where
  "downloads_of r = (case r of None \<Rightarrow> 0 | Some stat \<Rightarrow> st_downloads stat)"

text \<open>
  The calls that adjust the statistics of user \<open>u\<close>: \<^verbatim>\<open>updateUserStats\<close>, and
  \<^verbatim>\<open>createUserStats\<close>, which the program calls from \<^verbatim>\<open>updateUserStats\<close> only.
\<close>

fun adjusts_stats :: "int \<Rightarrow> storage_call \<Rightarrow> bool" where
  "adjusts_stats u (UpdateUserStats u' d) = (u' = u)"
| "adjusts_stats u (CreateUserStats u') = (u' = u)"
| "adjusts_stats u c = False"

section \<open>A sample store\<close>

text \<open>
  A small history, used to evaluate the statements below on concrete data: next to the
  test user (id 1) there are alice (id 2) and bob (id 3); alice uploads a file of 100
  bytes (id 1), shares it with bob, and issues a share link for it that expired long
  ago. The database runs the same calls after creating the test user itself.
\<close>

definition testuser :: InsertUser where
  "testuser = \<lparr>iu_username = ''testuser'',
     iu_password = ''5e884898da28047151d0e56f8dc6292773603d0d6aabbdd62a11ef721d1542d8'',
     iu_email = ''test@example.com''\<rparr>"

definition alice :: InsertUser where
  "alice = \<lparr>iu_username = ''alice'', iu_password = ''a1'', iu_email = ''alice@example.com''\<rparr>"

definition bob :: InsertUser where
  "bob = \<lparr>iu_username = ''bob'', iu_password = ''b2'', iu_email = ''bob@example.com''\<rparr>"

definition sample_token :: string where
  "sample_token = ''000102030405060708090a0b0c0d0e0f''"

definition sample_calls :: "(timestamp \<times> storage_call) list" where
  "sample_calls =
     [(1000, CreateUser alice),
      (2000, CreateUser bob),
      (3000, CreateFile \<lparr>if_name = ''report.pdf'', if_size = 100,
                if_type = ''application/pdf'', if_cid = ''Qm1'',
                if_encryptionKey = ''k'', if_ownerId = 2\<rparr>),
      (3001, UpdateUserStats 2 (no_updates\<lparr>up_filesUploaded := Some 1,
                up_storageUsed := Some 100\<rparr>)),
      (3002, LogTransaction \<lparr>itx_txId = ''tx_3002'', itx_cid = ''Qm1'',
                itx_fileId = Some 1, itx_type = ''store'', itx_status = ''confirmed'',
                itx_metadata = ''{fileSize: 100}''\<rparr>),
      (4000, CreateFileShare \<lparr>ifs_fileId = 1, ifs_userId = 3, ifs_permission = ''view''\<rparr>),
      (5000, CreateShareLink \<lparr>isl_fileId = 1, isl_linkToken = sample_token,
                isl_requiresPassword = Val True, isl_password = Val ''secret'',
                isl_expiresAt = Val 6000\<rparr>)]"

definition sample_mem :: MemStorage where
  "sample_mem = MemStorage_run sample_calls (MemStorage_new 0)"

definition sample_db :: Database where
  "sample_db = DatabaseStorage_run ((0, CreateUser testuser) # sample_calls) Database_empty"


definition sample_file :: File where
  "sample_file = \<lparr>f_id = 1, f_name = ''report.pdf'', f_size = 100,
     f_type = ''application/pdf'', f_cid = ''Qm1'', f_encryptionKey = ''k'',
     f_ownerId = 2, f_uploadedAt = 3000, f_status = ''encrypted'', f_owner = ''alice''\<rparr>"

definition sample_share :: FileShare where
  "sample_share = \<lparr>fs_id = 1, fs_fileId = 1, fs_userId = 3, fs_permission = ''view'',
     fs_createdAt = 4000\<rparr>"

definition sample_link :: ShareLink where
  "sample_link = \<lparr>sl_id = 1, sl_fileId = 1, sl_linkToken = sample_token,
     sl_requiresPassword = Some True, sl_password = Some ''secret'',
     sl_expiresAt = Some 6000, sl_createdAt = 5000\<rparr>"

definition sample_tx :: Transaction where
  "sample_tx = \<lparr>tx_id = 1, tx_txId = ''tx_3002'', tx_cid = ''Qm1'', tx_fileId = Some 1,
     tx_type = ''store'', tx_status = ''confirmed'', tx_timestamp = 3002,
     tx_metadata = ''{fileSize: 100}''\<rparr>"

definition sample_stat :: Stat where
  "sample_stat = \<lparr>st_id = 1, st_userId = 2, st_filesUploaded = 1, st_filesShared = 0,
     st_storageUsed = 100, st_downloads = 0, st_lastUpdated = 3001\<rparr>"

definition sample_user :: "int \<Rightarrow> InsertUser \<Rightarrow> timestamp \<Rightarrow> User" where
  "sample_user i d t = \<lparr>u_id = i, u_username = iu_username d, u_password = iu_password d,
     u_email = iu_email d, u_createdAt = t\<rparr>"

text \<open>Two requests of alice to share file 1 with the test user, by email and by id.\<close>

definition sample_share_request :: ShareRequest where
  "sample_share_request =
     \<lparr>sr_fileId = 1, sr_email = ''test@example.com'', sr_permission = JStr ''download''\<rparr>"

definition sample_share_by_id_request :: ShareByIdRequest where
  "sample_share_by_id_request =
     \<lparr>sbi_fileId = 1, sbi_recipientId = 1, sbi_permission = JStr ''download''\<rparr>"

text \<open>
  A request of alice for a password-protected link to file 1, the same request without
  protection, and a random source whose first sixteen bytes are \<open>sample_bytes\<close>.
\<close>

definition sample_link_request :: ShareLinkRequest where
  "sample_link_request =
     \<lparr>slr_fileId = 1, slr_requirePassword = JBool True, slr_password = JStr ''pw''\<rparr>"

definition sample_open_link_request :: ShareLinkRequest where
  "sample_open_link_request =
     \<lparr>slr_fileId = 1, slr_requirePassword = JBool False, slr_password = JStr ''pw''\<rparr>"

definition sample_bytes :: "8 word list" where
  "sample_bytes = [0x1f, 0xa0, 2, 3, 4, 5, 6, 7, 8, 9, 10, 11, 12, 13, 14, 0xff]"

definition sample_source :: "nat \<Rightarrow> 8 word" where
  "sample_source k = (if k < 16 then sample_bytes ! k else 0)"

text \<open>
  Two time zones: UTC, and one that is an hour ahead of UTC until 2025-03-30 01:00 UTC
  (time value 1743296400000) and two hours ahead from then on, as central Europe is. A local
  time of the hour that the change skips takes the offset before the change.
\<close>

definition utc_zone :: timezone where
  "utc_zone = \<lparr>LocalTZA_utc = (\<lambda>t. 0), LocalTZA_local = (\<lambda>t. 0)\<rparr>"

definition cet_zone :: timezone where
  "cet_zone =
     \<lparr>LocalTZA_utc = (\<lambda>t. if t < 1743296400000 then 3600000 else 7200000),
      LocalTZA_local = (\<lambda>t. if t < 1743296400000 + 7200000 then 3600000 else 7200000)\<rparr>"


definition sample_storedFiles :: "string \<rightharpoonup> string" where
  "sample_storedFiles = [''Qm1'' \<mapsto> ''U2FsdGVkX1'']"

lemma first_filter_None: "first (filter P xs) = None \<longleftrightarrow> (\<forall>x \<in> set xs. \<not> P x)"
  by (induction xs) auto

lemma first_filter_Some: "first (filter P xs) = Some x \<Longrightarrow> x \<in> set xs \<and> P x"
  by (induction xs) (auto split: if_splits)

lemma first_filter_find: "first (filter P xs) = find P xs"
  by (induction xs) auto

text \<open>
  Claim C1. \<^verbatim>\<open>checkFileAccess(F, U)\<close> is true when the file \<open>F\<close> exists and \<open>U\<close> is
  its owner; for an existing file with another owner it is true exactly when some
  FileShare row has file id \<open>F\<close> and user id \<open>U\<close>, whatever the row's permission;
  for a file id without a file row it is false for every user. This holds for
  \<^verbatim>\<open>MemStorage\<close> and for \<^verbatim>\<open>DatabaseStorage\<close>.
\<close>

theorem C1_checkFileAccess:
  "(MemStorage_getFile s F = Some file \<and> f_ownerId file = U
      \<longrightarrow> MemStorage_checkFileAccess s F U)
   \<and> (MemStorage_getFile s F = Some file \<and> f_ownerId file \<noteq> U
      \<longrightarrow> (MemStorage_checkFileAccess s F U \<longleftrightarrow>
           (\<exists>share \<in> set (Map_values (fileSharesMap s)).
              fs_fileId share = F \<and> fs_userId share = U)))
   \<and> (MemStorage_getFile s F = None \<longrightarrow> \<not> MemStorage_checkFileAccess s F U)
   \<and> (DatabaseStorage_getFile db F = Some file \<and> f_ownerId file = U
      \<longrightarrow> DatabaseStorage_checkFileAccess db F U)
   \<and> (DatabaseStorage_getFile db F = Some file \<and> f_ownerId file \<noteq> U
      \<longrightarrow> (DatabaseStorage_checkFileAccess db F U \<longleftrightarrow>
           (\<exists>share \<in> set (fileShares db). fs_fileId share = F \<and> fs_userId share = U)))
   \<and> (DatabaseStorage_getFile db F = None \<longrightarrow> \<not> DatabaseStorage_checkFileAccess db F U)"
  apply (intro conjI impI)
  apply (auto simp: MemStorage_getFile_def MemStorage_checkFileAccess_def list_ex_iff
     DatabaseStorage_getFile_def DatabaseStorage_checkFileAccess_def with_owner_def
     FileRow.extend_def first_filter_None
     split: option.splits dest: first_filter_Some)
  done

subsection \<open>Map lemmas\<close>

lemma Map_get_Map_set: "Map_get (Map_set m k v) k' = (if k' = k then Some v else Map_get m k')"
  by (induction m) (auto simp: Map_get_def)

lemma Map_set_fresh: "k \<notin> fst ` set m \<Longrightarrow> Map_set m k v = m @ [(k, v)]"
  by (induction m) auto

lemma Map_set_in: "(k, v) \<in> set (Map_set m k v)"
  by (induction m) auto

lemma set_Map_set_subset: "set (Map_set m k v) \<subseteq> insert (k, v) (set m)"
  by (induction m) (auto split: if_splits)

lemma keys_Map_set:
  "map fst (Map_set m k v) = (if k \<in> fst ` set m then map fst m else map fst m @ [k])"
  by (induction m) force+

lemma keyed_by_Map_set: "keyed_by idf m \<Longrightarrow> idf v = k \<Longrightarrow> keyed_by idf (Map_set m k v)"
  unfolding keyed_by_def using set_Map_set_subset [of m k v]
  by (auto simp: keys_Map_set)

lemma keyed_by_filter: "keyed_by idf m \<Longrightarrow> keyed_by idf (filter P m)"
  unfolding keyed_by_def by (auto simp: distinct_map_filter)

lemma keyed_by_Map_delete: "keyed_by idf m \<Longrightarrow> keyed_by idf (Map_delete m k)"
  unfolding Map_delete_def by (rule keyed_by_filter)

lemma ids_below_Map_set:
  "ids_below idf n (Map_values m) \<Longrightarrow> idf v < n' \<Longrightarrow> n \<le> n' \<Longrightarrow>
   ids_below idf n' (Map_values (Map_set m k v))"
  unfolding ids_below_def Map_values_def using set_Map_set_subset [of m k v]
  by fastforce

lemma ids_below_filter:
  "ids_below idf n (Map_values m) \<Longrightarrow> ids_below idf n (Map_values (filter P m))"
  unfolding ids_below_def Map_values_def by auto

lemma clamped_Map_set:
  "list_all clamped (Map_values m) \<Longrightarrow> clamped v \<Longrightarrow> list_all clamped (Map_values (Map_set m k v))"
  unfolding Map_values_def list_all_iff using set_Map_set_subset [of m k v]
  by fastforce

lemma keyed_below_fresh:
  "keyed_by idf m \<Longrightarrow> ids_below idf n (Map_values m) \<Longrightarrow> n \<notin> fst ` set m"
  unfolding keyed_by_def ids_below_def Map_values_def by fastforce

lemma fold_Map_delete:
  "fold (\<lambda>r m. Map_delete m (idf r)) rs m = filter (\<lambda>e. fst e \<notin> idf ` set rs) m"
  by (induction rs arbitrary: m) (auto simp: Map_delete_def intro: filter_cong)

lemma fold_Map_delete_keyed:
  assumes "keyed_by idf m"
  shows "fold (\<lambda>r m. Map_delete m (idf r)) (filter P (Map_values m)) m
         = filter (\<lambda>e. \<not> P (snd e)) m"
proof -
  have "fst e \<in> idf ` set (filter P (Map_values m)) \<longleftrightarrow> P (snd e)" if "e \<in> set m" for e
  proof
    assume "fst e \<in> idf ` set (filter P (Map_values m))"
    then obtain e' where e': "e' \<in> set m" "P (snd e')" "fst e = idf (snd e')"
      by (auto simp: Map_values_def)
    with assms have "fst e = fst e'" by (simp add: keyed_by_def)
    with assms that e' have "e = e'"
      by (metis keyed_by_def eq_key_imp_eq_value prod.collapse)
    with e' show "P (snd e)" by simp
  next
    assume "P (snd e)"
    with that assms show "fst e \<in> idf ` set (filter P (Map_values m))"
      by (force simp: Map_values_def keyed_by_def)
  qed
  then have "(fst e \<notin> idf ` set (filter P (Map_values m))) = (\<not> P (snd e))"
    if "e \<in> set m" for e using that by simp
  then show ?thesis
    unfolding fold_Map_delete by (rule filter_cong [OF refl])
qed

subsection \<open>The invariant of MemStorage\<close>

lemma ids_below_Map_set_next:
  "ids_below idf n (Map_values m) \<Longrightarrow> idf v = n \<Longrightarrow>
   ids_below idf (n + 1) (Map_values (Map_set m k v))"
  by (rule ids_below_Map_set [of idf n]) simp_all

lemma ids_below_Map_set_same:
  "ids_below idf n (Map_values m) \<Longrightarrow> idf v < n \<Longrightarrow>
   ids_below idf n (Map_values (Map_set m k v))"
  by (rule ids_below_Map_set [of idf n]) simp_all

lemma MemStorage_inv_empty: "MemStorage_inv MemStorage_empty"
  by (simp add: MemStorage_inv_def MemStorage_empty_def keyed_by_def ids_below_def Map_values_def)

lemma MemStorage_inv_createUser:
  "MemStorage_inv s \<Longrightarrow> MemStorage_inv (snd (MemStorage_createUser s now d))"
  by (simp add: MemStorage_inv_def MemStorage_createUser_def Let_def
      keyed_by_Map_set ids_below_Map_set_next ids_below_Map_set_same)

lemma MemStorage_inv_new: "MemStorage_inv (MemStorage_new now)"
  unfolding MemStorage_new_def by (intro MemStorage_inv_createUser MemStorage_inv_empty)

lemma MemStorage_inv_createFile:
  "MemStorage_inv s \<Longrightarrow> MemStorage_inv (snd (MemStorage_createFile s now d))"
  by (simp add: MemStorage_inv_def MemStorage_createFile_def Let_def
      keyed_by_Map_set ids_below_Map_set_next ids_below_Map_set_same)

lemma MemStorage_inv_createFileShare:
  "MemStorage_inv s \<Longrightarrow> MemStorage_inv (snd (MemStorage_createFileShare s now d))"
  by (simp add: MemStorage_inv_def MemStorage_createFileShare_def Let_def
      keyed_by_Map_set ids_below_Map_set_next ids_below_Map_set_same)

lemma MemStorage_inv_createShareLink:
  "MemStorage_inv s \<Longrightarrow> MemStorage_inv (snd (MemStorage_createShareLink s now d))"
  by (simp add: MemStorage_inv_def MemStorage_createShareLink_def Let_def
      keyed_by_Map_set ids_below_Map_set_next ids_below_Map_set_same)

lemma MemStorage_inv_logTransaction:
  "MemStorage_inv s \<Longrightarrow> MemStorage_inv (snd (MemStorage_logTransaction s now d))"
  by (simp add: MemStorage_inv_def MemStorage_logTransaction_def Let_def
      keyed_by_Map_set ids_below_Map_set_next ids_below_Map_set_same)

lemma ids_below_mono: "ids_below idf n rows \<Longrightarrow> n \<le> n' \<Longrightarrow> ids_below idf n' rows"
  unfolding ids_below_def by fastforce

lemma MemStorage_inv_createUserStats:
  "MemStorage_inv s \<Longrightarrow> MemStorage_inv (snd (MemStorage_createUserStats s now u))"
  by (simp add: MemStorage_inv_def MemStorage_createUserStats_def Let_def
      keyed_by_Map_set ids_below_Map_set_next ids_below_Map_set_same clamped_Map_set clamped_def)

lemma MemStorage_deleteFile_eq:
  "MemStorage_deleteFile s i =
     s\<lparr>filesMap := filter (\<lambda>e. fst e \<noteq> i) (filesMap s),
       fileSharesMap :=
         filter (\<lambda>e. fst e \<notin> fs_id ` {r \<in> set (Map_values (fileSharesMap s)). fs_fileId r = i})
           (fileSharesMap s),
       shareLinksMap :=
         filter (\<lambda>e. fst e \<notin> sl_id ` {r \<in> set (Map_values (shareLinksMap s)). sl_fileId r = i})
           (shareLinksMap s)\<rparr>"
  unfolding MemStorage_deleteFile_def Let_def fold_Map_delete
  by (simp add: Map_delete_def)

lemma MemStorage_inv_deleteFile:
  "MemStorage_inv s \<Longrightarrow> MemStorage_inv (MemStorage_deleteFile s i)"
  by (simp add: MemStorage_inv_def MemStorage_deleteFile_eq keyed_by_filter ids_below_filter)

lemma Map_get_keyed:
  "keyed_by idf m \<Longrightarrow> Map_get m k = Some v \<Longrightarrow> idf v = k \<and> v \<in> set (Map_values m)"
  unfolding keyed_by_def Map_get_def Map_values_def
  by (force dest: map_of_SomeD)

lemma MemStorage_inv_updateUserStats:
  assumes "MemStorage_inv s"
  shows "MemStorage_inv (snd (MemStorage_updateUserStats s now0 now u d))"
proof (cases "Map_get (statsMap s) u")
  case None
  with assms show ?thesis
    by (simp add: MemStorage_inv_def MemStorage_updateUserStats_def
        MemStorage_createUserStats_def Let_def
        keyed_by_Map_set ids_below_Map_set_next ids_below_Map_set_same clamped_Map_set clamped_def)
next
  case (Some stat)
  with assms have "st_userId stat = u" "stat \<in> set (Map_values (statsMap s))"
    using Map_get_keyed [of st_userId "statsMap s" u stat] by (simp_all add: MemStorage_inv_def)
  moreover from this assms have "st_id stat < id_stats (currentId s)"
    by (simp add: MemStorage_inv_def ids_below_def)
  ultimately show ?thesis using assms Some
    by (simp add: MemStorage_inv_def MemStorage_updateUserStats_def Let_def
        keyed_by_Map_set ids_below_Map_set_next ids_below_Map_set_same clamped_Map_set clamped_def)
qed

lemma MemStorage_inv_call: "MemStorage_inv s \<Longrightarrow> MemStorage_inv (MemStorage_call c s)"
  by (cases c, cases "snd c")
     (simp_all add: MemStorage_inv_createUser MemStorage_inv_createFile
        MemStorage_inv_deleteFile MemStorage_inv_createFileShare
        MemStorage_inv_createShareLink MemStorage_inv_logTransaction
        MemStorage_inv_createUserStats MemStorage_inv_updateUserStats)

lemma MemStorage_inv_run: "MemStorage_inv s \<Longrightarrow> MemStorage_inv (MemStorage_run calls s)"
  unfolding MemStorage_run_def
  by (induction calls arbitrary: s) (simp_all add: MemStorage_inv_call)

subsection \<open>The invariant of the database\<close>

lemma serial_append:
  "serial idf n rows \<Longrightarrow> idf r = n \<Longrightarrow> serial idf (n + 1) (rows @ [r])"
  unfolding serial_def ids_below_def by fastforce

lemma serial_filter: "serial idf n rows \<Longrightarrow> serial idf n (filter P rows)"
  unfolding serial_def ids_below_def by (auto simp: distinct_map_filter)

lemma serial_map:
  "serial idf n rows \<Longrightarrow> (\<And>r. idf (f r) = idf r) \<Longrightarrow> serial idf n (map f rows)"
  unfolding serial_def ids_below_def by (simp add: comp_def)

lemma Database_inv_empty: "Database_inv Database_empty"
  by (simp add: Database_inv_def Database_empty_def serial_def ids_below_def)

lemma Database_inv_createUser:
  "Database_inv db \<Longrightarrow> Database_inv (snd (DatabaseStorage_createUser db now d))"
  by (simp add: Database_inv_def DatabaseStorage_createUser_def Let_def serial_append)

lemma Database_inv_createFile:
  "Database_inv db \<Longrightarrow> Database_inv (snd (DatabaseStorage_createFile db now d))"
  by (simp add: Database_inv_def DatabaseStorage_createFile_def Let_def serial_append)

lemma Database_inv_deleteFile:
  "Database_inv db \<Longrightarrow> Database_inv (snd (DatabaseStorage_deleteFile db i))"
  by (simp add: Database_inv_def DatabaseStorage_deleteFile_def Let_def serial_filter)

lemma Database_inv_createFileShare:
  "Database_inv db \<Longrightarrow> Database_inv (snd (DatabaseStorage_createFileShare db now d))"
  by (simp add: Database_inv_def DatabaseStorage_createFileShare_def Let_def serial_append)

lemma Database_inv_createShareLink:
  "Database_inv db \<Longrightarrow> Database_inv (snd (DatabaseStorage_createShareLink db now d))"
  by (simp add: Database_inv_def DatabaseStorage_createShareLink_def Let_def serial_append)

lemma Database_inv_logTransaction:
  "Database_inv db \<Longrightarrow> Database_inv (snd (DatabaseStorage_logTransaction db now d))"
  by (simp add: Database_inv_def DatabaseStorage_logTransaction_def Let_def serial_append)

lemma Database_inv_createUserStats:
  "Database_inv db \<Longrightarrow> Database_inv (snd (DatabaseStorage_createUserStats db now u))"
  by (simp add: Database_inv_def DatabaseStorage_createUserStats_def Let_def serial_append
      clamped_def)

text \<open>The row that the update starts from, and the database it is applied to.\<close>

lemma DatabaseStorage_updateUserStats_eq:
  "snd (DatabaseStorage_updateUserStats db now0 now u d) =
     (let (userStat, db1) = (case DatabaseStorage_getUserStats db u of
                               None \<Rightarrow> DatabaseStorage_createUserStats db now0 u
                             | Some userStat \<Rightarrow> (userStat, db))
      in if \<not> int4_stat (newValues userStat now d userStat) then db1
         else db1\<lparr>stats := map (\<lambda>r. if st_id r = st_id userStat
                                        then newValues userStat now d r else r)
                               (stats db1)\<rparr>)"
  by (simp add: DatabaseStorage_updateUserStats_def Let_def split: prod.splits)

lemma clamped_newValues: "clamped (newValues userStat now d r)"
  by (simp add: clamped_def newValues_def)

lemma Database_inv_bump:
  "Database_inv db \<Longrightarrow>
   Database_inv (db\<lparr>stats := map (\<lambda>r. if st_id r = i then newValues userStat now d r else r)
                               (stats db)\<rparr>)"
  by (auto simp: Database_inv_def serial_map newValues_def list_all_iff clamped_def)

lemma Database_inv_updateUserStats:
  "Database_inv db \<Longrightarrow> Database_inv (snd (DatabaseStorage_updateUserStats db now0 now u d))"
  unfolding DatabaseStorage_updateUserStats_eq
  by (auto simp: Let_def split: option.splits prod.splits
      intro!: Database_inv_bump dest: Database_inv_createUserStats [of db now0 u])

lemma Database_inv_call: "Database_inv db \<Longrightarrow> Database_inv (DatabaseStorage_call c db)"
  by (cases c, cases "snd c")
     (simp_all add: Database_inv_createUser Database_inv_createFile
        Database_inv_deleteFile Database_inv_createFileShare
        Database_inv_createShareLink Database_inv_logTransaction
        Database_inv_createUserStats Database_inv_updateUserStats)

lemma Database_inv_run: "Database_inv db \<Longrightarrow> Database_inv (DatabaseStorage_run calls db)"
  unfolding DatabaseStorage_run_def
  by (induction calls arbitrary: db) (simp_all add: Database_inv_call)

lemma sample_mem_eq:
  "sample_mem =
     \<lparr>usersMap = [(1, sample_user 1 testuser 0), (2, sample_user 2 alice 1000),
                  (3, sample_user 3 bob 2000)],
      filesMap = [(1, sample_file)],
      fileSharesMap = [(1, sample_share)],
      shareLinksMap = [(1, sample_link)],
      transactionsMap = [(1, sample_tx)],
      statsMap = [(2, sample_stat)],
      currentId = \<lparr>id_users = 4, id_files = 2, id_fileShares = 2, id_shareLinks = 2,
                   id_transactions = 2, id_stats = 2\<rparr>\<rparr>"
  by (simp add: sample_mem_def MemStorage_run_def sample_calls_def MemStorage_new_def
      MemStorage_empty_def MemStorage_createUser_def MemStorage_createFile_def
      MemStorage_updateUserStats_def MemStorage_createUserStats_def
      MemStorage_logTransaction_def MemStorage_createFileShare_def
      MemStorage_createShareLink_def Let_def Map_get_def owner_name_def
      sample_user_def testuser_def alice_def bob_def sample_file_def sample_share_def
      sample_link_def sample_tx_def sample_stat_def no_updates_def)

lemma sample_db_eq:
  "sample_db =
     \<lparr>users = [sample_user 1 testuser 0, sample_user 2 alice 1000, sample_user 3 bob 2000],
      files = [FileRow.truncate sample_file],
      fileShares = [sample_share],
      shareLinks = [sample_link],
      transactions = [sample_tx],
      stats = [sample_stat],
      users_id_seq = 4, files_id_seq = 2, file_shares_id_seq = 2,
      share_links_id_seq = 2, transactions_id_seq = 2, stats_id_seq = 2\<rparr>"
  by (simp add: sample_db_def DatabaseStorage_run_def sample_calls_def Database_empty_def
      DatabaseStorage_createUser_def DatabaseStorage_createFile_def
      DatabaseStorage_updateUserStats_def DatabaseStorage_createUserStats_def
      DatabaseStorage_getUserStats_def newValues_def
      DatabaseStorage_logTransaction_def DatabaseStorage_createFileShare_def
      DatabaseStorage_createShareLink_def Let_def
      sample_user_def testuser_def alice_def bob_def sample_file_def sample_share_def
      sample_link_def sample_tx_def sample_stat_def no_updates_def FileRow.truncate_def
      int4_stat_def int4_def)

lemma sample_getFile:
  "MemStorage_getFile sample_mem 1 = Some sample_file"
  "MemStorage_getFile sample_mem 7 = None"
  "DatabaseStorage_getFile sample_db 1 = Some sample_file"
  "DatabaseStorage_getFile sample_db 7 = None"
  by (simp_all add: sample_mem_eq sample_db_eq MemStorage_getFile_def Map_get_def
      DatabaseStorage_getFile_def owner_name_def sample_file_def sample_user_def alice_def
      with_owner_def FileRow.extend_def FileRow.truncate_def File.fields_def)

text \<open>
  Claim C1 on the sample store: alice (2) owns file 1, bob (3) holds a grant, the test
  user (1) has neither, and there is no file 7.
\<close>

theorem C1_checkFileAccess_witness:
  "MemStorage_getFile sample_mem 1 = Some sample_file \<and> f_ownerId sample_file = 2
   \<and> MemStorage_checkFileAccess sample_mem 1 2
   \<and> MemStorage_checkFileAccess sample_mem 1 3
   \<and> \<not> MemStorage_checkFileAccess sample_mem 1 1
   \<and> MemStorage_getFile sample_mem 7 = None
   \<and> \<not> MemStorage_checkFileAccess sample_mem 7 2
   \<and> DatabaseStorage_getFile sample_db 1 = Some sample_file
   \<and> DatabaseStorage_checkFileAccess sample_db 1 2
   \<and> DatabaseStorage_checkFileAccess sample_db 1 3
   \<and> \<not> DatabaseStorage_checkFileAccess sample_db 1 1
   \<and> DatabaseStorage_getFile sample_db 7 = None
   \<and> \<not> DatabaseStorage_checkFileAccess sample_db 7 2"
proof -
  have owner: "f_ownerId sample_file = 2" "f_ownerId sample_file \<noteq> 3"
    "f_ownerId sample_file \<noteq> 1"
    by (simp_all add: sample_file_def)
  have shared:
    "\<exists>share \<in> set (Map_values (fileSharesMap sample_mem)). fs_fileId share = 1 \<and> fs_userId share = 3"
    "\<not> (\<exists>share \<in> set (Map_values (fileSharesMap sample_mem)). fs_fileId share = 1 \<and> fs_userId share = 1)"
    "\<exists>share \<in> set (fileShares sample_db). fs_fileId share = 1 \<and> fs_userId share = 3"
    "\<not> (\<exists>share \<in> set (fileShares sample_db). fs_fileId share = 1 \<and> fs_userId share = 1)"
    by (simp_all add: sample_mem_eq sample_db_eq Map_values_def sample_share_def)
  note files = sample_getFile
  from C1_checkFileAccess [of sample_mem 1 sample_file 2 sample_db] files owner
  have a: "MemStorage_checkFileAccess sample_mem 1 2" "DatabaseStorage_checkFileAccess sample_db 1 2"
    by blast+
  from C1_checkFileAccess [of sample_mem 1 sample_file 3 sample_db] files owner shared
  have b: "MemStorage_checkFileAccess sample_mem 1 3" "DatabaseStorage_checkFileAccess sample_db 1 3"
    by blast+
  from C1_checkFileAccess [of sample_mem 1 sample_file 1 sample_db] files owner shared
  have c: "\<not> MemStorage_checkFileAccess sample_mem 1 1" "\<not> DatabaseStorage_checkFileAccess sample_db 1 1"
    by blast+
  from C1_checkFileAccess [of sample_mem 7 sample_file 2 sample_db] files
  have d: "\<not> MemStorage_checkFileAccess sample_mem 7 2" "\<not> DatabaseStorage_checkFileAccess sample_db 7 2"
    by blast+
  from a b c d files owner show ?thesis by blast
qed

subsection \<open>Grants and access\<close>

lemma first_eq_None [simp]: "first xs = None \<longleftrightarrow> xs = []"
  by (cases xs) simp_all

lemma MemStorage_createFileShare_access:
  assumes "MemStorage_getFile s F = Some file"
  shows "MemStorage_checkFileAccess
           (snd (MemStorage_createFileShare s now
                   \<lparr>ifs_fileId = F, ifs_userId = U, ifs_permission = p\<rparr>)) F U"
proof -
  let ?row = "\<lparr>fs_id = id_fileShares (currentId s), fs_fileId = F, fs_userId = U,
                fs_permission = p, fs_createdAt = now\<rparr>"
  let ?m = "Map_set (fileSharesMap s) (id_fileShares (currentId s)) ?row"
  have "?row \<in> set (Map_values ?m)"
    using Map_set_in [of "id_fileShares (currentId s)" ?row "fileSharesMap s"]
    by (force simp: Map_values_def)
  then have "list_ex (\<lambda>share. fs_fileId share = F \<and> fs_userId share = U) (Map_values ?m)"
    unfolding list_ex_iff by (rule bexI [rotated]) simp
  with assms show ?thesis
    by (simp add: MemStorage_getFile_def MemStorage_checkFileAccess_def
        MemStorage_createFileShare_def Let_def split: option.splits)
qed

lemma DatabaseStorage_createFileShare_access:
  assumes "DatabaseStorage_getFile db F = Some file"
  shows "DatabaseStorage_checkFileAccess
           (snd (DatabaseStorage_createFileShare db now
                   \<lparr>ifs_fileId = F, ifs_userId = U, ifs_permission = p\<rparr>)) F U"
  using assms
  by (auto simp: DatabaseStorage_getFile_def DatabaseStorage_checkFileAccess_def
      DatabaseStorage_createFileShare_def Let_def split: option.splits)

lemma MemStorage_updateUserStats_frame:
  "usersMap (snd (MemStorage_updateUserStats s now0 now u d)) = usersMap s"
  "filesMap (snd (MemStorage_updateUserStats s now0 now u d)) = filesMap s"
  "fileSharesMap (snd (MemStorage_updateUserStats s now0 now u d)) = fileSharesMap s"
  "shareLinksMap (snd (MemStorage_updateUserStats s now0 now u d)) = shareLinksMap s"
  "transactionsMap (snd (MemStorage_updateUserStats s now0 now u d)) = transactionsMap s"
  by (simp_all add: MemStorage_updateUserStats_def MemStorage_createUserStats_def Let_def
      split: option.splits)

lemma DatabaseStorage_updateUserStats_frame:
  "users (snd (DatabaseStorage_updateUserStats db now0 now u d)) = users db"
  "files (snd (DatabaseStorage_updateUserStats db now0 now u d)) = files db"
  "fileShares (snd (DatabaseStorage_updateUserStats db now0 now u d)) = fileShares db"
  "shareLinks (snd (DatabaseStorage_updateUserStats db now0 now u d)) = shareLinks db"
  "transactions (snd (DatabaseStorage_updateUserStats db now0 now u d)) = transactions db"
  by (simp_all add: DatabaseStorage_updateUserStats_eq DatabaseStorage_createUserStats_def
      Let_def split: option.splits)

lemma MemStorage_checkFileAccess_updateUserStats:
  "MemStorage_checkFileAccess (snd (MemStorage_updateUserStats s now0 now u d)) F U
   = MemStorage_checkFileAccess s F U"
  by (simp add: MemStorage_checkFileAccess_def MemStorage_updateUserStats_frame
      cong: option.case_cong if_cong)

lemma DatabaseStorage_checkFileAccess_updateUserStats:
  "DatabaseStorage_checkFileAccess (snd (DatabaseStorage_updateUserStats db now0 now u d)) F U
   = DatabaseStorage_checkFileAccess db F U"
  by (simp add: DatabaseStorage_checkFileAccess_def DatabaseStorage_updateUserStats_frame
      cong: option.case_cong if_cong)

text \<open>What a share request does once it is past the checks, for any storage.\<close>

lemma post_files_share_201:
  assumes "res_status (fst (post_files_share storage st req_user req t1 t2 t3)) = 201"
  shows "\<exists>user file R p.
           req_user = Some user \<and> getFile storage st (sr_fileId req) = Some file \<and>
           f_ownerId file = u_id user \<and>
           getUserByEmail storage st (sr_email req) = Some R \<and>
           sr_permission req = JStr p \<and>
           snd (post_files_share storage st req_user req t1 t2 t3) =
             snd (updateUserStats storage
               (snd (createFileShare storage st t1
                  \<lparr>ifs_fileId = sr_fileId req, ifs_userId = u_id R, ifs_permission = p\<rparr>))
               t2 t3 (u_id user) (no_updates\<lparr>up_filesShared := Some 1\<rparr>)) \<and>
           fst (updateUserStats storage
               (snd (createFileShare storage st t1
                  \<lparr>ifs_fileId = sr_fileId req, ifs_userId = u_id R, ifs_permission = p\<rparr>))
               t2 t3 (u_id user) (no_updates\<lparr>up_filesShared := Some 1\<rparr>)) = None \<and>
           fst (post_files_share storage st req_user req t1 t2 t3) =
             reply 201 (FileShareBody (fst (createFileShare storage st t1
                  \<lparr>ifs_fileId = sr_fileId req, ifs_userId = u_id R, ifs_permission = p\<rparr>)))"
  using assms
  by (cases "sr_permission req")
     (auto simp: post_files_share_def reply_def insertFileShareSchema_parse_def Let_def
       split: option.splits if_splits prod.splits)

lemma post_files_share_by_id_201:
  assumes "res_status (fst (post_files_share_by_id storage st req_user req t1 t2 t3)) = 201"
  shows "\<exists>user file R p.
           req_user = Some user \<and> getFile storage st (sbi_fileId req) = Some file \<and>
           f_ownerId file = u_id user \<and>
           getUser storage st (sbi_recipientId req) = Some R \<and>
           sbi_permission req = JStr p \<and>
           snd (post_files_share_by_id storage st req_user req t1 t2 t3) =
             snd (updateUserStats storage
               (snd (createFileShare storage st t1
                  \<lparr>ifs_fileId = sbi_fileId req, ifs_userId = u_id R, ifs_permission = p\<rparr>))
               t2 t3 (u_id user) (no_updates\<lparr>up_filesShared := Some 1\<rparr>)) \<and>
           fst (updateUserStats storage
               (snd (createFileShare storage st t1
                  \<lparr>ifs_fileId = sbi_fileId req, ifs_userId = u_id R, ifs_permission = p\<rparr>))
               t2 t3 (u_id user) (no_updates\<lparr>up_filesShared := Some 1\<rparr>)) = None \<and>
           fst (post_files_share_by_id storage st req_user req t1 t2 t3) =
             reply 201 (FileShareBody (fst (createFileShare storage st t1
                  \<lparr>ifs_fileId = sbi_fileId req, ifs_userId = u_id R, ifs_permission = p\<rparr>)))"
  using assms
  by (cases "sbi_permission req")
     (auto simp: post_files_share_by_id_def reply_def insertFileShareSchema_parse_def Let_def
       split: option.splits if_splits prod.splits)

lemma ops_simps:
  "getUser MemStorage_ops = MemStorage_getUser"
  "getUserByEmail MemStorage_ops = MemStorage_getUserByEmail"
  "getFile MemStorage_ops = MemStorage_getFile"
  "checkFileAccess MemStorage_ops = MemStorage_checkFileAccess"
  "createFileShare MemStorage_ops = MemStorage_createFileShare"
  "createShareLink MemStorage_ops = MemStorage_createShareLink"
  "logTransaction MemStorage_ops = MemStorage_logTransaction"
  "getUserStats MemStorage_ops = MemStorage_getUserStats"
  "updateUserStats MemStorage_ops s now0 now u d
     = (None, snd (MemStorage_updateUserStats s now0 now u d))"
  "getUser DatabaseStorage_ops = DatabaseStorage_getUser"
  "getUserByEmail DatabaseStorage_ops = DatabaseStorage_getUserByEmail"
  "getFile DatabaseStorage_ops = DatabaseStorage_getFile"
  "checkFileAccess DatabaseStorage_ops = DatabaseStorage_checkFileAccess"
  "createFileShare DatabaseStorage_ops = DatabaseStorage_createFileShare"
  "createShareLink DatabaseStorage_ops = DatabaseStorage_createShareLink"
  "logTransaction DatabaseStorage_ops = DatabaseStorage_logTransaction"
  "getUserStats DatabaseStorage_ops = DatabaseStorage_getUserStats"
  "snd (updateUserStats DatabaseStorage_ops db now0 now u d)
     = snd (DatabaseStorage_updateUserStats db now0 now u d)"
  by (simp_all add: MemStorage_ops_def DatabaseStorage_ops_def split: prod.splits sum.splits)

lemma DatabaseStorage_ops_thrown:
  "fst (updateUserStats DatabaseStorage_ops db now0 now u d)
     = (case fst (DatabaseStorage_updateUserStats db now0 now u d) of
          Inl e \<Rightarrow> Some e | Inr r \<Rightarrow> None)"
  by (simp add: DatabaseStorage_ops_def split: prod.splits sum.splits)

text \<open>
  Claim C2. Once \<^verbatim>\<open>createFileShare\<close> has inserted a grant for file \<open>F\<close> and user
  \<open>U\<close>, with any permission, \<^verbatim>\<open>checkFileAccess(F, U)\<close> is true on the resulting
  store, in both storage classes; and after a share request answered with 201, by email
  or by recipient id, the recipient has access to the file.
\<close>

theorem C2_grant_gives_access:
  "(MemStorage_getFile s F = Some file \<longrightarrow>
      MemStorage_checkFileAccess
        (snd (MemStorage_createFileShare s now
                \<lparr>ifs_fileId = F, ifs_userId = U, ifs_permission = p\<rparr>)) F U)
   \<and> (DatabaseStorage_getFile db F = Some file \<longrightarrow>
      DatabaseStorage_checkFileAccess
        (snd (DatabaseStorage_createFileShare db now
                \<lparr>ifs_fileId = F, ifs_userId = U, ifs_permission = p\<rparr>)) F U)
   \<and> (res_status (fst (post_files_share MemStorage_ops s req_user req t1 t2 t3)) = 201 \<longrightarrow>
      (\<exists>R. MemStorage_getUserByEmail s (sr_email req) = Some R \<and>
           MemStorage_checkFileAccess
             (snd (post_files_share MemStorage_ops s req_user req t1 t2 t3))
             (sr_fileId req) (u_id R)))
   \<and> (res_status (fst (post_files_share DatabaseStorage_ops db req_user req t1 t2 t3)) = 201 \<longrightarrow>
      (\<exists>R. DatabaseStorage_getUserByEmail db (sr_email req) = Some R \<and>
           DatabaseStorage_checkFileAccess
             (snd (post_files_share DatabaseStorage_ops db req_user req t1 t2 t3))
             (sr_fileId req) (u_id R)))
   \<and> (res_status (fst (post_files_share_by_id MemStorage_ops s req_user rq t1 t2 t3)) = 201 \<longrightarrow>
      (\<exists>R. MemStorage_getUser s (sbi_recipientId rq) = Some R \<and>
           MemStorage_checkFileAccess
             (snd (post_files_share_by_id MemStorage_ops s req_user rq t1 t2 t3))
             (sbi_fileId rq) (u_id R)))
   \<and> (res_status (fst (post_files_share_by_id DatabaseStorage_ops db req_user rq t1 t2 t3)) = 201 \<longrightarrow>
      (\<exists>R. DatabaseStorage_getUser db (sbi_recipientId rq) = Some R \<and>
           DatabaseStorage_checkFileAccess
             (snd (post_files_share_by_id DatabaseStorage_ops db req_user rq t1 t2 t3))
             (sbi_fileId rq) (u_id R)))"
proof (intro conjI impI)
  assume "MemStorage_getFile s F = Some file"
  then show "MemStorage_checkFileAccess
        (snd (MemStorage_createFileShare s now
                \<lparr>ifs_fileId = F, ifs_userId = U, ifs_permission = p\<rparr>)) F U"
    by (rule MemStorage_createFileShare_access)
next
  assume "DatabaseStorage_getFile db F = Some file"
  then show "DatabaseStorage_checkFileAccess
        (snd (DatabaseStorage_createFileShare db now
                \<lparr>ifs_fileId = F, ifs_userId = U, ifs_permission = p\<rparr>)) F U"
    by (rule DatabaseStorage_createFileShare_access)
next
  assume "res_status (fst (post_files_share MemStorage_ops s req_user req t1 t2 t3)) = 201"
  from post_files_share_201 [OF this]
  show "\<exists>R. MemStorage_getUserByEmail s (sr_email req) = Some R \<and>
           MemStorage_checkFileAccess
             (snd (post_files_share MemStorage_ops s req_user req t1 t2 t3))
             (sr_fileId req) (u_id R)"
    by (auto simp: ops_simps MemStorage_checkFileAccess_updateUserStats
        intro: MemStorage_createFileShare_access)
next
  assume "res_status (fst (post_files_share DatabaseStorage_ops db req_user req t1 t2 t3)) = 201"
  from post_files_share_201 [OF this]
  show "\<exists>R. DatabaseStorage_getUserByEmail db (sr_email req) = Some R \<and>
           DatabaseStorage_checkFileAccess
             (snd (post_files_share DatabaseStorage_ops db req_user req t1 t2 t3))
             (sr_fileId req) (u_id R)"
    by (auto simp: ops_simps DatabaseStorage_checkFileAccess_updateUserStats
        intro: DatabaseStorage_createFileShare_access)
next
  assume "res_status (fst (post_files_share_by_id MemStorage_ops s req_user rq t1 t2 t3)) = 201"
  from post_files_share_by_id_201 [OF this]
  show "\<exists>R. MemStorage_getUser s (sbi_recipientId rq) = Some R \<and>
           MemStorage_checkFileAccess
             (snd (post_files_share_by_id MemStorage_ops s req_user rq t1 t2 t3))
             (sbi_fileId rq) (u_id R)"
    by (auto simp: ops_simps MemStorage_checkFileAccess_updateUserStats
        intro: MemStorage_createFileShare_access)
next
  assume "res_status (fst (post_files_share_by_id DatabaseStorage_ops db req_user rq t1 t2 t3)) = 201"
  from post_files_share_by_id_201 [OF this]
  show "\<exists>R. DatabaseStorage_getUser db (sbi_recipientId rq) = Some R \<and>
           DatabaseStorage_checkFileAccess
             (snd (post_files_share_by_id DatabaseStorage_ops db req_user rq t1 t2 t3))
             (sbi_fileId rq) (u_id R)"
    by (auto simp: ops_simps DatabaseStorage_checkFileAccess_updateUserStats
        intro: DatabaseStorage_createFileShare_access)
qed

lemma toLowerCase_sample:
  "toLowerCase ''test@example.com'' = ''test@example.com''"
  "toLowerCase ''alice@example.com'' = ''alice@example.com''"
  "toLowerCase ''bob@example.com'' = ''bob@example.com''"
  by (simp_all add: toLowerCase_def lower_char_def)

lemma sample_getUser:
  "MemStorage_getUserByEmail sample_mem ''test@example.com'' = Some (sample_user 1 testuser 0)"
  "DatabaseStorage_getUserByEmail sample_db ''test@example.com'' = Some (sample_user 1 testuser 0)"
  "MemStorage_getUser sample_mem 1 = Some (sample_user 1 testuser 0)"
  "DatabaseStorage_getUser sample_db 1 = Some (sample_user 1 testuser 0)"
  by (simp_all add: sample_mem_eq sample_db_eq MemStorage_getUserByEmail_def
      DatabaseStorage_getUserByEmail_def MemStorage_getUser_def DatabaseStorage_getUser_def
      Map_values_def Map_get_def sample_user_def testuser_def alice_def bob_def
      toLowerCase_sample)

lemma DatabaseStorage_updateUserStats_thrown:
  "fst (updateUserStats DatabaseStorage_ops db now0 now u d) =
     (if int4_stat (newValues
            (case DatabaseStorage_getUserStats db u of
               None \<Rightarrow> fst (DatabaseStorage_createUserStats db now0 u) | Some r \<Rightarrow> r)
            now d
            (case DatabaseStorage_getUserStats db u of
               None \<Rightarrow> fst (DatabaseStorage_createUserStats db now0 u) | Some r \<Rightarrow> r))
      then None else Some NumericValueOutOfRange)"
  by (simp add: DatabaseStorage_ops_def DatabaseStorage_updateUserStats_def Let_def
      split: option.splits prod.splits)

lemma sample_share_stats_ok:
  "fst (updateUserStats DatabaseStorage_ops
     (snd (DatabaseStorage_createFileShare sample_db t d)) now0 now 2
     (no_updates\<lparr>up_filesShared := Some 1\<rparr>)) = None"
  by (simp add: DatabaseStorage_updateUserStats_thrown DatabaseStorage_getUserStats_def
      DatabaseStorage_createFileShare_def Let_def sample_db_eq sample_stat_def
      newValues_def no_updates_def int4_stat_def int4_def)

lemma sample_share_status:
  "res_status (fst (post_files_share MemStorage_ops sample_mem
      (Some (sample_user 2 alice 1000)) sample_share_request 9000 9001 9002)) = 201"
  "res_status (fst (post_files_share DatabaseStorage_ops sample_db
      (Some (sample_user 2 alice 1000)) sample_share_request 9000 9001 9002)) = 201"
  "res_status (fst (post_files_share_by_id MemStorage_ops sample_mem
      (Some (sample_user 2 alice 1000)) sample_share_by_id_request 9000 9001 9002)) = 201"
  "res_status (fst (post_files_share_by_id DatabaseStorage_ops sample_db
      (Some (sample_user 2 alice 1000)) sample_share_by_id_request 9000 9001 9002)) = 201"
  by (simp_all add: post_files_share_def post_files_share_by_id_def ops_simps
      sample_getFile sample_getUser sample_share_request_def sample_share_by_id_request_def
      sample_file_def sample_user_def insertFileShareSchema_parse_def reply_def
      case_prod_beta sample_share_stats_ok)

text \<open>
  Claim C2 on the sample store: the test user (1) has no access to file 1; a grant made
  through \<^verbatim>\<open>createFileShare\<close>, or through either share route, gives it access.
\<close>

theorem C2_grant_gives_access_witness:
  "MemStorage_getFile sample_mem 1 = Some sample_file
   \<and> MemStorage_checkFileAccess
        (snd (MemStorage_createFileShare sample_mem 9000
                \<lparr>ifs_fileId = 1, ifs_userId = 1, ifs_permission = ''view''\<rparr>)) 1 1
   \<and> DatabaseStorage_getFile sample_db 1 = Some sample_file
   \<and> DatabaseStorage_checkFileAccess
        (snd (DatabaseStorage_createFileShare sample_db 9000
                \<lparr>ifs_fileId = 1, ifs_userId = 1, ifs_permission = ''view''\<rparr>)) 1 1
   \<and> res_status (fst (post_files_share MemStorage_ops sample_mem
        (Some (sample_user 2 alice 1000)) sample_share_request 9000 9001 9002)) = 201
   \<and> MemStorage_checkFileAccess
        (snd (post_files_share MemStorage_ops sample_mem
               (Some (sample_user 2 alice 1000)) sample_share_request 9000 9001 9002)) 1 1
   \<and> res_status (fst (post_files_share DatabaseStorage_ops sample_db
        (Some (sample_user 2 alice 1000)) sample_share_request 9000 9001 9002)) = 201
   \<and> DatabaseStorage_checkFileAccess
        (snd (post_files_share DatabaseStorage_ops sample_db
               (Some (sample_user 2 alice 1000)) sample_share_request 9000 9001 9002)) 1 1
   \<and> res_status (fst (post_files_share_by_id MemStorage_ops sample_mem
        (Some (sample_user 2 alice 1000)) sample_share_by_id_request 9000 9001 9002)) = 201
   \<and> MemStorage_checkFileAccess
        (snd (post_files_share_by_id MemStorage_ops sample_mem
               (Some (sample_user 2 alice 1000)) sample_share_by_id_request 9000 9001 9002)) 1 1
   \<and> res_status (fst (post_files_share_by_id DatabaseStorage_ops sample_db
        (Some (sample_user 2 alice 1000)) sample_share_by_id_request 9000 9001 9002)) = 201
   \<and> DatabaseStorage_checkFileAccess
        (snd (post_files_share_by_id DatabaseStorage_ops sample_db
               (Some (sample_user 2 alice 1000)) sample_share_by_id_request 9000 9001 9002)) 1 1"
proof -
  note hyps = sample_getFile(1,3) sample_share_status
  have ids: "sr_fileId sample_share_request = 1" "sbi_fileId sample_share_by_id_request = 1"
    "sr_email sample_share_request = ''test@example.com''"
    "sbi_recipientId sample_share_by_id_request = 1"
    "u_id (sample_user 1 testuser 0) = 1"
    by (simp_all add: sample_share_request_def sample_share_by_id_request_def sample_user_def)
  from C2_grant_gives_access [of sample_mem 1 sample_file 9000 1 "''view''" sample_db
      "Some (sample_user 2 alice 1000)" sample_share_request 9000 9001 9002
      sample_share_by_id_request]
  show ?thesis
    unfolding ids using hyps sample_getUser by (simp add: ids)
qed

subsection \<open>Deleting a file\<close>

lemma MemStorage_deleteFile_keyed:
  assumes "MemStorage_inv s"
  shows "MemStorage_deleteFile s F =
     s\<lparr>filesMap := filter (\<lambda>e. fst e \<noteq> F) (filesMap s),
       fileSharesMap := filter (\<lambda>e. fs_fileId (snd e) \<noteq> F) (fileSharesMap s),
       shareLinksMap := filter (\<lambda>e. sl_fileId (snd e) \<noteq> F) (shareLinksMap s)\<rparr>"
proof -
  from assms have k: "keyed_by fs_id (fileSharesMap s)" "keyed_by sl_id (shareLinksMap s)"
    by (simp_all add: MemStorage_inv_def)
  show ?thesis
    unfolding MemStorage_deleteFile_def Let_def
    by (simp add: fold_Map_delete_keyed [OF k(1)] fold_Map_delete_keyed [OF k(2)],
        simp add: Map_delete_def)
qed







lemma sample_mem_inv: "MemStorage_inv sample_mem"
  unfolding sample_mem_def by (intro MemStorage_inv_run MemStorage_inv_new)

lemma sample_db_inv: "Database_inv sample_db"
  unfolding sample_db_def by (intro Database_inv_run Database_inv_empty)




subsection \<open>Adjusting the counters\<close>

lemma first_map: "first (map g xs) = map_option g (first xs)"
  by (cases xs) simp_all

lemma first_append: "first (xs @ ys) = (case first xs of None \<Rightarrow> first ys | Some x \<Rightarrow> Some x)"
  by (cases xs) simp_all

lemma filter_same_id:
  "distinct (map f xs) \<Longrightarrow> r \<in> set xs \<Longrightarrow> filter (\<lambda>x. f x = f r) xs = [r]"
proof (induction xs)
  case Nil
  then show ?case by simp
next
  case (Cons x xs)
  show ?case
  proof (cases "x = r")
    case True
    with Cons.prems have "\<forall>y \<in> set xs. f y \<noteq> f r"
      by (auto simp: image_iff)
    then have "filter (\<lambda>x. f x = f r) xs = []" by (simp add: filter_empty_conv)
    with True show ?thesis by simp
  next
    case False
    with Cons.prems have "r \<in> set xs" "f x \<noteq> f r" by auto
    with Cons show ?thesis by simp
  qed
qed

lemma filter_userId_map:
  "filter (\<lambda>r. st_userId r = u) (map (\<lambda>r. if P r then newValues a now d r else r) rows)
   = map (\<lambda>r. if P r then newValues a now d r else r) (filter (\<lambda>r. st_userId r = u) rows)"
  by (induction rows) (simp_all add: newValues_def)

lemma filter_id_map:
  "filter (\<lambda>r. st_id r = i) (map (\<lambda>r. if P r then newValues a now d r else r) rows)
   = map (\<lambda>r. if P r then newValues a now d r else r) (filter (\<lambda>r. st_id r = i) rows)"
  by (induction rows) (simp_all add: newValues_def)

lemma MemStorage_updateUserStats_None:
  assumes "MemStorage_getUserStats s u = None"
  shows "fst (MemStorage_updateUserStats s now0 now u d) =
       \<lparr>st_id = id_stats (currentId s), st_userId = u,
        st_filesUploaded = max 0 (or_zero (up_filesUploaded d)),
        st_filesShared = max 0 (or_zero (up_filesShared d)),
        st_storageUsed = max 0 (or_zero (up_storageUsed d)),
        st_downloads = or_zero (up_downloads d),
        st_lastUpdated = now\<rparr>"
  using assms
  by (simp add: MemStorage_updateUserStats_def MemStorage_getUserStats_def
      MemStorage_createUserStats_def Let_def)

lemma MemStorage_updateUserStats_Some:
  assumes "MemStorage_getUserStats s u = Some old"
  shows "fst (MemStorage_updateUserStats s now0 now u d) =
       old\<lparr>st_filesUploaded := max 0 (st_filesUploaded old + or_zero (up_filesUploaded d)),
           st_filesShared := max 0 (st_filesShared old + or_zero (up_filesShared d)),
           st_storageUsed := max 0 (st_storageUsed old + or_zero (up_storageUsed d)),
           st_downloads := st_downloads old + or_zero (up_downloads d),
           st_lastUpdated := now\<rparr>"
  using assms
  by (simp add: MemStorage_updateUserStats_def MemStorage_getUserStats_def Let_def)

lemma MemStorage_getUserStats_updateUserStats:
  "MemStorage_getUserStats (snd (MemStorage_updateUserStats s now0 now u d)) u'
   = (if u' = u then Some (fst (MemStorage_updateUserStats s now0 now u d))
      else MemStorage_getUserStats s u')"
  by (simp add: MemStorage_updateUserStats_def MemStorage_getUserStats_def
      MemStorage_createUserStats_def Let_def Map_get_Map_set split: option.splits)

lemma DatabaseStorage_updateUserStats_None:
  assumes "Database_inv db" "DatabaseStorage_getUserStats db u = None"
  shows "DatabaseStorage_updateUserStats db now0 now u d =
     (let r = \<lparr>st_id = stats_id_seq db, st_userId = u,
                st_filesUploaded = max 0 (or_zero (up_filesUploaded d)),
                st_filesShared = max 0 (or_zero (up_filesShared d)),
                st_storageUsed = max 0 (or_zero (up_storageUsed d)),
                st_downloads = or_zero (up_downloads d),
                st_lastUpdated = now\<rparr>
      in if int4_stat r
         then (Inr (Some r), db\<lparr>stats := stats db @ [r], stats_id_seq := stats_id_seq db + 1\<rparr>)
         else (Inl NumericValueOutOfRange, snd (DatabaseStorage_createUserStats db now0 u)))"
proof -
  from assms(1) have "\<forall>r \<in> set (stats db). st_id r \<noteq> stats_id_seq db"
    by (auto simp: Database_inv_def serial_def ids_below_def)
  then have "filter (\<lambda>r. st_id r = stats_id_seq db) (stats db) = []"
    "map (\<lambda>r. if st_id r = stats_id_seq db then f r else r) (stats db) = stats db" for f
    by (simp_all add: filter_empty_conv map_idI)
  with assms(2) show ?thesis
    by (simp add: DatabaseStorage_updateUserStats_def DatabaseStorage_createUserStats_def
        Let_def newValues_def int4_stat_def)
qed

lemma DatabaseStorage_updateUserStats_Some:
  assumes "Database_inv db" "DatabaseStorage_getUserStats db u = Some old"
  shows "DatabaseStorage_updateUserStats db now0 now u d =
     (if int4_stat (newValues old now d old)
      then (Inr (Some (newValues old now d old)),
            db\<lparr>stats := map (\<lambda>r. if st_id r = st_id old then newValues old now d r else r)
                           (stats db)\<rparr>)
      else (Inl NumericValueOutOfRange, db))"
proof -
  from assms(2) have "old \<in> set (stats db)"
    by (auto simp: DatabaseStorage_getUserStats_def dest: first_filter_Some)
  with assms(1) have "filter (\<lambda>r. st_id r = st_id old) (stats db) = [old]"
    by (simp add: Database_inv_def serial_def filter_same_id)
  with assms(2) show ?thesis
    by (simp add: DatabaseStorage_updateUserStats_def Let_def filter_id_map)
qed

lemma DatabaseStorage_getUserStats_updateUserStats:
  assumes "Database_inv db" "fst (DatabaseStorage_updateUserStats db now0 now u d) = Inr r"
  shows "DatabaseStorage_getUserStats (snd (DatabaseStorage_updateUserStats db now0 now u d)) u = r"
proof (cases "DatabaseStorage_getUserStats db u")
  case None
  then have "filter (\<lambda>r. st_userId r = u) (stats db) = []"
    by (simp add: DatabaseStorage_getUserStats_def)
  with assms(2) show ?thesis
    unfolding DatabaseStorage_updateUserStats_None [OF assms(1) None]
    by (auto simp: DatabaseStorage_getUserStats_def Let_def split: if_splits)
next
  case (Some old)
  with assms(2) show ?thesis
    unfolding DatabaseStorage_updateUserStats_Some [OF assms(1) Some]
    by (auto simp: DatabaseStorage_getUserStats_def filter_userId_map first_map
        split: if_splits)
qed


text \<open>
  Claim C4, as amended. \<^verbatim>\<open>updateUserStats(userId, updates)\<close> starts from the user's Stat
  row, or from a zeroed row that it creates and stores when the user has none.
  \<^verbatim>\<open>MemStorage\<close>, for every delta: it adds the signed deltas; \<^verbatim>\<open>filesUploaded\<close>,
  \<^verbatim>\<open>filesShared\<close> and \<^verbatim>\<open>storageUsed\<close> are clamped at zero, so that no delta makes them
  negative; \<^verbatim>\<open>downloads\<close> is the plain sum; \<^verbatim>\<open>lastUpdated\<close> is the time of the update;
  and the row returned is the row that a later \<^verbatim>\<open>getUserStats\<close> reads.
  \<^verbatim>\<open>DatabaseStorage\<close> does the same whenever the four new counters fit the 32-bit
  columns; when one does not, the update is rejected with an error and every stored
  counter keeps its value (a row that had to be created stays, with zeros). For
  \<^verbatim>\<open>DatabaseStorage\<close> the table has to satisfy the invariant of the primary key.
\<close>

theorem C4_updateUserStats:
  "(MemStorage_getUserStats s u = None \<longrightarrow>
      fst (MemStorage_updateUserStats s now0 now u d) =
        \<lparr>st_id = id_stats (currentId s), st_userId = u,
         st_filesUploaded = max 0 (or_zero (up_filesUploaded d)),
         st_filesShared = max 0 (or_zero (up_filesShared d)),
         st_storageUsed = max 0 (or_zero (up_storageUsed d)),
         st_downloads = or_zero (up_downloads d),
         st_lastUpdated = now\<rparr>)
   \<and> (MemStorage_getUserStats s u = Some old \<longrightarrow>
      fst (MemStorage_updateUserStats s now0 now u d) =
        old\<lparr>st_filesUploaded := max 0 (st_filesUploaded old + or_zero (up_filesUploaded d)),
            st_filesShared := max 0 (st_filesShared old + or_zero (up_filesShared d)),
            st_storageUsed := max 0 (st_storageUsed old + or_zero (up_storageUsed d)),
            st_downloads := st_downloads old + or_zero (up_downloads d),
            st_lastUpdated := now\<rparr>)
   \<and> MemStorage_getUserStats (snd (MemStorage_updateUserStats s now0 now u d)) u
       = Some (fst (MemStorage_updateUserStats s now0 now u d))
   \<and> 0 \<le> st_filesUploaded (fst (MemStorage_updateUserStats s now0 now u d))
   \<and> 0 \<le> st_filesShared (fst (MemStorage_updateUserStats s now0 now u d))
   \<and> 0 \<le> st_storageUsed (fst (MemStorage_updateUserStats s now0 now u d))
   \<and> (Database_inv db \<and> DatabaseStorage_getUserStats db u = None
       \<and> int4 (max 0 (or_zero (up_filesUploaded d)))
       \<and> int4 (max 0 (or_zero (up_filesShared d)))
       \<and> int4 (max 0 (or_zero (up_storageUsed d)))
       \<and> int4 (or_zero (up_downloads d)) \<longrightarrow>
      fst (DatabaseStorage_updateUserStats db now0 now u d) =
        Inr (Some \<lparr>st_id = stats_id_seq db, st_userId = u,
              st_filesUploaded = max 0 (or_zero (up_filesUploaded d)),
              st_filesShared = max 0 (or_zero (up_filesShared d)),
              st_storageUsed = max 0 (or_zero (up_storageUsed d)),
              st_downloads = or_zero (up_downloads d),
              st_lastUpdated = now\<rparr>))
   \<and> (Database_inv db \<and> DatabaseStorage_getUserStats db u = Some old'
       \<and> int4 (max 0 (st_filesUploaded old' + or_zero (up_filesUploaded d)))
       \<and> int4 (max 0 (st_filesShared old' + or_zero (up_filesShared d)))
       \<and> int4 (max 0 (st_storageUsed old' + or_zero (up_storageUsed d)))
       \<and> int4 (st_downloads old' + or_zero (up_downloads d)) \<longrightarrow>
      fst (DatabaseStorage_updateUserStats db now0 now u d) =
        Inr (Some (old'\<lparr>st_filesUploaded :=
                     max 0 (st_filesUploaded old' + or_zero (up_filesUploaded d)),
                   st_filesShared := max 0 (st_filesShared old' + or_zero (up_filesShared d)),
                   st_storageUsed := max 0 (st_storageUsed old' + or_zero (up_storageUsed d)),
                   st_downloads := st_downloads old' + or_zero (up_downloads d),
                   st_lastUpdated := now\<rparr>)))
   \<and> (Database_inv db \<and> fst (DatabaseStorage_updateUserStats db now0 now u d) = Inr r \<longrightarrow>
      (\<exists>row. r = Some row
         \<and> DatabaseStorage_getUserStats
              (snd (DatabaseStorage_updateUserStats db now0 now u d)) u = Some row
         \<and> 0 \<le> st_filesUploaded row \<and> 0 \<le> st_filesShared row \<and> 0 \<le> st_storageUsed row))
   \<and> (Database_inv db \<and> DatabaseStorage_getUserStats db u = None
       \<and> \<not> (int4 (max 0 (or_zero (up_filesUploaded d)))
            \<and> int4 (max 0 (or_zero (up_filesShared d)))
            \<and> int4 (max 0 (or_zero (up_storageUsed d)))
            \<and> int4 (or_zero (up_downloads d))) \<longrightarrow>
      DatabaseStorage_updateUserStats db now0 now u d =
        (Inl NumericValueOutOfRange, snd (DatabaseStorage_createUserStats db now0 u)))
   \<and> (Database_inv db \<and> DatabaseStorage_getUserStats db u = Some old'
       \<and> \<not> (int4 (max 0 (st_filesUploaded old' + or_zero (up_filesUploaded d)))
            \<and> int4 (max 0 (st_filesShared old' + or_zero (up_filesShared d)))
            \<and> int4 (max 0 (st_storageUsed old' + or_zero (up_storageUsed d)))
            \<and> int4 (st_downloads old' + or_zero (up_downloads d))) \<longrightarrow>
      DatabaseStorage_updateUserStats db now0 now u d = (Inl NumericValueOutOfRange, db))"
proof -
  have clamp_mem:
    "0 \<le> st_filesUploaded (fst (MemStorage_updateUserStats s now0 now u d))
     \<and> 0 \<le> st_filesShared (fst (MemStorage_updateUserStats s now0 now u d))
     \<and> 0 \<le> st_storageUsed (fst (MemStorage_updateUserStats s now0 now u d))"
    by (cases "MemStorage_getUserStats s u")
       (simp_all add: MemStorage_updateUserStats_None MemStorage_updateUserStats_Some)
  have db_none: "DatabaseStorage_updateUserStats db now0 now u d =
       (if int4 (max 0 (or_zero (up_filesUploaded d)))
            \<and> int4 (max 0 (or_zero (up_filesShared d)))
            \<and> int4 (max 0 (or_zero (up_storageUsed d)))
            \<and> int4 (or_zero (up_downloads d))
        then (Inr (Some \<lparr>st_id = stats_id_seq db, st_userId = u,
              st_filesUploaded = max 0 (or_zero (up_filesUploaded d)),
              st_filesShared = max 0 (or_zero (up_filesShared d)),
              st_storageUsed = max 0 (or_zero (up_storageUsed d)),
              st_downloads = or_zero (up_downloads d),
              st_lastUpdated = now\<rparr>),
              db\<lparr>stats := stats db @ [\<lparr>st_id = stats_id_seq db, st_userId = u,
                st_filesUploaded = max 0 (or_zero (up_filesUploaded d)),
                st_filesShared = max 0 (or_zero (up_filesShared d)),
                st_storageUsed = max 0 (or_zero (up_storageUsed d)),
                st_downloads = or_zero (up_downloads d),
                st_lastUpdated = now\<rparr>], stats_id_seq := stats_id_seq db + 1\<rparr>)
        else (Inl NumericValueOutOfRange, snd (DatabaseStorage_createUserStats db now0 u)))"
    if "Database_inv db" "DatabaseStorage_getUserStats db u = None"
    by (simp add: DatabaseStorage_updateUserStats_None [OF that] Let_def int4_stat_def)
  have db_some: "DatabaseStorage_updateUserStats db now0 now u d =
       (if int4 (max 0 (st_filesUploaded old' + or_zero (up_filesUploaded d)))
            \<and> int4 (max 0 (st_filesShared old' + or_zero (up_filesShared d)))
            \<and> int4 (max 0 (st_storageUsed old' + or_zero (up_storageUsed d)))
            \<and> int4 (st_downloads old' + or_zero (up_downloads d))
        then (Inr (Some (old'\<lparr>st_filesUploaded :=
                     max 0 (st_filesUploaded old' + or_zero (up_filesUploaded d)),
                   st_filesShared := max 0 (st_filesShared old' + or_zero (up_filesShared d)),
                   st_storageUsed := max 0 (st_storageUsed old' + or_zero (up_storageUsed d)),
                   st_downloads := st_downloads old' + or_zero (up_downloads d),
                   st_lastUpdated := now\<rparr>)),
              db\<lparr>stats := map (\<lambda>r. if st_id r = st_id old' then newValues old' now d r else r)
                             (stats db)\<rparr>)
        else (Inl NumericValueOutOfRange, db))"
    if "Database_inv db" "DatabaseStorage_getUserStats db u = Some old'"
    by (simp add: DatabaseStorage_updateUserStats_Some [OF that] newValues_def int4_stat_def)
  have db_read: "\<exists>row. r = Some row
         \<and> DatabaseStorage_getUserStats
              (snd (DatabaseStorage_updateUserStats db now0 now u d)) u = Some row
         \<and> 0 \<le> st_filesUploaded row \<and> 0 \<le> st_filesShared row \<and> 0 \<le> st_storageUsed row"
    if inv: "Database_inv db"
      and ok: "fst (DatabaseStorage_updateUserStats db now0 now u d) = Inr r"
  proof -
    have read: "DatabaseStorage_getUserStats
        (snd (DatabaseStorage_updateUserStats db now0 now u d)) u = r"
      using inv ok by (rule DatabaseStorage_getUserStats_updateUserStats)
    show ?thesis
    proof (cases "DatabaseStorage_getUserStats db u")
      case None
      from ok show ?thesis
        unfolding read unfolding DatabaseStorage_updateUserStats_None [OF inv None]
        by (auto simp: Let_def split: if_splits)
    next
      case (Some old)
      from ok show ?thesis
        unfolding read unfolding DatabaseStorage_updateUserStats_Some [OF inv Some]
        by (auto simp: newValues_def split: if_splits)
    qed
  qed
  show ?thesis
    using clamp_mem db_read
    by (simp add: MemStorage_updateUserStats_None MemStorage_updateUserStats_Some
        MemStorage_getUserStats_updateUserStats db_none db_some)
qed

lemma sample_getUserStats:
  "MemStorage_getUserStats sample_mem 2 = Some sample_stat"
  "MemStorage_getUserStats sample_mem 3 = None"
  "DatabaseStorage_getUserStats sample_db 2 = Some sample_stat"
  "DatabaseStorage_getUserStats sample_db 3 = None"
  by (simp_all add: MemStorage_getUserStats_def DatabaseStorage_getUserStats_def
      sample_mem_eq sample_db_eq Map_get_def sample_stat_def)

text \<open>
  The amended claim C4 on the sample store. Alice has one upload of 100 bytes: deltas of
  \<open>-1\<close> upload, \<open>-1000\<close> bytes and \<open>-5\<close> downloads leave 0 uploads and 0 bytes,
  and \<open>-5\<close> downloads. Bob has no row: a delta of \<open>-7\<close> bytes and \<open>-1\<close> download
  creates a row with 0 bytes and \<open>-1\<close> downloads. In the database a delta of
  2147483647 bytes for alice, and of 2147483648 downloads for bob, is rejected.
\<close>

theorem C4_updateUserStats_witness:
  "MemStorage_getUserStats sample_mem 2 = Some sample_stat
   \<and> fst (MemStorage_updateUserStats sample_mem 8000 8001 2
        \<lparr>up_filesUploaded = Some (- 1), up_filesShared = None,
         up_storageUsed = Some (- 1000), up_downloads = Some (- 5)\<rparr>)
      = \<lparr>st_id = 1, st_userId = 2, st_filesUploaded = 0, st_filesShared = 0,
         st_storageUsed = 0, st_downloads = - 5, st_lastUpdated = 8001\<rparr>
   \<and> MemStorage_getUserStats sample_mem 3 = None
   \<and> fst (MemStorage_updateUserStats sample_mem 8000 8001 3
        \<lparr>up_filesUploaded = None, up_filesShared = None,
         up_storageUsed = Some (- 7), up_downloads = Some (- 1)\<rparr>)
      = \<lparr>st_id = 2, st_userId = 3, st_filesUploaded = 0, st_filesShared = 0,
         st_storageUsed = 0, st_downloads = - 1, st_lastUpdated = 8001\<rparr>
   \<and> Database_inv sample_db
   \<and> DatabaseStorage_getUserStats sample_db 2 = Some sample_stat
   \<and> fst (DatabaseStorage_updateUserStats sample_db 8000 8001 2
        \<lparr>up_filesUploaded = Some (- 1), up_filesShared = None,
         up_storageUsed = Some (- 1000), up_downloads = Some (- 5)\<rparr>)
      = Inr (Some \<lparr>st_id = 1, st_userId = 2, st_filesUploaded = 0, st_filesShared = 0,
         st_storageUsed = 0, st_downloads = - 5, st_lastUpdated = 8001\<rparr>)
   \<and> DatabaseStorage_getUserStats (snd (DatabaseStorage_updateUserStats sample_db 8000 8001 2
        \<lparr>up_filesUploaded = Some (- 1), up_filesShared = None,
         up_storageUsed = Some (- 1000), up_downloads = Some (- 5)\<rparr>)) 2
      = Some \<lparr>st_id = 1, st_userId = 2, st_filesUploaded = 0, st_filesShared = 0,
         st_storageUsed = 0, st_downloads = - 5, st_lastUpdated = 8001\<rparr>
   \<and> DatabaseStorage_getUserStats sample_db 3 = None
   \<and> fst (DatabaseStorage_updateUserStats sample_db 8000 8001 3
        \<lparr>up_filesUploaded = None, up_filesShared = None,
         up_storageUsed = Some (- 7), up_downloads = Some (- 1)\<rparr>)
      = Inr (Some \<lparr>st_id = 2, st_userId = 3, st_filesUploaded = 0, st_filesShared = 0,
         st_storageUsed = 0, st_downloads = - 1, st_lastUpdated = 8001\<rparr>)
   \<and> DatabaseStorage_updateUserStats sample_db 8000 8001 2
        \<lparr>up_filesUploaded = None, up_filesShared = None,
         up_storageUsed = Some 2147483647, up_downloads = None\<rparr>
      = (Inl NumericValueOutOfRange, sample_db)
   \<and> DatabaseStorage_updateUserStats sample_db 8000 8001 3
        \<lparr>up_filesUploaded = None, up_filesShared = None,
         up_storageUsed = None, up_downloads = Some 2147483648\<rparr>
      = (Inl NumericValueOutOfRange, snd (DatabaseStorage_createUserStats sample_db 8000 3))"
proof -
  have seqs: "id_stats (currentId sample_mem) = 2" "stats_id_seq sample_db = 2"
    by (simp_all add: sample_mem_eq sample_db_eq)
  note C4 = C4_updateUserStats [of sample_mem _ 8000 8001 _ sample_stat sample_db sample_stat]
  from C4 [of 2 "\<lparr>up_filesUploaded = Some (- 1), up_filesShared = None,
          up_storageUsed = Some (- 1000), up_downloads = Some (- 5)\<rparr>"
          "Some \<lparr>st_id = 1, st_userId = 2, st_filesUploaded = 0, st_filesShared = 0,
            st_storageUsed = 0, st_downloads = - 5, st_lastUpdated = 8001\<rparr>"]
       C4 [of 3 "\<lparr>up_filesUploaded = None, up_filesShared = None,
          up_storageUsed = Some (- 7), up_downloads = Some (- 1)\<rparr>"]
       C4 [of 2 "\<lparr>up_filesUploaded = None, up_filesShared = None,
         up_storageUsed = Some 2147483647, up_downloads = None\<rparr>"]
       C4 [of 3 "\<lparr>up_filesUploaded = None, up_filesShared = None,
         up_storageUsed = None, up_downloads = Some 2147483648\<rparr>"]
       sample_db_inv
  show ?thesis
    by (simp add: sample_getUserStats seqs int4_def) (simp add: sample_stat_def)
qed

text \<open>
  Claim C4 as stated fails in the database: alice's row holds 100 bytes, and for the
  delta 2147483647 the method throws instead of adding it; the row read afterwards is
  the old one, with the old \<^verbatim>\<open>lastUpdated\<close>.
\<close>

theorem C4_updateUserStats_counterexample:
  "DatabaseStorage_getUserStats sample_db 2 = Some sample_stat
   \<and> st_storageUsed sample_stat = 100
   \<and> st_lastUpdated sample_stat = 3001
   \<and> fst (DatabaseStorage_updateUserStats sample_db 8000 8001 2
        \<lparr>up_filesUploaded = None, up_filesShared = None,
         up_storageUsed = Some 2147483647, up_downloads = None\<rparr>)
      = Inl NumericValueOutOfRange
   \<and> DatabaseStorage_getUserStats (snd (DatabaseStorage_updateUserStats sample_db 8000 8001 2
        \<lparr>up_filesUploaded = None, up_filesShared = None,
         up_storageUsed = Some 2147483647, up_downloads = None\<rparr>)) 2
      = Some sample_stat"
  by (simp add: DatabaseStorage_updateUserStats_def DatabaseStorage_getUserStats_def
      sample_db_eq sample_stat_def newValues_def int4_stat_def int4_def Let_def)

subsection \<open>Repeated grants\<close>

lemma keyed_by_distinct_ids: "keyed_by idf m \<Longrightarrow> distinct (map idf (Map_values m))"
proof -
  assume k: "keyed_by idf m"
  then have "map idf (Map_values m) = map fst m"
    by (simp add: keyed_by_def Map_values_def)
  with k show ?thesis by (simp add: keyed_by_def)
qed

lemma MemStorage_createFileShare_append:
  assumes "MemStorage_inv s"
  shows "Map_values (fileSharesMap (snd (MemStorage_createFileShare s now d)))
         = Map_values (fileSharesMap s) @ [fst (MemStorage_createFileShare s now d)]"
    and "fs_id (fst (MemStorage_createFileShare s now d))
         \<notin> fs_id ` set (Map_values (fileSharesMap s))"
proof -
  from assms have k: "keyed_by fs_id (fileSharesMap s)"
    and b: "ids_below fs_id (id_fileShares (currentId s)) (Map_values (fileSharesMap s))"
    by (simp_all add: MemStorage_inv_def)
  from k b have "id_fileShares (currentId s) \<notin> fst ` set (fileSharesMap s)"
    by (rule keyed_below_fresh)
  then show "Map_values (fileSharesMap (snd (MemStorage_createFileShare s now d)))
         = Map_values (fileSharesMap s) @ [fst (MemStorage_createFileShare s now d)]"
    by (simp add: MemStorage_createFileShare_def Let_def Map_set_fresh Map_values_def)
  from b show "fs_id (fst (MemStorage_createFileShare s now d))
         \<notin> fs_id ` set (Map_values (fileSharesMap s))"
    by (auto simp: MemStorage_createFileShare_def Let_def ids_below_def)
qed

lemma DatabaseStorage_createFileShare_append:
  "fileShares (snd (DatabaseStorage_createFileShare db now d))
   = fileShares db @ [fst (DatabaseStorage_createFileShare db now d)]"
  "Database_inv db \<Longrightarrow>
   fs_id (fst (DatabaseStorage_createFileShare db now d)) \<notin> fs_id ` set (fileShares db)"
  by (auto simp: DatabaseStorage_createFileShare_def Let_def Database_inv_def serial_def
      ids_below_def)

lemma MemStorage_grant_calls_count:
  "MemStorage_inv s \<Longrightarrow>
   length (grants_for F U (Map_values (fileSharesMap (MemStorage_run (grant_calls F U tps) s))))
   = length (grants_for F U (Map_values (fileSharesMap s))) + length tps"
proof (induction tps arbitrary: s)
  case Nil
  then show ?case by (simp add: grant_calls_def MemStorage_run_def)
next
  case (Cons tp tps)
  let ?d = "\<lparr>ifs_fileId = F, ifs_userId = U, ifs_permission = snd tp\<rparr>"
  let ?s1 = "snd (MemStorage_createFileShare s (fst tp) ?d)"
  have run: "MemStorage_run (grant_calls F U (tp # tps)) s = MemStorage_run (grant_calls F U tps) ?s1"
    by (simp add: grant_calls_def MemStorage_run_def)
  have inv1: "MemStorage_inv ?s1"
    using Cons.prems by (rule MemStorage_inv_createFileShare)
  have row: "fs_fileId (fst (MemStorage_createFileShare s (fst tp) ?d)) = F"
    "fs_userId (fst (MemStorage_createFileShare s (fst tp) ?d)) = U"
    by (simp_all add: MemStorage_createFileShare_def Let_def)
  have "length (grants_for F U (Map_values (fileSharesMap ?s1)))
        = length (grants_for F U (Map_values (fileSharesMap s))) + 1"
    by (simp add: MemStorage_createFileShare_append(1) [OF Cons.prems] grants_for_def row)
  with Cons.IH [OF inv1] show ?case unfolding run by simp
qed

lemma DatabaseStorage_grant_calls_count:
  "length (grants_for F U (fileShares (DatabaseStorage_run (grant_calls F U tps) db)))
   = length (grants_for F U (fileShares db)) + length tps"
proof (induction tps arbitrary: db)
  case Nil
  then show ?case by (simp add: grant_calls_def DatabaseStorage_run_def)
next
  case (Cons tp tps)
  let ?d = "\<lparr>ifs_fileId = F, ifs_userId = U, ifs_permission = snd tp\<rparr>"
  let ?db1 = "snd (DatabaseStorage_createFileShare db (fst tp) ?d)"
  have run: "DatabaseStorage_run (grant_calls F U (tp # tps)) db
             = DatabaseStorage_run (grant_calls F U tps) ?db1"
    by (simp add: grant_calls_def DatabaseStorage_run_def)
  have "length (grants_for F U (fileShares ?db1)) = length (grants_for F U (fileShares db)) + 1"
    by (simp add: DatabaseStorage_createFileShare_def Let_def grants_for_def)
  with Cons.IH [of ?db1] show ?case unfolding run by simp
qed

lemma post_files_share_ignores_grants:
  "fst (post_files_share MemStorage_ops (s\<lparr>fileSharesMap := m\<rparr>) req_user req t1 t2 t3)
   = fst (post_files_share MemStorage_ops s req_user req t1 t2 t3)"
  "fst (post_files_share DatabaseStorage_ops (db\<lparr>fileShares := rows\<rparr>) req_user req t1 t2 t3)
   = fst (post_files_share DatabaseStorage_ops db req_user req t1 t2 t3)"
  by (simp_all add: post_files_share_def ops_simps MemStorage_getFile_def
      MemStorage_getUserByEmail_def MemStorage_createFileShare_def
      DatabaseStorage_getFile_def DatabaseStorage_getUserByEmail_def
      DatabaseStorage_createFileShare_def Let_def case_prod_beta
      DatabaseStorage_updateUserStats_thrown DatabaseStorage_getUserStats_def
      DatabaseStorage_createUserStats_def
      split: option.splits)

lemma post_files_share_by_id_ignores_grants:
  "fst (post_files_share_by_id MemStorage_ops (s\<lparr>fileSharesMap := m\<rparr>) req_user rq t1 t2 t3)
   = fst (post_files_share_by_id MemStorage_ops s req_user rq t1 t2 t3)"
  "fst (post_files_share_by_id DatabaseStorage_ops (db\<lparr>fileShares := rows\<rparr>) req_user rq t1 t2 t3)
   = fst (post_files_share_by_id DatabaseStorage_ops db req_user rq t1 t2 t3)"
  by (simp_all add: post_files_share_by_id_def ops_simps MemStorage_getFile_def
      MemStorage_getUser_def MemStorage_createFileShare_def
      DatabaseStorage_getFile_def DatabaseStorage_getUser_def
      DatabaseStorage_createFileShare_def Let_def case_prod_beta
      DatabaseStorage_updateUserStats_thrown DatabaseStorage_getUserStats_def
      DatabaseStorage_createUserStats_def
      split: option.splits)

text \<open>
  Claim C5. \<^verbatim>\<open>createFileShare\<close> never looks for an existing grant: each call appends
  one row, whose id no earlier row has, whether or not the pair (file id, user id) is
  already granted; so \<open>n\<close> calls for one pair add \<open>n\<close> rows for that pair, all with
  different ids. Stated for stores that satisfy the invariant, which is what makes the
  next id fresh. The answer of the two share routes does not depend on the grants
  already stored.
\<close>

theorem C5_duplicate_grants:
  "(MemStorage_inv s \<longrightarrow>
      Map_values (fileSharesMap (snd (MemStorage_createFileShare s now d)))
        = Map_values (fileSharesMap s) @ [fst (MemStorage_createFileShare s now d)]
      \<and> fs_id (fst (MemStorage_createFileShare s now d))
          \<notin> fs_id ` set (Map_values (fileSharesMap s))
      \<and> length (grants_for F U
           (Map_values (fileSharesMap (MemStorage_run (grant_calls F U tps) s))))
          = length (grants_for F U (Map_values (fileSharesMap s))) + length tps
      \<and> distinct (map fs_id (grants_for F U
           (Map_values (fileSharesMap (MemStorage_run (grant_calls F U tps) s))))))
   \<and> (Database_inv db \<longrightarrow>
      fileShares (snd (DatabaseStorage_createFileShare db now d))
        = fileShares db @ [fst (DatabaseStorage_createFileShare db now d)]
      \<and> fs_id (fst (DatabaseStorage_createFileShare db now d)) \<notin> fs_id ` set (fileShares db)
      \<and> length (grants_for F U (fileShares (DatabaseStorage_run (grant_calls F U tps) db)))
          = length (grants_for F U (fileShares db)) + length tps
      \<and> distinct (map fs_id (grants_for F U
           (fileShares (DatabaseStorage_run (grant_calls F U tps) db)))))
   \<and> fst (post_files_share MemStorage_ops (s\<lparr>fileSharesMap := m\<rparr>) req_user req t1 t2 t3)
       = fst (post_files_share MemStorage_ops s req_user req t1 t2 t3)
   \<and> fst (post_files_share DatabaseStorage_ops (db\<lparr>fileShares := rows\<rparr>) req_user req t1 t2 t3)
       = fst (post_files_share DatabaseStorage_ops db req_user req t1 t2 t3)
   \<and> fst (post_files_share_by_id MemStorage_ops (s\<lparr>fileSharesMap := m\<rparr>) req_user rq t1 t2 t3)
       = fst (post_files_share_by_id MemStorage_ops s req_user rq t1 t2 t3)
   \<and> fst (post_files_share_by_id DatabaseStorage_ops (db\<lparr>fileShares := rows\<rparr>)
            req_user rq t1 t2 t3)
       = fst (post_files_share_by_id DatabaseStorage_ops db req_user rq t1 t2 t3)"
proof (intro conjI impI)
  show "fst (post_files_share MemStorage_ops (s\<lparr>fileSharesMap := m\<rparr>) req_user req t1 t2 t3)
       = fst (post_files_share MemStorage_ops s req_user req t1 t2 t3)"
    "fst (post_files_share DatabaseStorage_ops (db\<lparr>fileShares := rows\<rparr>) req_user req t1 t2 t3)
       = fst (post_files_share DatabaseStorage_ops db req_user req t1 t2 t3)"
    by (rule post_files_share_ignores_grants)+
  show "fst (post_files_share_by_id MemStorage_ops (s\<lparr>fileSharesMap := m\<rparr>) req_user rq t1 t2 t3)
       = fst (post_files_share_by_id MemStorage_ops s req_user rq t1 t2 t3)"
    "fst (post_files_share_by_id DatabaseStorage_ops (db\<lparr>fileShares := rows\<rparr>)
            req_user rq t1 t2 t3)
       = fst (post_files_share_by_id DatabaseStorage_ops db req_user rq t1 t2 t3)"
    by (rule post_files_share_by_id_ignores_grants)+
next
  assume inv: "MemStorage_inv s"
  then have "MemStorage_inv (MemStorage_run (grant_calls F U tps) s)"
    by (rule MemStorage_inv_run)
  then have "distinct (map fs_id
      (Map_values (fileSharesMap (MemStorage_run (grant_calls F U tps) s))))"
    by (simp add: MemStorage_inv_def keyed_by_distinct_ids)
  then show "distinct (map fs_id (grants_for F U
           (Map_values (fileSharesMap (MemStorage_run (grant_calls F U tps) s)))))"
    unfolding grants_for_def by (rule distinct_map_filter)
  from inv show "Map_values (fileSharesMap (snd (MemStorage_createFileShare s now d)))
        = Map_values (fileSharesMap s) @ [fst (MemStorage_createFileShare s now d)]"
    by (rule MemStorage_createFileShare_append)
  from inv show "fs_id (fst (MemStorage_createFileShare s now d))
          \<notin> fs_id ` set (Map_values (fileSharesMap s))"
    by (rule MemStorage_createFileShare_append)
  from inv show "length (grants_for F U
           (Map_values (fileSharesMap (MemStorage_run (grant_calls F U tps) s))))
          = length (grants_for F U (Map_values (fileSharesMap s))) + length tps"
    by (rule MemStorage_grant_calls_count)
next
  assume inv: "Database_inv db"
  then have "Database_inv (DatabaseStorage_run (grant_calls F U tps) db)"
    by (rule Database_inv_run)
  then have "distinct (map fs_id (fileShares (DatabaseStorage_run (grant_calls F U tps) db)))"
    by (simp add: Database_inv_def serial_def)
  then show "distinct (map fs_id (grants_for F U
           (fileShares (DatabaseStorage_run (grant_calls F U tps) db))))"
    unfolding grants_for_def by (rule distinct_map_filter)
  show "fileShares (snd (DatabaseStorage_createFileShare db now d))
        = fileShares db @ [fst (DatabaseStorage_createFileShare db now d)]"
    by (rule DatabaseStorage_createFileShare_append)
  from inv show "fs_id (fst (DatabaseStorage_createFileShare db now d))
      \<notin> fs_id ` set (fileShares db)"
    by (rule DatabaseStorage_createFileShare_append)
  show "length (grants_for F U (fileShares (DatabaseStorage_run (grant_calls F U tps) db)))
          = length (grants_for F U (fileShares db)) + length tps"
    by (rule DatabaseStorage_grant_calls_count)
qed

text \<open>
  Claim C5 on the sample store, where bob (3) already holds a grant for file 1: three
  more calls for the same pair leave four grant rows for it.
\<close>

theorem C5_duplicate_grants_witness:
  "MemStorage_inv sample_mem
   \<and> grants_for 1 3 (Map_values (fileSharesMap sample_mem)) = [sample_share]
   \<and> length (grants_for 1 3 (Map_values (fileSharesMap
        (MemStorage_run (grant_calls 1 3 [(9000, ''view''), (9001, ''view''), (9002, ''edit'')])
           sample_mem)))) = 4
   \<and> distinct (map fs_id (grants_for 1 3 (Map_values (fileSharesMap
        (MemStorage_run (grant_calls 1 3 [(9000, ''view''), (9001, ''view''), (9002, ''edit'')])
           sample_mem)))))
   \<and> Database_inv sample_db
   \<and> grants_for 1 3 (fileShares sample_db) = [sample_share]
   \<and> length (grants_for 1 3 (fileShares
        (DatabaseStorage_run (grant_calls 1 3 [(9000, ''view''), (9001, ''view''), (9002, ''edit'')])
           sample_db))) = 4
   \<and> distinct (map fs_id (grants_for 1 3 (fileShares
        (DatabaseStorage_run (grant_calls 1 3 [(9000, ''view''), (9001, ''view''), (9002, ''edit'')])
           sample_db))))"
proof -
  have before: "grants_for 1 3 (Map_values (fileSharesMap sample_mem)) = [sample_share]"
    "grants_for 1 3 (fileShares sample_db) = [sample_share]"
    by (simp_all add: sample_mem_eq sample_db_eq grants_for_def Map_values_def sample_share_def)
  from C5_duplicate_grants [of sample_mem 9000 "\<lparr>ifs_fileId = 1, ifs_userId = 3,
          ifs_permission = ''view''\<rparr>" 1 3
        "[(9000, ''view''), (9001, ''view''), (9002, ''edit'')]" sample_db
        "[]" "Some (sample_user 2 alice 1000)" sample_share_request 9000 9001 9002 "[]"
        sample_share_by_id_request]
       sample_mem_inv sample_db_inv
  show ?thesis by (simp add: before)
qed

subsection \<open>Share links\<close>

lemma length_toString_hex: "length (toString_hex bytes) = 2 * length bytes"
  by (induction bytes) (simp_all add: toString_hex_def hex_byte_def)

lemma length_hex_alphabet: "length hex_alphabet = 16"
  by (simp add: hex_alphabet_def)

lemma hex_digit_in: "n < 16 \<Longrightarrow> hex_digit n \<in> set hex_alphabet"
  unfolding hex_digit_def by (rule nth_mem) (simp add: length_hex_alphabet)

lemma set_hex_byte: "set (hex_byte b) \<subseteq> set hex_alphabet"
proof -
  have "unat b < 256" using unsigned_less [of b] by simp
  then have "unat b div 16 < 16" "unat b mod 16 < 16" by simp_all
  then show ?thesis
    unfolding hex_byte_def by (simp add: hex_digit_in)
qed

lemma set_toString_hex: "set (toString_hex bytes) \<subseteq> set hex_alphabet"
proof (induction bytes)
  case Nil
  then show ?case by (simp add: toString_hex_def)
next
  case (Cons b bytes)
  have "toString_hex (b # bytes) = hex_byte b @ toString_hex bytes"
    by (simp add: toString_hex_def)
  with Cons set_hex_byte [of b] show ?case by simp
qed

lemma sample_token_hex: "toString_hex sample_bytes = ''1fa002030405060708090a0b0c0d0eff''"
  by (simp add: toString_hex_def sample_bytes_def hex_byte_def hex_digit_def hex_alphabet_def)

lemma length_crypto_randomBytes: "length (crypto_randomBytes source n) = n"
  by (simp add: crypto_randomBytes_def)

lemma upt_16: "[0..<16] = [0, 1, 2, 3, 4, 5, 6, 7, 8, 9, 10, 11, 12, 13, 14, 15]"
  by (simp add: upt_rec)

lemma sample_randomBytes: "crypto_randomBytes sample_source 16 = sample_bytes"
  unfolding crypto_randomBytes_def upt_16
  by (simp add: sample_source_def sample_bytes_def)

lemma distinct_hex_alphabet: "distinct hex_alphabet"
  by (simp add: hex_alphabet_def)

lemma hex_digit_inj: "m < 16 \<Longrightarrow> n < 16 \<Longrightarrow> hex_digit m = hex_digit n \<Longrightarrow> m = n"
  unfolding hex_digit_def
  using nth_eq_iff_index_eq [OF distinct_hex_alphabet, of m n]
  by (simp add: length_hex_alphabet)

lemma hex_byte_inj:
  assumes "hex_byte b = hex_byte c"
  shows "b = c"
proof -
  have b: "unat b < 256" and c: "unat c < 256"
    using unsigned_less [of b] unsigned_less [of c] by simp_all
  from assms have "hex_digit (unat b div 16) = hex_digit (unat c div 16)"
    "hex_digit (unat b mod 16) = hex_digit (unat c mod 16)"
    by (simp_all add: hex_byte_def)
  with b c have "unat b div 16 = unat c div 16" "unat b mod 16 = unat c mod 16"
    by (auto intro!: hex_digit_inj)
  then have "unat b = unat c"
    by (metis div_mult_mod_eq)
  then show ?thesis by (simp add: word_unat_eq_iff)
qed

lemma toString_hex_inj:
  "length bs = length cs \<Longrightarrow> toString_hex bs = toString_hex cs \<Longrightarrow> bs = cs"
proof (induction bs cs rule: list_induct2)
  case Nil
  then show ?case by simp
next
  case (Cons b bs c cs)
  have "hex_byte b @ toString_hex bs = hex_byte c @ toString_hex cs"
    using Cons.prems by (simp add: toString_hex_def)
  moreover have "length (hex_byte b) = length (hex_byte c)"
    by (simp add: hex_byte_def)
  ultimately have "hex_byte b = hex_byte c" "toString_hex bs = toString_hex cs"
    by simp_all
  with Cons.IH hex_byte_inj show ?case by simp
qed

text \<open>
  Seven calendar days ahead is seven times 86400000 milliseconds of local time; in UTC
  the step differs from that by the change of the zone's offset.
\<close>

lemma setDate_getDate_plus_eq:
  "setDate_getDate_plus z t n =
     TimeClip (LocalTime z t + n * 86400000 - LocalTZA_local z (LocalTime z t + n * 86400000))"
proof -
  have "MakeDate (Day x + n) (TimeWithinDay x) = x + n * 86400000" for x
    by (simp add: MakeDate_def Day_def TimeWithinDay_def msPerDay_def algebra_simps)
  then show ?thesis
    by (simp add: setDate_getDate_plus_def UTC_def)
qed

text \<open>What a share-link request does once it is past the checks, for any storage.\<close>

lemma post_files_share_link_201:
  assumes "res_status (fst (post_files_share_link storage st req_user req zone source
             t_issue t_row domain)) = 201"
  shows "\<exists>user file rp pw e.
           req_user = Some user \<and> getFile storage st (slr_fileId req) = Some file \<and>
           f_ownerId file = u_id user \<and>
           zod_optional_boolean (slr_requirePassword req) = Some rp \<and>
           zod_optional_string
             (if truthy (slr_requirePassword req) then slr_password req else JNull) = Some pw \<and>
           setDate_getDate_plus zone t_issue 7 = Some e \<and>
           snd (post_files_share_link storage st req_user req zone source t_issue t_row domain) =
             snd (createShareLink storage st t_row
                    \<lparr>isl_fileId = slr_fileId req,
                     isl_linkToken = toString_hex (crypto_randomBytes source 16),
                     isl_requiresPassword = rp, isl_password = pw,
                     isl_expiresAt = Val e\<rparr>) \<and>
           (\<exists>url. res_body (fst (post_files_share_link storage st req_user req zone source
                                   t_issue t_row domain))
                  = ShareLinkBody url (Some e))"
  using assms
  by (auto simp: post_files_share_link_def reply_def insertShareLinkSchema_parse_def Let_def
       split: option.splits if_splits prod.splits)

lemma nullish_zod_optional_string:
  "zod_optional_string v = Some pw \<Longrightarrow>
   nullish pw = (case v of JStr p \<Rightarrow> Some p | _ \<Rightarrow> None)"
  by (cases v) auto

lemma MemStorage_createShareLink_append:
  assumes "MemStorage_inv s"
  shows "Map_values (shareLinksMap (snd (MemStorage_createShareLink s now d)))
         = Map_values (shareLinksMap s) @ [fst (MemStorage_createShareLink s now d)]"
proof -
  from assms have "id_shareLinks (currentId s) \<notin> fst ` set (shareLinksMap s)"
    by (intro keyed_below_fresh [of sl_id]) (simp_all add: MemStorage_inv_def)
  then show ?thesis
    by (simp add: MemStorage_createShareLink_def Let_def Map_set_fresh Map_values_def)
qed

lemma MemStorage_share_link_row:
  assumes "res_status (fst (post_files_share_link MemStorage_ops s req_user req zone source
             t_issue t_row domain)) = 201"
    and "MemStorage_inv s"
  shows "\<exists>link.
       Map_values (shareLinksMap (snd (post_files_share_link MemStorage_ops s req_user req
                                         zone source t_issue t_row domain)))
         = Map_values (shareLinksMap s) @ [link]
       \<and> sl_fileId link = slr_fileId req
       \<and> sl_linkToken link = toString_hex (crypto_randomBytes source 16)
       \<and> sl_expiresAt link = setDate_getDate_plus zone t_issue 7
       \<and> sl_expiresAt link \<noteq> None
       \<and> sl_password link =
           (if truthy (slr_requirePassword req)
            then (case slr_password req of JStr p \<Rightarrow> Some p | _ \<Rightarrow> None) else None)"
proof -
  from post_files_share_link_201 [OF assms(1)] obtain rp pw e where
    pw: "zod_optional_string
          (if truthy (slr_requirePassword req) then slr_password req else JNull) = Some pw"
    and e: "setDate_getDate_plus zone t_issue 7 = Some e"
    and st: "snd (post_files_share_link MemStorage_ops s req_user req zone source
                    t_issue t_row domain)
       = snd (MemStorage_createShareLink s t_row
                \<lparr>isl_fileId = slr_fileId req,
                 isl_linkToken = toString_hex (crypto_randomBytes source 16),
                 isl_requiresPassword = rp, isl_password = pw,
                 isl_expiresAt = Val e\<rparr>)"
    by (auto simp: ops_simps)
  let ?d = "\<lparr>isl_fileId = slr_fileId req,
             isl_linkToken = toString_hex (crypto_randomBytes source 16),
             isl_requiresPassword = rp, isl_password = pw,
             isl_expiresAt = Val e\<rparr>"
  let ?link = "fst (MemStorage_createShareLink s t_row ?d)"
  have "sl_fileId ?link = slr_fileId req"
    "sl_linkToken ?link = toString_hex (crypto_randomBytes source 16)"
    "sl_expiresAt ?link = Some e"
    "sl_password ?link = nullish pw"
    by (simp_all add: MemStorage_createShareLink_def Let_def)
  moreover have "nullish pw = (if truthy (slr_requirePassword req)
            then (case slr_password req of JStr p \<Rightarrow> Some p | _ \<Rightarrow> None) else None)"
    using nullish_zod_optional_string [OF pw] by (simp split: if_splits)
  ultimately show ?thesis
    unfolding st e using MemStorage_createShareLink_append [OF assms(2), of t_row ?d]
    by auto
qed

lemma DatabaseStorage_share_link_row:
  assumes "res_status (fst (post_files_share_link DatabaseStorage_ops db req_user req zone
             source t_issue t_row domain)) = 201"
  shows "\<exists>link.
       shareLinks (snd (post_files_share_link DatabaseStorage_ops db req_user req
                          zone source t_issue t_row domain))
         = shareLinks db @ [link]
       \<and> sl_fileId link = slr_fileId req
       \<and> sl_linkToken link = toString_hex (crypto_randomBytes source 16)
       \<and> sl_expiresAt link = setDate_getDate_plus zone t_issue 7
       \<and> sl_expiresAt link \<noteq> None
       \<and> sl_password link =
           (if truthy (slr_requirePassword req)
            then (case slr_password req of JStr p \<Rightarrow> Some p | _ \<Rightarrow> None) else None)"
proof -
  from post_files_share_link_201 [OF assms(1)] obtain rp pw e where
    pw: "zod_optional_string
          (if truthy (slr_requirePassword req) then slr_password req else JNull) = Some pw"
    and e: "setDate_getDate_plus zone t_issue 7 = Some e"
    and st: "snd (post_files_share_link DatabaseStorage_ops db req_user req zone source
                    t_issue t_row domain)
       = snd (DatabaseStorage_createShareLink db t_row
                \<lparr>isl_fileId = slr_fileId req,
                 isl_linkToken = toString_hex (crypto_randomBytes source 16),
                 isl_requiresPassword = rp, isl_password = pw,
                 isl_expiresAt = Val e\<rparr>)"
    by (auto simp: ops_simps)
  have "nullish pw = (if truthy (slr_requirePassword req)
            then (case slr_password req of JStr p \<Rightarrow> Some p | _ \<Rightarrow> None) else None)"
    using nullish_zod_optional_string [OF pw] by (simp split: if_splits)
  then show ?thesis
    unfolding st e by (simp add: DatabaseStorage_createShareLink_def Let_def)
qed

lemma TimeClip_Some: "TimeClip x \<noteq> None \<Longrightarrow> TimeClip x = Some x"
  by (simp add: TimeClip_def split: if_splits)

lemma expiry_value:
  assumes "e = setDate_getDate_plus zone t 7" "e \<noteq> None"
  shows "e = Some (LocalTime zone t + 7 * 86400000
                   - LocalTZA_local zone (LocalTime zone t + 7 * 86400000))"
    and "LocalTZA_local zone (LocalTime zone t + 7 * 86400000) = LocalTZA_utc zone t
         \<Longrightarrow> e = Some (t + 7 * 86400000)"
proof -
  from assms show e: "e = Some (LocalTime zone t + 7 * 86400000
                   - LocalTZA_local zone (LocalTime zone t + 7 * 86400000))"
    unfolding setDate_getDate_plus_eq using TimeClip_Some by simp
  show "e = Some (t + 7 * 86400000)"
    if "LocalTZA_local zone (LocalTime zone t + 7 * 86400000) = LocalTZA_utc zone t"
    unfolding e that by (simp add: LocalTime_def)
qed

text \<open>
  Claim C6, as amended. The token of a share link is the hexadecimal encoding of the
  buffer that \<^verbatim>\<open>crypto.randomBytes(16)\<close>, Node's interface to the cryptographically
  secure generator, returns: 16 bytes, so 32 characters, each a lower-case hexadecimal
  digit, and two different buffers give two different tokens. When the request is
  answered with 201, exactly one ShareLink row has been appended; it carries that token
  and the file id of the request; its \<^verbatim>\<open>expiresAt\<close> is the handler's reading of the
  clock moved seven calendar days ahead in the local time of the server, whatever the
  request says, which is that reading plus 7 * 86400000 ms exactly when the zone has
  the same offset from UTC at both times; its password is the submitted string if
  \<^verbatim>\<open>requirePassword\<close> is truthy and \<^verbatim>\<open>null\<close> otherwise, stored as submitted.
\<close>

theorem C6_share_link_issuance:
  "length (crypto_randomBytes source 16) = 16
   \<and> length (toString_hex (crypto_randomBytes source 16)) = 32
   \<and> set (toString_hex (crypto_randomBytes source 16)) \<subseteq> set hex_alphabet
   \<and> (toString_hex (crypto_randomBytes source 16) = toString_hex (crypto_randomBytes source' 16)
        \<longrightarrow> crypto_randomBytes source 16 = crypto_randomBytes source' 16)
   \<and> (res_status (fst (post_files_share_link MemStorage_ops s req_user req zone source
                          t_issue t_row domain)) = 201 \<and> MemStorage_inv s \<longrightarrow>
      (\<exists>link.
         Map_values (shareLinksMap (snd (post_files_share_link MemStorage_ops s req_user req
                                           zone source t_issue t_row domain)))
           = Map_values (shareLinksMap s) @ [link]
         \<and> sl_fileId link = slr_fileId req
         \<and> sl_linkToken link = toString_hex (crypto_randomBytes source 16)
         \<and> sl_expiresAt link =
             Some (LocalTime zone t_issue + 7 * 86400000
                   - LocalTZA_local zone (LocalTime zone t_issue + 7 * 86400000))
         \<and> (LocalTZA_local zone (LocalTime zone t_issue + 7 * 86400000)
              = LocalTZA_utc zone t_issue
            \<longrightarrow> sl_expiresAt link = Some (t_issue + 7 * 86400000))
         \<and> sl_password link =
             (if truthy (slr_requirePassword req)
              then (case slr_password req of JStr p \<Rightarrow> Some p | _ \<Rightarrow> None) else None)))
   \<and> (res_status (fst (post_files_share_link DatabaseStorage_ops db req_user req zone source
                          t_issue t_row domain)) = 201 \<longrightarrow>
      (\<exists>link.
         shareLinks (snd (post_files_share_link DatabaseStorage_ops db req_user req
                            zone source t_issue t_row domain))
           = shareLinks db @ [link]
         \<and> sl_fileId link = slr_fileId req
         \<and> sl_linkToken link = toString_hex (crypto_randomBytes source 16)
         \<and> sl_expiresAt link =
             Some (LocalTime zone t_issue + 7 * 86400000
                   - LocalTZA_local zone (LocalTime zone t_issue + 7 * 86400000))
         \<and> (LocalTZA_local zone (LocalTime zone t_issue + 7 * 86400000)
              = LocalTZA_utc zone t_issue
            \<longrightarrow> sl_expiresAt link = Some (t_issue + 7 * 86400000))
         \<and> sl_password link =
             (if truthy (slr_requirePassword req)
              then (case slr_password req of JStr p \<Rightarrow> Some p | _ \<Rightarrow> None) else None)))"
proof (intro conjI impI)
  show "length (crypto_randomBytes source 16) = 16"
    by (rule length_crypto_randomBytes)
  show "length (toString_hex (crypto_randomBytes source 16)) = 32"
    by (simp add: length_toString_hex length_crypto_randomBytes)
  show "set (toString_hex (crypto_randomBytes source 16)) \<subseteq> set hex_alphabet"
    by (rule set_toString_hex)
  show "crypto_randomBytes source 16 = crypto_randomBytes source' 16"
    if "toString_hex (crypto_randomBytes source 16) = toString_hex (crypto_randomBytes source' 16)"
    using that by (intro toString_hex_inj) (simp_all add: length_crypto_randomBytes)
next
  assume a: "res_status (fst (post_files_share_link MemStorage_ops s req_user req zone source
                          t_issue t_row domain)) = 201 \<and> MemStorage_inv s"
  from MemStorage_share_link_row [of s req_user req zone source t_issue t_row domain] a
  obtain link where link:
    "Map_values (shareLinksMap (snd (post_files_share_link MemStorage_ops s req_user req
                                           zone source t_issue t_row domain)))
           = Map_values (shareLinksMap s) @ [link]"
    "sl_fileId link = slr_fileId req"
    "sl_linkToken link = toString_hex (crypto_randomBytes source 16)"
    "sl_expiresAt link = setDate_getDate_plus zone t_issue 7"
    "sl_expiresAt link \<noteq> None"
    "sl_password link =
           (if truthy (slr_requirePassword req)
            then (case slr_password req of JStr p \<Rightarrow> Some p | _ \<Rightarrow> None) else None)"
    by blast
  from link(1,2,3,6) expiry_value [OF link(4,5)]
  show "\<exists>link.
         Map_values (shareLinksMap (snd (post_files_share_link MemStorage_ops s req_user req
                                           zone source t_issue t_row domain)))
           = Map_values (shareLinksMap s) @ [link]
         \<and> sl_fileId link = slr_fileId req
         \<and> sl_linkToken link = toString_hex (crypto_randomBytes source 16)
         \<and> sl_expiresAt link =
             Some (LocalTime zone t_issue + 7 * 86400000
                   - LocalTZA_local zone (LocalTime zone t_issue + 7 * 86400000))
         \<and> (LocalTZA_local zone (LocalTime zone t_issue + 7 * 86400000)
              = LocalTZA_utc zone t_issue
            \<longrightarrow> sl_expiresAt link = Some (t_issue + 7 * 86400000))
         \<and> sl_password link =
             (if truthy (slr_requirePassword req)
              then (case slr_password req of JStr p \<Rightarrow> Some p | _ \<Rightarrow> None) else None)"
    by (intro exI [of _ link] conjI impI)
next
  assume a: "res_status (fst (post_files_share_link DatabaseStorage_ops db req_user req zone
                          source t_issue t_row domain)) = 201"
  from DatabaseStorage_share_link_row [OF a]
  obtain link where link:
    "shareLinks (snd (post_files_share_link DatabaseStorage_ops db req_user req
                            zone source t_issue t_row domain))
           = shareLinks db @ [link]"
    "sl_fileId link = slr_fileId req"
    "sl_linkToken link = toString_hex (crypto_randomBytes source 16)"
    "sl_expiresAt link = setDate_getDate_plus zone t_issue 7"
    "sl_expiresAt link \<noteq> None"
    "sl_password link =
           (if truthy (slr_requirePassword req)
            then (case slr_password req of JStr p \<Rightarrow> Some p | _ \<Rightarrow> None) else None)"
    by blast
  from link(1,2,3,6) expiry_value [OF link(4,5)]
  show "\<exists>link.
         shareLinks (snd (post_files_share_link DatabaseStorage_ops db req_user req
                            zone source t_issue t_row domain))
           = shareLinks db @ [link]
         \<and> sl_fileId link = slr_fileId req
         \<and> sl_linkToken link = toString_hex (crypto_randomBytes source 16)
         \<and> sl_expiresAt link =
             Some (LocalTime zone t_issue + 7 * 86400000
                   - LocalTZA_local zone (LocalTime zone t_issue + 7 * 86400000))
         \<and> (LocalTZA_local zone (LocalTime zone t_issue + 7 * 86400000)
              = LocalTZA_utc zone t_issue
            \<longrightarrow> sl_expiresAt link = Some (t_issue + 7 * 86400000))
         \<and> sl_password link =
             (if truthy (slr_requirePassword req)
              then (case slr_password req of JStr p \<Rightarrow> Some p | _ \<Rightarrow> None) else None)"
    by (intro exI [of _ link] conjI impI)
qed

lemma sample_expiry:
  "setDate_getDate_plus utc_zone 10000 7 = Some 604810000"
  "setDate_getDate_plus cet_zone 1742904000000 7 = Some 1743505200000"
  by (simp_all add: setDate_getDate_plus_eq TimeClip_def LocalTime_def utc_zone_def cet_zone_def)

lemma sample_link_status:
  "res_status (fst (post_files_share_link MemStorage_ops sample_mem
      (Some (sample_user 2 alice 1000)) sample_link_request utc_zone sample_source
      10000 10001 None)) = 201"
  "res_status (fst (post_files_share_link DatabaseStorage_ops sample_db
      (Some (sample_user 2 alice 1000)) sample_link_request utc_zone sample_source
      10000 10001 None)) = 201"
  "res_status (fst (post_files_share_link MemStorage_ops sample_mem
      (Some (sample_user 2 alice 1000)) sample_open_link_request utc_zone sample_source
      10000 10001 None)) = 201"
  "res_status (fst (post_files_share_link DatabaseStorage_ops sample_db
      (Some (sample_user 2 alice 1000)) sample_open_link_request utc_zone sample_source
      10000 10001 None)) = 201"
  "res_status (fst (post_files_share_link DatabaseStorage_ops sample_db
      (Some (sample_user 2 alice 1000)) sample_link_request cet_zone sample_source
      1742904000000 1742904000001 None)) = 201"
  by (simp_all add: post_files_share_link_def ops_simps sample_getFile sample_expiry
      sample_link_request_def sample_open_link_request_def
      sample_file_def sample_user_def insertShareLinkSchema_parse_def reply_def Let_def
      split: prod.splits)

text \<open>
  The amended claim C6 on the sample store, with a server in UTC: alice asks for a link
  to file 1 at time 10000, once with a password and once without protection but with a
  password in the body. Both rows expire at 604810000; the first stores the password,
  the second stores none.
\<close>

theorem C6_share_link_issuance_witness:
  "crypto_randomBytes sample_source 16 = sample_bytes
   \<and> toString_hex sample_bytes = ''1fa002030405060708090a0b0c0d0eff''
   \<and> length (toString_hex (crypto_randomBytes sample_source 16)) = 32
   \<and> MemStorage_inv sample_mem
   \<and> res_status (fst (post_files_share_link MemStorage_ops sample_mem
        (Some (sample_user 2 alice 1000)) sample_link_request utc_zone sample_source
        10000 10001 None)) = 201
   \<and> sl_linkToken (last (Map_values (shareLinksMap (snd (post_files_share_link MemStorage_ops
        sample_mem (Some (sample_user 2 alice 1000)) sample_link_request utc_zone
        sample_source 10000 10001 None))))) = ''1fa002030405060708090a0b0c0d0eff''
   \<and> sl_expiresAt (last (Map_values (shareLinksMap (snd (post_files_share_link MemStorage_ops
        sample_mem (Some (sample_user 2 alice 1000)) sample_link_request utc_zone
        sample_source 10000 10001 None))))) = Some 604810000
   \<and> sl_password (last (Map_values (shareLinksMap (snd (post_files_share_link MemStorage_ops
        sample_mem (Some (sample_user 2 alice 1000)) sample_link_request utc_zone
        sample_source 10000 10001 None))))) = Some ''pw''
   \<and> sl_password (last (Map_values (shareLinksMap (snd (post_files_share_link MemStorage_ops
        sample_mem (Some (sample_user 2 alice 1000)) sample_open_link_request utc_zone
        sample_source 10000 10001 None))))) = None
   \<and> res_status (fst (post_files_share_link DatabaseStorage_ops sample_db
        (Some (sample_user 2 alice 1000)) sample_link_request utc_zone sample_source
        10000 10001 None)) = 201
   \<and> sl_linkToken (last (shareLinks (snd (post_files_share_link DatabaseStorage_ops
        sample_db (Some (sample_user 2 alice 1000)) sample_link_request utc_zone
        sample_source 10000 10001 None)))) = ''1fa002030405060708090a0b0c0d0eff''
   \<and> sl_expiresAt (last (shareLinks (snd (post_files_share_link DatabaseStorage_ops
        sample_db (Some (sample_user 2 alice 1000)) sample_link_request utc_zone
        sample_source 10000 10001 None)))) = Some 604810000
   \<and> sl_password (last (shareLinks (snd (post_files_share_link DatabaseStorage_ops
        sample_db (Some (sample_user 2 alice 1000)) sample_link_request utc_zone
        sample_source 10000 10001 None)))) = Some ''pw''
   \<and> sl_password (last (shareLinks (snd (post_files_share_link DatabaseStorage_ops
        sample_db (Some (sample_user 2 alice 1000)) sample_open_link_request utc_zone
        sample_source 10000 10001 None)))) = None"
proof -
  have req: "truthy (slr_requirePassword sample_link_request)"
    "slr_password sample_link_request = JStr ''pw''"
    "\<not> truthy (slr_requirePassword sample_open_link_request)"
    by (simp_all add: sample_link_request_def sample_open_link_request_def)
  have zone: "LocalTime utc_zone 10000 = 10000" "LocalTZA_local utc_zone x = 0"
    "LocalTZA_utc utc_zone x = 0" for x
    by (simp_all add: LocalTime_def utc_zone_def)
  note C6 = C6_share_link_issuance [of sample_source sample_source sample_mem
      "Some (sample_user 2 alice 1000)" _ utc_zone 10000 10001 None sample_db]
  from C6 [of sample_link_request] C6 [of sample_open_link_request]
    sample_link_status sample_mem_inv
  show ?thesis
    by (auto simp: req zone sample_token_hex sample_randomBytes)
qed

text \<open>
  Claim C6 as stated fails where the offset of the zone changes inside the week. The
  server is in central Europe and the link is issued on 2025-03-25 at 12:00 UTC (time
  value 1742904000000); summer time starts on 2025-03-30. The link expires at 1743505200000,
  which is 601200000 ms later: seven days less one hour.
\<close>

theorem C6_share_link_expiry_counterexample:
  "res_status (fst (post_files_share_link DatabaseStorage_ops sample_db
      (Some (sample_user 2 alice 1000)) sample_link_request cet_zone sample_source
      1742904000000 1742904000001 None)) = 201
   \<and> sl_expiresAt (last (shareLinks (snd (post_files_share_link DatabaseStorage_ops sample_db
        (Some (sample_user 2 alice 1000)) sample_link_request cet_zone sample_source
        1742904000000 1742904000001 None)))) = Some (1742904000000 + 601200000)
   \<and> sl_expiresAt (last (shareLinks (snd (post_files_share_link DatabaseStorage_ops sample_db
        (Some (sample_user 2 alice 1000)) sample_link_request cet_zone sample_source
        1742904000000 1742904000001 None)))) \<noteq> Some (1742904000000 + 7 * 86400000)"
proof -
  from DatabaseStorage_share_link_row [OF sample_link_status(5)]
  have "sl_expiresAt (last (shareLinks (snd (post_files_share_link DatabaseStorage_ops sample_db
        (Some (sample_user 2 alice 1000)) sample_link_request cet_zone sample_source
        1742904000000 1742904000001 None)))) = Some 1743505200000"
    by (auto simp: sample_expiry)
  with sample_link_status(5) show ?thesis by simp
qed

subsection \<open>Reading share links\<close>

lemma find_Some_ex:
  assumes "x \<in> set xs" "P x"
  shows "\<exists>y. find P xs = Some y \<and> P y \<and> y \<in> set xs"
proof -
  from assms have "find P xs \<noteq> None" by (auto simp: find_None_iff)
  then obtain y where y: "find P xs = Some y" by blast
  then have "P y \<and> y \<in> set xs" by (auto simp: find_Some_iff)
  with y show ?thesis by blast
qed

lemma find_Some_unique:
  assumes "x \<in> set xs" "P x" "\<forall>y \<in> set xs. P y \<longrightarrow> y = x"
  shows "find P xs = Some x"
proof -
  from find_Some_ex [of x xs P] assms(1,2) obtain y where "find P xs = Some y" "P y" "y \<in> set xs"
    by blast
  with assms(3) show ?thesis by blast
qed

lemma MemStorage_call_shareLinks:
  "shareLinksMap (MemStorage_call (now, CreateUser du) s) = shareLinksMap s"
  "shareLinksMap (MemStorage_call (now, CreateFile df) s) = shareLinksMap s"
  "shareLinksMap (MemStorage_call (now, CreateFileShare ds) s) = shareLinksMap s"
  "shareLinksMap (MemStorage_call (now, LogTransaction dt) s) = shareLinksMap s"
  "shareLinksMap (MemStorage_call (now, CreateUserStats u) s) = shareLinksMap s"
  "shareLinksMap (MemStorage_call (now, UpdateUserStats u d) s) = shareLinksMap s"
  by (simp_all add: MemStorage_createUser_def MemStorage_createFile_def
      MemStorage_createFileShare_def MemStorage_logTransaction_def
      MemStorage_createUserStats_def MemStorage_updateUserStats_frame Let_def)

lemma MemStorage_deleteFile_shareLinks:
  "MemStorage_inv s \<Longrightarrow>
   shareLinksMap (MemStorage_deleteFile s i) = filter (\<lambda>e. sl_fileId (snd e) \<noteq> i) (shareLinksMap s)"
  by (simp add: MemStorage_deleteFile_keyed)

lemma MemStorage_link_survives_pair:
  assumes "MemStorage_inv s" "link \<in> set (Map_values (shareLinksMap s))"
    and "\<And>i. k = DeleteFile i \<Longrightarrow> sl_fileId link \<noteq> i"
  shows "link \<in> set (Map_values (shareLinksMap (MemStorage_call (now, k) s)))"
proof (cases k)
  case (DeleteFile i)
  then have "sl_fileId link \<noteq> i" by (rule assms(3))
  with assms(2) have "link \<in> set (Map_values (filter (\<lambda>e. sl_fileId (snd e) \<noteq> i)
                                                (shareLinksMap s)))"
    unfolding Map_values_def by force
  then show ?thesis
    unfolding DeleteFile MemStorage_call.simps
      MemStorage_deleteFile_shareLinks [OF assms(1)] .
next
  case (CreateShareLink d)
  from assms(2) show ?thesis
    unfolding CreateShareLink MemStorage_call.simps
      MemStorage_createShareLink_append [OF assms(1)] by simp
next
  case (CreateUser d)
  from assms(2) show ?thesis unfolding CreateUser MemStorage_call_shareLinks .
next
  case (CreateFile d)
  from assms(2) show ?thesis unfolding CreateFile MemStorage_call_shareLinks .
next
  case (CreateFileShare d)
  from assms(2) show ?thesis unfolding CreateFileShare MemStorage_call_shareLinks .
next
  case (LogTransaction d)
  from assms(2) show ?thesis unfolding LogTransaction MemStorage_call_shareLinks .
next
  case (CreateUserStats u)
  from assms(2) show ?thesis unfolding CreateUserStats MemStorage_call_shareLinks .
next
  case (UpdateUserStats u d)
  from assms(2) show ?thesis unfolding UpdateUserStats MemStorage_call_shareLinks .
qed

lemma MemStorage_link_survives:
  assumes "MemStorage_inv s" "link \<in> set (Map_values (shareLinksMap s))"
    and "\<forall>i. snd c = DeleteFile i \<longrightarrow> sl_fileId link \<noteq> i"
  shows "link \<in> set (Map_values (shareLinksMap (MemStorage_call c s)))"
proof -
  obtain now k where c: "c = (now, k)" by (cases c)
  from assms(3) have "\<And>i. k = DeleteFile i \<Longrightarrow> sl_fileId link \<noteq> i"
    unfolding c by simp
  with assms(1,2) show ?thesis
    unfolding c by (rule MemStorage_link_survives_pair)
qed

lemma DatabaseStorage_call_shareLinks:
  "shareLinks (DatabaseStorage_call (now, CreateUser du) db) = shareLinks db"
  "shareLinks (DatabaseStorage_call (now, CreateFile df) db) = shareLinks db"
  "shareLinks (DatabaseStorage_call (now, CreateFileShare ds) db) = shareLinks db"
  "shareLinks (DatabaseStorage_call (now, LogTransaction dt) db) = shareLinks db"
  "shareLinks (DatabaseStorage_call (now, CreateUserStats u) db) = shareLinks db"
  "shareLinks (DatabaseStorage_call (now, UpdateUserStats u d) db) = shareLinks db"
  "shareLinks (DatabaseStorage_call (now, DeleteFile i) db)
     = filter (\<lambda>r. sl_fileId r \<noteq> i) (shareLinks db)"
  "shareLinks (DatabaseStorage_call (now, CreateShareLink dl) db)
     = shareLinks db @ [fst (DatabaseStorage_createShareLink db now dl)]"
  by (simp_all add: DatabaseStorage_createUser_def DatabaseStorage_createFile_def
      DatabaseStorage_createFileShare_def DatabaseStorage_logTransaction_def
      DatabaseStorage_createUserStats_def DatabaseStorage_updateUserStats_frame
      DatabaseStorage_deleteFile_def DatabaseStorage_createShareLink_def Let_def)

lemma DatabaseStorage_link_survives_pair:
  assumes "link \<in> set (shareLinks db)"
    and "\<And>i. k = DeleteFile i \<Longrightarrow> sl_fileId link \<noteq> i"
  shows "link \<in> set (shareLinks (DatabaseStorage_call (now, k) db))"
proof (cases k)
  case (DeleteFile i)
  then have "sl_fileId link \<noteq> i" by (rule assms(2))
  with assms(1) show ?thesis
    unfolding DeleteFile DatabaseStorage_call_shareLinks by simp
next
  case (CreateShareLink d)
  from assms(1) show ?thesis
    unfolding CreateShareLink DatabaseStorage_call_shareLinks by simp
next
  case (CreateUser d)
  from assms(1) show ?thesis unfolding CreateUser DatabaseStorage_call_shareLinks .
next
  case (CreateFile d)
  from assms(1) show ?thesis unfolding CreateFile DatabaseStorage_call_shareLinks .
next
  case (CreateFileShare d)
  from assms(1) show ?thesis unfolding CreateFileShare DatabaseStorage_call_shareLinks .
next
  case (LogTransaction d)
  from assms(1) show ?thesis unfolding LogTransaction DatabaseStorage_call_shareLinks .
next
  case (CreateUserStats u)
  from assms(1) show ?thesis unfolding CreateUserStats DatabaseStorage_call_shareLinks .
next
  case (UpdateUserStats u d)
  from assms(1) show ?thesis unfolding UpdateUserStats DatabaseStorage_call_shareLinks .
qed

lemma DatabaseStorage_link_survives:
  assumes "link \<in> set (shareLinks db)"
    and "\<forall>i. snd c = DeleteFile i \<longrightarrow> sl_fileId link \<noteq> i"
  shows "link \<in> set (shareLinks (DatabaseStorage_call c db))"
proof -
  obtain now k where c: "c = (now, k)" by (cases c)
  from assms(2) have "\<And>i. k = DeleteFile i \<Longrightarrow> sl_fileId link \<noteq> i"
    unfolding c by simp
  with assms(1) show ?thesis
    unfolding c by (rule DatabaseStorage_link_survives_pair)
qed

text \<open>
  Claim C7. \<^verbatim>\<open>getShareLink(t)\<close> returns a stored link whose token is \<open>t\<close> whenever
  there is one (the link itself when no other stored link has that token), and
  \<^verbatim>\<open>undefined\<close> when there is none. Neither the method nor the statement looks at
  \<^verbatim>\<open>expiresAt\<close> or at a clock: an expired link is returned like any other. No call of
  the storage interface removes a stored link, except \<^verbatim>\<open>deleteFile\<close> of the link's own
  file.
\<close>

theorem C7_getShareLink_ignores_expiry:
  "(link \<in> set (Map_values (shareLinksMap s)) \<and> sl_linkToken link = t \<longrightarrow>
      (\<exists>l. MemStorage_getShareLink s t = Some l \<and> sl_linkToken l = t
          \<and> l \<in> set (Map_values (shareLinksMap s))))
   \<and> (link \<in> set (Map_values (shareLinksMap s)) \<and> sl_linkToken link = t
       \<and> (\<forall>l \<in> set (Map_values (shareLinksMap s)). sl_linkToken l = t \<longrightarrow> l = link) \<longrightarrow>
      MemStorage_getShareLink s t = Some link)
   \<and> ((\<forall>l \<in> set (Map_values (shareLinksMap s)). sl_linkToken l \<noteq> t) \<longrightarrow>
      MemStorage_getShareLink s t = None)
   \<and> (MemStorage_inv s \<and> link \<in> set (Map_values (shareLinksMap s))
       \<and> (\<forall>i. snd c = DeleteFile i \<longrightarrow> sl_fileId link \<noteq> i) \<longrightarrow>
      link \<in> set (Map_values (shareLinksMap (MemStorage_call c s))))
   \<and> (link \<in> set (shareLinks db) \<and> sl_linkToken link = t \<longrightarrow>
      (\<exists>l. DatabaseStorage_getShareLink db t = Some l \<and> sl_linkToken l = t
          \<and> l \<in> set (shareLinks db)))
   \<and> (link \<in> set (shareLinks db) \<and> sl_linkToken link = t
       \<and> (\<forall>l \<in> set (shareLinks db). sl_linkToken l = t \<longrightarrow> l = link) \<longrightarrow>
      DatabaseStorage_getShareLink db t = Some link)
   \<and> ((\<forall>l \<in> set (shareLinks db). sl_linkToken l \<noteq> t) \<longrightarrow>
      DatabaseStorage_getShareLink db t = None)
   \<and> (link \<in> set (shareLinks db)
       \<and> (\<forall>i. snd c = DeleteFile i \<longrightarrow> sl_fileId link \<noteq> i) \<longrightarrow>
      link \<in> set (shareLinks (DatabaseStorage_call c db)))"
proof (intro conjI impI; (elim conjE)?)
  assume "link \<in> set (Map_values (shareLinksMap s))" "sl_linkToken link = t"
  then show "\<exists>l. MemStorage_getShareLink s t = Some l \<and> sl_linkToken l = t
          \<and> l \<in> set (Map_values (shareLinksMap s))"
    unfolding MemStorage_getShareLink_def
    by (rule find_Some_ex [of link _ "\<lambda>l. sl_linkToken l = t"])
next
  assume "link \<in> set (Map_values (shareLinksMap s))" "sl_linkToken link = t"
    "\<forall>l \<in> set (Map_values (shareLinksMap s)). sl_linkToken l = t \<longrightarrow> l = link"
  then show "MemStorage_getShareLink s t = Some link"
    unfolding MemStorage_getShareLink_def by (rule find_Some_unique [of link _ "\<lambda>l. sl_linkToken l = t"])
next
  assume "\<forall>l \<in> set (Map_values (shareLinksMap s)). sl_linkToken l \<noteq> t"
  then show "MemStorage_getShareLink s t = None"
    unfolding MemStorage_getShareLink_def by (simp add: find_None_iff)
next
  assume "MemStorage_inv s" "link \<in> set (Map_values (shareLinksMap s))"
    "\<forall>i. snd c = DeleteFile i \<longrightarrow> sl_fileId link \<noteq> i"
  then show "link \<in> set (Map_values (shareLinksMap (MemStorage_call c s)))"
    by (rule MemStorage_link_survives)
next
  assume "link \<in> set (shareLinks db)" "sl_linkToken link = t"
  then show "\<exists>l. DatabaseStorage_getShareLink db t = Some l \<and> sl_linkToken l = t
          \<and> l \<in> set (shareLinks db)"
    unfolding DatabaseStorage_getShareLink_def first_filter_find
    by (rule find_Some_ex [of link _ "\<lambda>l. sl_linkToken l = t"])
next
  assume "link \<in> set (shareLinks db)" "sl_linkToken link = t"
    "\<forall>l \<in> set (shareLinks db). sl_linkToken l = t \<longrightarrow> l = link"
  then show "DatabaseStorage_getShareLink db t = Some link"
    unfolding DatabaseStorage_getShareLink_def first_filter_find
    by (rule find_Some_unique [of link _ "\<lambda>l. sl_linkToken l = t"])
next
  assume "\<forall>l \<in> set (shareLinks db). sl_linkToken l \<noteq> t"
  then show "DatabaseStorage_getShareLink db t = None"
    unfolding DatabaseStorage_getShareLink_def by (simp add: filter_empty_conv)
next
  assume "link \<in> set (shareLinks db)"
    "\<forall>i. snd c = DeleteFile i \<longrightarrow> sl_fileId link \<noteq> i"
  then show "link \<in> set (shareLinks (DatabaseStorage_call c db))"
    by (rule DatabaseStorage_link_survives)
qed

text \<open>
  Claim C7 on the sample store. The stored link expired at time 6000; it is read under
  its token all the same, there is no link under another token, and a later call that
  deletes another file leaves it in place.
\<close>

theorem C7_getShareLink_ignores_expiry_witness:
  "sample_link \<in> set (Map_values (shareLinksMap sample_mem))
   \<and> sl_expiresAt sample_link = Some 6000
   \<and> MemStorage_getShareLink sample_mem sample_token = Some sample_link
   \<and> MemStorage_getShareLink sample_mem ''ffff'' = None
   \<and> MemStorage_inv sample_mem
   \<and> sample_link \<in> set (Map_values (shareLinksMap
         (MemStorage_call (2000000000000, DeleteFile 7) sample_mem)))
   \<and> sample_link \<in> set (shareLinks sample_db)
   \<and> DatabaseStorage_getShareLink sample_db sample_token = Some sample_link
   \<and> DatabaseStorage_getShareLink sample_db ''ffff'' = None
   \<and> sample_link \<in> set (shareLinks
         (DatabaseStorage_call (2000000000000, DeleteFile 7) sample_db))"
proof -
  have rows: "Map_values (shareLinksMap sample_mem) = [sample_link]"
    "shareLinks sample_db = [sample_link]"
    by (simp_all add: sample_mem_eq sample_db_eq Map_values_def)
  have link: "sl_linkToken sample_link = sample_token" "sl_expiresAt sample_link = Some 6000"
    "sl_fileId sample_link = 1" "sample_token \<noteq> ''ffff''"
    by (simp_all add: sample_link_def sample_token_def)
  from C7_getShareLink_ignores_expiry [of sample_link sample_mem sample_token
         "(2000000000000, DeleteFile 7)" sample_db]
       C7_getShareLink_ignores_expiry [of sample_link sample_mem "''ffff''"
         "(2000000000000, DeleteFile 7)" sample_db]
       sample_mem_inv
  show ?thesis by (simp add: rows link)
qed

subsection \<open>The share routes\<close>






lemma post_files_share_granted:
  "getFile storage st (sr_fileId req) = Some file \<Longrightarrow> f_ownerId file = u_id user \<Longrightarrow>
   getUserByEmail storage st (sr_email req) = Some R \<Longrightarrow> sr_permission req = JStr p \<Longrightarrow>
   fst (updateUserStats storage
        (snd (createFileShare storage st t1
           \<lparr>ifs_fileId = sr_fileId req, ifs_userId = u_id R, ifs_permission = p\<rparr>))
        t2 t3 (u_id user) (no_updates\<lparr>up_filesShared := Some 1\<rparr>)) = None \<Longrightarrow>
   res_status (fst (post_files_share storage st (Some user) req t1 t2 t3)) = 201"
  by (simp add: post_files_share_def insertFileShareSchema_parse_def case_prod_beta reply_def)

lemma post_files_share_by_id_granted:
  "getFile storage st (sbi_fileId rq) = Some file \<Longrightarrow> f_ownerId file = u_id user \<Longrightarrow>
   getUser storage st (sbi_recipientId rq) = Some R \<Longrightarrow> sbi_permission rq = JStr p \<Longrightarrow>
   fst (updateUserStats storage
        (snd (createFileShare storage st t1
           \<lparr>ifs_fileId = sbi_fileId rq, ifs_userId = u_id R, ifs_permission = p\<rparr>))
        t2 t3 (u_id user) (no_updates\<lparr>up_filesShared := Some 1\<rparr>)) = None \<Longrightarrow>
   res_status (fst (post_files_share_by_id storage st (Some user) rq t1 t2 t3)) = 201"
  by (simp add: post_files_share_by_id_def insertFileShareSchema_parse_def case_prod_beta
      reply_def)


lemma Database_stat_clamped:
  assumes "Database_inv db" "DatabaseStorage_getUserStats db u = Some old"
  shows "clamped old"
proof -
  from assms(2) have "old \<in> set (stats db)"
    by (auto simp: DatabaseStorage_getUserStats_def dest: first_filter_Some)
  with assms(1) show ?thesis by (simp add: Database_inv_def list_all_iff)
qed



text \<open>When the update of the share counter is accepted by the database.\<close>

lemma Database_stat_int4:
  assumes "Database_int4 db" "DatabaseStorage_getUserStats db u = Some old"
  shows "int4_stat old"
proof -
  from assms(2) have "old \<in> set (stats db)"
    by (auto simp: DatabaseStorage_getUserStats_def dest: first_filter_Some)
  with assms(1) show ?thesis by (simp add: Database_int4_def list_all_iff)
qed






















lemma sample_db_int4: "Database_int4 sample_db"
  by (simp add: Database_int4_def sample_db_eq sample_stat_def int4_stat_def int4_def)




lemma sample_request_fields:
  "sr_fileId sample_share_request = 1"
  "sr_email sample_share_request = ''test@example.com''"
  "sr_permission sample_share_request = JStr ''download''"
  "sbi_fileId sample_share_by_id_request = 1"
  "sbi_recipientId sample_share_by_id_request = 1"
  "sbi_permission sample_share_by_id_request = JStr ''download''"
  "u_id (sample_user i d t) = i"
  "f_ownerId sample_file = 2"
  by (simp_all add: sample_share_request_def sample_share_by_id_request_def sample_user_def
      sample_file_def)



subsection \<open>The download route\<close>

text \<open>A download request that is past the checks, for any storage.\<close>

lemma get_files_id_download_resolved:
  assumes "getFile storage st F = Some file"
    and "checkFileAccess storage st (f_id file) (u_id user)"
    and "retrieveFile storedFiles (f_cid file) = Some encryptedData"
  shows "get_files_id_download storage st storedFiles (Some user) F t_stat t_upd t_txid t_tx =
     (case fst (updateUserStats storage st t_stat t_upd (f_ownerId file)
                  (no_updates\<lparr>up_downloads := Some 1\<rparr>)) of
        Some e \<Rightarrow> (reply 500 (ErrorBody ''Failed to download file''),
                   snd (updateUserStats storage st t_stat t_upd (f_ownerId file)
                          (no_updates\<lparr>up_downloads := Some 1\<rparr>)))
      | None \<Rightarrow> (reply 200 (DownloadBody encryptedData (f_encryptionKey file) (f_name file)
                              (f_type file)),
                 snd (logTransaction storage
                        (snd (updateUserStats storage st t_stat t_upd (f_ownerId file)
                                (no_updates\<lparr>up_downloads := Some 1\<rparr>)))
                        t_tx
                        \<lparr>itx_txId = ''tx_'' @ show_int t_txid, itx_cid = f_cid file,
                         itx_fileId = Some (f_id file), itx_type = ''retrieve'',
                         itx_status = ''confirmed'', itx_metadata = ''{}''\<rparr>)))"
  using assms
  by (simp add: get_files_id_download_def case_prod_beta split: option.splits)

lemma get_files_id_download_200:
  assumes "getFile storage st F = Some file"
    and "res_status (fst (get_files_id_download storage st storedFiles (Some user) F
                            t_stat t_upd t_txid t_tx)) = 200"
  shows "checkFileAccess storage st (f_id file) (u_id user)"
    and "fst (updateUserStats storage st t_stat t_upd (f_ownerId file)
                (no_updates\<lparr>up_downloads := Some 1\<rparr>)) = None"
    and "snd (get_files_id_download storage st storedFiles (Some user) F
                t_stat t_upd t_txid t_tx)
         = snd (logTransaction storage
                  (snd (updateUserStats storage st t_stat t_upd (f_ownerId file)
                          (no_updates\<lparr>up_downloads := Some 1\<rparr>)))
                  t_tx
                  \<lparr>itx_txId = ''tx_'' @ show_int t_txid, itx_cid = f_cid file,
                   itx_fileId = Some (f_id file), itx_type = ''retrieve'',
                   itx_status = ''confirmed'', itx_metadata = ''{}''\<rparr>)"
  using assms
  by (auto simp: get_files_id_download_def case_prod_beta reply_def
      split: option.splits if_splits)

lemma MemStorage_logTransaction_stats:
  "MemStorage_getUserStats (snd (MemStorage_logTransaction s now d)) u
   = MemStorage_getUserStats s u"
  by (simp add: MemStorage_getUserStats_def MemStorage_logTransaction_def Let_def)

lemma DatabaseStorage_logTransaction_stats:
  "DatabaseStorage_getUserStats (snd (DatabaseStorage_logTransaction db now d)) u
   = DatabaseStorage_getUserStats db u"
  by (simp add: DatabaseStorage_getUserStats_def DatabaseStorage_logTransaction_def Let_def)

text \<open>The download counter after the update, and the rows of the other users.\<close>

lemma MemStorage_downloads_bump:
  "downloads_of (MemStorage_getUserStats
     (snd (MemStorage_updateUserStats s t1 t2 u (no_updates\<lparr>up_downloads := Some 1\<rparr>))) u)
   = downloads_of (MemStorage_getUserStats s u) + 1"
proof (cases "MemStorage_getUserStats s u")
  case None
  then show ?thesis
    by (simp add: MemStorage_getUserStats_updateUserStats MemStorage_updateUserStats_None
        downloads_of_def no_updates_def)
next
  case (Some old)
  then show ?thesis
    by (simp add: MemStorage_getUserStats_updateUserStats MemStorage_updateUserStats_Some
        downloads_of_def no_updates_def)
qed

lemma DatabaseStorage_downloads_bump:
  assumes "Database_inv db"
    and "fst (updateUserStats DatabaseStorage_ops db t1 t2 u
                (no_updates\<lparr>up_downloads := Some 1\<rparr>)) = None"
  shows "downloads_of (DatabaseStorage_getUserStats
           (snd (DatabaseStorage_updateUserStats db t1 t2 u
                   (no_updates\<lparr>up_downloads := Some 1\<rparr>))) u)
         = downloads_of (DatabaseStorage_getUserStats db u) + 1"
proof -
  from assms(2) obtain r where r: "fst (DatabaseStorage_updateUserStats db t1 t2 u
                   (no_updates\<lparr>up_downloads := Some 1\<rparr>)) = Inr r"
    by (auto simp: DatabaseStorage_ops_thrown split: sum.splits)
  show ?thesis
  proof (cases "DatabaseStorage_getUserStats db u")
    case None
    from r show ?thesis
      unfolding DatabaseStorage_getUserStats_updateUserStats [OF assms(1) r]
      unfolding DatabaseStorage_updateUserStats_None [OF assms(1) None]
      by (auto simp: None downloads_of_def no_updates_def Let_def split: if_splits)
  next
    case (Some old)
    from r show ?thesis
      unfolding DatabaseStorage_getUserStats_updateUserStats [OF assms(1) r]
      unfolding DatabaseStorage_updateUserStats_Some [OF assms(1) Some]
      by (auto simp: Some downloads_of_def no_updates_def newValues_def split: if_splits)
  qed
qed

lemma DatabaseStorage_getUserStats_updateUserStats_other:
  assumes "Database_inv db" "u' \<noteq> u"
  shows "DatabaseStorage_getUserStats (snd (DatabaseStorage_updateUserStats db now0 now u d)) u'
         = DatabaseStorage_getUserStats db u'"
proof (cases "DatabaseStorage_getUserStats db u")
  case None
  with assms(2) show ?thesis
    unfolding DatabaseStorage_updateUserStats_None [OF assms(1) None]
    by (simp add: DatabaseStorage_getUserStats_def DatabaseStorage_createUserStats_def Let_def)
next
  case (Some old)
  then have old: "old \<in> set (stats db)" "st_userId old = u"
    by (auto simp: DatabaseStorage_getUserStats_def dest: first_filter_Some)
  from assms(1) have dist: "distinct (map st_id (stats db))"
    by (simp add: Database_inv_def serial_def)
  have "\<And>r. r \<in> set (stats db) \<Longrightarrow> st_userId r = u' \<Longrightarrow> st_id r \<noteq> st_id old"
  proof
    fix r assume r: "r \<in> set (stats db)" "st_userId r = u'" "st_id r = st_id old"
    from dist r(1) old(1) r(3) have "r = old"
      by (simp add: distinct_map inj_on_def)
    with r(2) old(2) assms(2) show False by simp
  qed
  then have "map (\<lambda>r. if st_id r = st_id old then newValues old now d r else r)
               (filter (\<lambda>r. st_userId r = u') (stats db))
             = filter (\<lambda>r. st_userId r = u') (stats db)"
    by (intro map_idI) simp
  then show ?thesis
    unfolding DatabaseStorage_updateUserStats_Some [OF assms(1) Some]
    by (simp add: DatabaseStorage_getUserStats_def filter_userId_map)
qed

lemma DatabaseStorage_downloads_accepted:
  assumes "Database_inv db" "Database_int4 db"
    and "downloads_of (DatabaseStorage_getUserStats db u) < 2147483647"
  shows "fst (updateUserStats DatabaseStorage_ops db t1 t2 u
                (no_updates\<lparr>up_downloads := Some 1\<rparr>)) = None"
proof (cases "DatabaseStorage_getUserStats db u")
  case None
  then show ?thesis
    by (simp add: DatabaseStorage_updateUserStats_thrown DatabaseStorage_createUserStats_def
        newValues_def no_updates_def int4_stat_def int4_def Let_def)
next
  case (Some old)
  with assms have "clamped old" "int4_stat old" "st_downloads old < 2147483647"
    using Database_stat_clamped Database_stat_int4 by (auto simp: downloads_of_def)
  with Some show ?thesis
    by (simp add: DatabaseStorage_updateUserStats_thrown newValues_def no_updates_def
        int4_stat_def int4_def clamped_def)
qed

lemma MemStorage_download_effect:
  "MemStorage_getFile s F = Some file
       \<and> res_status (fst (get_files_id_download MemStorage_ops s storedFiles (Some user) F
              t_stat t_upd t_txid t_tx)) = 200 \<longrightarrow>
      MemStorage_checkFileAccess s (f_id file) (u_id user)
      \<and> downloads_of (MemStorage_getUserStats
            (snd (get_files_id_download MemStorage_ops s storedFiles (Some user) F
              t_stat t_upd t_txid t_tx)) (f_ownerId file))
          = downloads_of (MemStorage_getUserStats s (f_ownerId file)) + 1
      \<and> (\<forall>U. U \<noteq> f_ownerId file \<longrightarrow>
            MemStorage_getUserStats
              (snd (get_files_id_download MemStorage_ops s storedFiles (Some user) F
              t_stat t_upd t_txid t_tx)) U
            = MemStorage_getUserStats s U)"
proof (intro impI allI conjI; elim conjE)
  assume f: "MemStorage_getFile s F = Some file"
    and ok: "res_status (fst (get_files_id_download MemStorage_ops s storedFiles (Some user) F
              t_stat t_upd t_txid t_tx)) = 200"
  note r = get_files_id_download_200 [of MemStorage_ops s F "file" storedFiles user
      t_stat t_upd t_txid t_tx, unfolded ops_simps(1-9), OF f ok]
  show "MemStorage_checkFileAccess s (f_id file) (u_id user)" by (rule r(1))
  show "downloads_of (MemStorage_getUserStats
            (snd (get_files_id_download MemStorage_ops s storedFiles (Some user) F
              t_stat t_upd t_txid t_tx)) (f_ownerId file))
          = downloads_of (MemStorage_getUserStats s (f_ownerId file)) + 1"
    unfolding r(3) by (simp add: MemStorage_logTransaction_stats MemStorage_downloads_bump)
  fix U assume "U \<noteq> f_ownerId file"
  then show "MemStorage_getUserStats
              (snd (get_files_id_download MemStorage_ops s storedFiles (Some user) F
              t_stat t_upd t_txid t_tx)) U
            = MemStorage_getUserStats s U"
    unfolding r(3)
    by (simp add: MemStorage_logTransaction_stats MemStorage_getUserStats_updateUserStats)
qed

lemma MemStorage_download_ok:
  "MemStorage_getFile s F = Some file
       \<and> MemStorage_checkFileAccess s (f_id file) (u_id user)
       \<and> retrieveFile storedFiles (f_cid file) = Some encryptedData \<longrightarrow>
      fst (get_files_id_download MemStorage_ops s storedFiles (Some user) F
              t_stat t_upd t_txid t_tx)
        = reply 200 (DownloadBody encryptedData (f_encryptionKey file) (f_name file)
                       (f_type file))"
  using get_files_id_download_resolved [of MemStorage_ops s F "file" user storedFiles
      encryptedData t_stat t_upd t_txid t_tx]
  by (simp add: ops_simps(1-9))

lemma DatabaseStorage_download_effect:
  "Database_inv db \<and> DatabaseStorage_getFile db F = Some file
       \<and> res_status (fst (get_files_id_download DatabaseStorage_ops db storedFiles (Some user) F
              t_stat t_upd t_txid t_tx)) = 200 \<longrightarrow>
      DatabaseStorage_checkFileAccess db (f_id file) (u_id user)
      \<and> downloads_of (DatabaseStorage_getUserStats
            (snd (get_files_id_download DatabaseStorage_ops db storedFiles (Some user) F
              t_stat t_upd t_txid t_tx)) (f_ownerId file))
          = downloads_of (DatabaseStorage_getUserStats db (f_ownerId file)) + 1
      \<and> (\<forall>U. U \<noteq> f_ownerId file \<longrightarrow>
            DatabaseStorage_getUserStats
              (snd (get_files_id_download DatabaseStorage_ops db storedFiles (Some user) F
              t_stat t_upd t_txid t_tx)) U
            = DatabaseStorage_getUserStats db U)"
proof (intro impI allI conjI; elim conjE)
  assume inv: "Database_inv db" and f: "DatabaseStorage_getFile db F = Some file"
    and ok: "res_status (fst (get_files_id_download DatabaseStorage_ops db storedFiles
              (Some user) F
              t_stat t_upd t_txid t_tx)) = 200"
  note r = get_files_id_download_200 [of DatabaseStorage_ops db F "file" storedFiles user
      t_stat t_upd t_txid t_tx, unfolded ops_simps(10-18), OF f ok]
  show "DatabaseStorage_checkFileAccess db (f_id file) (u_id user)" by (rule r(1))
  show "downloads_of (DatabaseStorage_getUserStats
            (snd (get_files_id_download DatabaseStorage_ops db storedFiles (Some user) F
              t_stat t_upd t_txid t_tx)) (f_ownerId file))
          = downloads_of (DatabaseStorage_getUserStats db (f_ownerId file)) + 1"
    unfolding r(3)
    by (simp add: DatabaseStorage_logTransaction_stats
        DatabaseStorage_downloads_bump [OF inv r(2)])
  fix U assume "U \<noteq> f_ownerId file"
  then show "DatabaseStorage_getUserStats
              (snd (get_files_id_download DatabaseStorage_ops db storedFiles (Some user) F
              t_stat t_upd t_txid t_tx)) U
            = DatabaseStorage_getUserStats db U"
    unfolding r(3)
    by (simp add: DatabaseStorage_logTransaction_stats
        DatabaseStorage_getUserStats_updateUserStats_other [OF inv])
qed

lemma DatabaseStorage_download_ok:
  "Database_inv db \<and> Database_int4 db
       \<and> downloads_of (DatabaseStorage_getUserStats db (f_ownerId file)) < 2147483647
       \<and> DatabaseStorage_getFile db F = Some file
       \<and> DatabaseStorage_checkFileAccess db (f_id file) (u_id user)
       \<and> retrieveFile storedFiles (f_cid file) = Some encryptedData \<longrightarrow>
      fst (get_files_id_download DatabaseStorage_ops db storedFiles (Some user) F
              t_stat t_upd t_txid t_tx)
        = reply 200 (DownloadBody encryptedData (f_encryptionKey file) (f_name file)
                       (f_type file))"
proof (intro impI, elim conjE)
  assume inv: "Database_inv db" "Database_int4 db"
    "downloads_of (DatabaseStorage_getUserStats db (f_ownerId file)) < 2147483647"
    and h: "DatabaseStorage_getFile db F = Some file"
    "DatabaseStorage_checkFileAccess db (f_id file) (u_id user)"
    "retrieveFile storedFiles (f_cid file) = Some encryptedData"
  from h DatabaseStorage_downloads_accepted [OF inv, of t_stat t_upd]
  show "fst (get_files_id_download DatabaseStorage_ops db storedFiles (Some user) F
              t_stat t_upd t_txid t_tx)
        = reply 200 (DownloadBody encryptedData (f_encryptionKey file) (f_name file)
                       (f_type file))"
    using get_files_id_download_resolved [of DatabaseStorage_ops db F "file" user storedFiles
      encryptedData t_stat t_upd t_txid t_tx]
    by (simp add: ops_simps(10-17))
qed

text \<open>
  Claim C9. When a download request of user \<open>U\<close> for file \<open>F\<close> is answered 200,
  \<open>U\<close> has access to \<open>F\<close>, the \<^verbatim>\<open>downloads\<close> counter of the owner of \<open>F\<close> (0 when the
  owner had no Stat row) is one higher than before, and the Stat row of every user
  other than the owner, the requester among them when a grantee downloads, is what it
  was: no row is created or changed for them. The request is answered 200 whenever the
  file exists, the requester has access and the storage service returns the data; for
  \<^verbatim>\<open>DatabaseStorage\<close>, whenever in addition the stored counters fit their 32-bit columns
  and the owner's counter is below 2147483647. For \<^verbatim>\<open>DatabaseStorage\<close> the tables have
  to satisfy the invariant of the primary keys.
\<close>

theorem C9_download_counts_for_owner:
  "(MemStorage_getFile s F = Some file
       \<and> res_status (fst (get_files_id_download MemStorage_ops s storedFiles (Some user) F
              t_stat t_upd t_txid t_tx)) = 200 \<longrightarrow>
      MemStorage_checkFileAccess s (f_id file) (u_id user)
      \<and> downloads_of (MemStorage_getUserStats
            (snd (get_files_id_download MemStorage_ops s storedFiles (Some user) F
              t_stat t_upd t_txid t_tx)) (f_ownerId file))
          = downloads_of (MemStorage_getUserStats s (f_ownerId file)) + 1
      \<and> (\<forall>U. U \<noteq> f_ownerId file \<longrightarrow>
            MemStorage_getUserStats
              (snd (get_files_id_download MemStorage_ops s storedFiles (Some user) F
              t_stat t_upd t_txid t_tx)) U
            = MemStorage_getUserStats s U))
   \<and> (MemStorage_getFile s F = Some file
       \<and> MemStorage_checkFileAccess s (f_id file) (u_id user)
       \<and> retrieveFile storedFiles (f_cid file) = Some encryptedData \<longrightarrow>
      fst (get_files_id_download MemStorage_ops s storedFiles (Some user) F
              t_stat t_upd t_txid t_tx)
        = reply 200 (DownloadBody encryptedData (f_encryptionKey file) (f_name file)
                       (f_type file)))
   \<and> (Database_inv db \<and> DatabaseStorage_getFile db F = Some file
       \<and> res_status (fst (get_files_id_download DatabaseStorage_ops db storedFiles (Some user) F
              t_stat t_upd t_txid t_tx)) = 200 \<longrightarrow>
      DatabaseStorage_checkFileAccess db (f_id file) (u_id user)
      \<and> downloads_of (DatabaseStorage_getUserStats
            (snd (get_files_id_download DatabaseStorage_ops db storedFiles (Some user) F
              t_stat t_upd t_txid t_tx)) (f_ownerId file))
          = downloads_of (DatabaseStorage_getUserStats db (f_ownerId file)) + 1
      \<and> (\<forall>U. U \<noteq> f_ownerId file \<longrightarrow>
            DatabaseStorage_getUserStats
              (snd (get_files_id_download DatabaseStorage_ops db storedFiles (Some user) F
              t_stat t_upd t_txid t_tx)) U
            = DatabaseStorage_getUserStats db U))
   \<and> (Database_inv db \<and> Database_int4 db
       \<and> downloads_of (DatabaseStorage_getUserStats db (f_ownerId file)) < 2147483647
       \<and> DatabaseStorage_getFile db F = Some file
       \<and> DatabaseStorage_checkFileAccess db (f_id file) (u_id user)
       \<and> retrieveFile storedFiles (f_cid file) = Some encryptedData \<longrightarrow>
      fst (get_files_id_download DatabaseStorage_ops db storedFiles (Some user) F
              t_stat t_upd t_txid t_tx)
        = reply 200 (DownloadBody encryptedData (f_encryptionKey file) (f_name file)
                       (f_type file)))"
  using MemStorage_download_effect MemStorage_download_ok
    DatabaseStorage_download_effect DatabaseStorage_download_ok
  by (intro conjI) blast+

lemma sample_access:
  "MemStorage_checkFileAccess sample_mem 1 3"
  "DatabaseStorage_checkFileAccess sample_db 1 3"
  by (simp_all add: MemStorage_checkFileAccess_def DatabaseStorage_checkFileAccess_def
      MemStorage_getFile_def DatabaseStorage_getFile_def Map_get_def with_owner_def
      owner_name_def sample_file_def sample_mem_eq sample_db_eq Map_values_def
      sample_share_def sample_user_def alice_def FileRow.extend_def FileRow.truncate_def
      File.fields_def)

lemma sample_downloads:
  "downloads_of (MemStorage_getUserStats sample_mem 2) = 0"
  "downloads_of (DatabaseStorage_getUserStats sample_db 2) = 0"
  by (simp_all add: sample_getUserStats downloads_of_def sample_stat_def)

lemma sample_file_fields:
  "f_id sample_file = 1" "f_cid sample_file = ''Qm1''" "f_encryptionKey sample_file = ''k''"
  "f_name sample_file = ''report.pdf''" "f_type sample_file = ''application/pdf''"
  "retrieveFile sample_storedFiles ''Qm1'' = Some ''U2FsdGVkX1''"
  by (simp_all add: sample_file_def retrieveFile_def sample_storedFiles_def)

text \<open>
  Claim C9 on the sample stores: bob, who holds a grant on alice's file 1, downloads it.
  The request is answered 200; alice's \<^verbatim>\<open>downloads\<close> counter goes from 0 to 1, and bob,
  who had no Stat row, has none afterwards.
\<close>

theorem C9_download_counts_for_owner_witness:
  "f_ownerId sample_file = 2
   \<and> MemStorage_getFile sample_mem 1 = Some sample_file
   \<and> MemStorage_checkFileAccess sample_mem 1 3
   \<and> fst (get_files_id_download MemStorage_ops sample_mem sample_storedFiles
        (Some (sample_user 3 bob 2000)) 1 9000 9001 9002 9003)
      = reply 200 (DownloadBody ''U2FsdGVkX1'' ''k'' ''report.pdf'' ''application/pdf'')
   \<and> downloads_of (MemStorage_getUserStats sample_mem 2) = 0
   \<and> downloads_of (MemStorage_getUserStats (snd (get_files_id_download MemStorage_ops sample_mem sample_storedFiles
        (Some (sample_user 3 bob 2000)) 1 9000 9001 9002 9003)) 2) = 1
   \<and> MemStorage_getUserStats sample_mem 3 = None
   \<and> MemStorage_getUserStats (snd (get_files_id_download MemStorage_ops sample_mem sample_storedFiles
        (Some (sample_user 3 bob 2000)) 1 9000 9001 9002 9003)) 3 = None
   \<and> Database_inv sample_db
   \<and> Database_int4 sample_db
   \<and> DatabaseStorage_getFile sample_db 1 = Some sample_file
   \<and> DatabaseStorage_checkFileAccess sample_db 1 3
   \<and> fst (get_files_id_download DatabaseStorage_ops sample_db sample_storedFiles
        (Some (sample_user 3 bob 2000)) 1 9000 9001 9002 9003)
      = reply 200 (DownloadBody ''U2FsdGVkX1'' ''k'' ''report.pdf'' ''application/pdf'')
   \<and> downloads_of (DatabaseStorage_getUserStats sample_db 2) = 0
   \<and> downloads_of (DatabaseStorage_getUserStats (snd (get_files_id_download DatabaseStorage_ops sample_db sample_storedFiles
        (Some (sample_user 3 bob 2000)) 1 9000 9001 9002 9003)) 2) = 1
   \<and> DatabaseStorage_getUserStats sample_db 3 = None
   \<and> DatabaseStorage_getUserStats (snd (get_files_id_download DatabaseStorage_ops sample_db sample_storedFiles
        (Some (sample_user 3 bob 2000)) 1 9000 9001 9002 9003)) 3 = None"
proof -
  note f = sample_request_fields(7,8) sample_getFile(1,3) sample_access sample_downloads
    sample_file_fields sample_getUserStats(2,4) sample_db_inv sample_db_int4
  note c9 = C9_download_counts_for_owner [of sample_mem 1 sample_file sample_storedFiles
      "sample_user 3 bob 2000" 9000 9001 9002 9003 "''U2FsdGVkX1''" sample_db]
  have m1: "fst (get_files_id_download MemStorage_ops sample_mem sample_storedFiles
        (Some (sample_user 3 bob 2000)) 1 9000 9001 9002 9003)
      = reply 200 (DownloadBody ''U2FsdGVkX1'' ''k'' ''report.pdf'' ''application/pdf'')"
    using c9 [THEN conjunct2, THEN conjunct1] by (simp add: f)
  have m2: "downloads_of (MemStorage_getUserStats (snd (get_files_id_download MemStorage_ops sample_mem sample_storedFiles
        (Some (sample_user 3 bob 2000)) 1 9000 9001 9002 9003)) 2) = 1
      \<and> MemStorage_getUserStats (snd (get_files_id_download MemStorage_ops sample_mem sample_storedFiles
        (Some (sample_user 3 bob 2000)) 1 9000 9001 9002 9003)) 3 = None"
    using c9 [THEN conjunct1] m1 by (simp add: f reply_def)
  have d1: "fst (get_files_id_download DatabaseStorage_ops sample_db sample_storedFiles
        (Some (sample_user 3 bob 2000)) 1 9000 9001 9002 9003)
      = reply 200 (DownloadBody ''U2FsdGVkX1'' ''k'' ''report.pdf'' ''application/pdf'')"
    using c9 [THEN conjunct2, THEN conjunct2, THEN conjunct2] by (simp add: f)
  have d2: "downloads_of (DatabaseStorage_getUserStats (snd (get_files_id_download DatabaseStorage_ops sample_db sample_storedFiles
        (Some (sample_user 3 bob 2000)) 1 9000 9001 9002 9003)) 2) = 1
      \<and> DatabaseStorage_getUserStats (snd (get_files_id_download DatabaseStorage_ops sample_db sample_storedFiles
        (Some (sample_user 3 bob 2000)) 1 9000 9001 9002 9003)) 3 = None"
    using c9 [THEN conjunct2, THEN conjunct2, THEN conjunct1] d1 by (simp add: f reply_def)
  from m1 m2 d1 d2 show ?thesis
    by (simp only: f simp_thms)
qed

subsection \<open>The stats route\<close>

lemma get_stats_404:
  "getUserStats storage st (u_id user) = None \<Longrightarrow>
   get_stats storage st (Some user) = (reply 404 (ErrorBody ''Stats not found''), st)"
  by (simp add: get_stats_def)

lemma get_stats_reads: "snd (get_stats storage st req_user) = st"
  by (simp add: get_stats_def split: option.splits)

text \<open>A call that is not a stat adjustment for \<open>u\<close> gives \<open>u\<close> no Stat row.\<close>

lemma MemStorage_call_no_stats:
  assumes "MemStorage_getUserStats s u = None" "\<not> adjusts_stats u (snd c)"
  shows "MemStorage_getUserStats (MemStorage_call c s) u = None"
proof -
  obtain now k where c: "c = (now, k)" by (cases c)
  from assms show ?thesis
    unfolding c
    by (cases k; (simp add: MemStorage_getUserStats_updateUserStats)?;
        simp add: MemStorage_getUserStats_def
         MemStorage_createUser_def MemStorage_createFile_def MemStorage_deleteFile_def
         MemStorage_createFileShare_def MemStorage_createShareLink_def
         MemStorage_logTransaction_def MemStorage_createUserStats_def Map_get_Map_set
         Let_def)
qed

lemma DatabaseStorage_updateUserStats_no_stats:
  assumes "DatabaseStorage_getUserStats db u = None" "u' \<noteq> u"
  shows "DatabaseStorage_getUserStats
           (snd (DatabaseStorage_updateUserStats db now0 now u' d)) u = None"
  using assms
  by (simp add: DatabaseStorage_updateUserStats_eq DatabaseStorage_getUserStats_def
      DatabaseStorage_createUserStats_def filter_userId_map newValues_def Let_def
      split: option.splits)

lemma DatabaseStorage_call_no_stats:
  assumes "DatabaseStorage_getUserStats db u = None" "\<not> adjusts_stats u (snd c)"
  shows "DatabaseStorage_getUserStats (DatabaseStorage_call c db) u = None"
proof -
  obtain now k where c: "c = (now, k)" by (cases c)
  from assms show ?thesis
    unfolding c
    by (cases k; (simp add: DatabaseStorage_updateUserStats_no_stats)?;
        simp add: DatabaseStorage_getUserStats_def
         DatabaseStorage_createUser_def DatabaseStorage_createFile_def
         DatabaseStorage_deleteFile_def
         DatabaseStorage_createFileShare_def DatabaseStorage_createShareLink_def
         DatabaseStorage_logTransaction_def DatabaseStorage_createUserStats_def
         Let_def)
qed

lemma MemStorage_run_no_stats:
  "MemStorage_getUserStats s u = None \<Longrightarrow>
   \<not> list_ex (\<lambda>c. adjusts_stats u (snd c)) calls \<Longrightarrow>
   MemStorage_getUserStats (MemStorage_run calls s) u = None"
  unfolding MemStorage_run_def
  by (induction calls arbitrary: s) (simp_all add: MemStorage_call_no_stats)

lemma DatabaseStorage_run_no_stats:
  "DatabaseStorage_getUserStats db u = None \<Longrightarrow>
   \<not> list_ex (\<lambda>c. adjusts_stats u (snd c)) calls \<Longrightarrow>
   DatabaseStorage_getUserStats (DatabaseStorage_run calls db) u = None"
  unfolding DatabaseStorage_run_def
  by (induction calls arbitrary: db) (simp_all add: DatabaseStorage_call_no_stats)

lemma new_store_no_stats:
  "MemStorage_getUserStats (MemStorage_new t0) u = None"
  "DatabaseStorage_getUserStats Database_empty u = None"
  by (simp_all add: MemStorage_getUserStats_def MemStorage_new_def MemStorage_empty_def
      MemStorage_createUser_def Map_get_def DatabaseStorage_getUserStats_def
      Database_empty_def Let_def)

lemma DatabaseStorage_updateUserStats_creates:
  "DatabaseStorage_getUserStats (snd (DatabaseStorage_updateUserStats db now0 now u d)) u
   \<noteq> None"
proof (cases "DatabaseStorage_getUserStats db u")
  case None
  then show ?thesis
    by (simp add: DatabaseStorage_updateUserStats_eq DatabaseStorage_getUserStats_def
        DatabaseStorage_createUserStats_def filter_userId_map Let_def newValues_def)
next
  case (Some old)
  then have "filter (\<lambda>r. st_userId r = u) (stats db) \<noteq> []"
    by (auto simp: DatabaseStorage_getUserStats_def)
  with Some show ?thesis
    by (simp add: DatabaseStorage_updateUserStats_eq DatabaseStorage_getUserStats_def
        filter_userId_map Let_def)
qed

text \<open>
  Claim C10. For a user without a Stat row, \<^verbatim>\<open>GET /stats\<close> answers 404 with the
  error \<^verbatim>\<open>Stats not found\<close>, for any storage behind it, and so for \<^verbatim>\<open>MemStorage\<close> and
  \<^verbatim>\<open>DatabaseStorage\<close>; the request never changes the store, whatever it answers, so
  that reading creates no row. A user has no Stat row in any store that was reached
  from the initial one by calls none of which is \<^verbatim>\<open>updateUserStats\<close> (or
  \<^verbatim>\<open>createUserStats\<close>, which only \<^verbatim>\<open>updateUserStats\<close> calls) for that user, so there the
  answer is 404; and after \<^verbatim>\<open>updateUserStats\<close> for a user, the user has a row.
\<close>

theorem C10_stats_not_found:
  "(getUserStats storage st (u_id user) = None \<longrightarrow>
      get_stats storage st (Some user) = (reply 404 (ErrorBody ''Stats not found''), st))
   \<and> snd (get_stats storage st req_user) = st
   \<and> (MemStorage_getUserStats s (u_id user) = None \<longrightarrow>
      get_stats MemStorage_ops s (Some user) = (reply 404 (ErrorBody ''Stats not found''), s))
   \<and> (DatabaseStorage_getUserStats db (u_id user) = None \<longrightarrow>
      get_stats DatabaseStorage_ops db (Some user) = (reply 404 (ErrorBody ''Stats not found''), db))
   \<and> (\<not> list_ex (\<lambda>c. adjusts_stats (u_id user) (snd c)) calls \<longrightarrow>
      get_stats MemStorage_ops (MemStorage_run calls (MemStorage_new t0)) (Some user)
        = (reply 404 (ErrorBody ''Stats not found''), MemStorage_run calls (MemStorage_new t0))
      \<and> get_stats DatabaseStorage_ops (DatabaseStorage_run calls Database_empty) (Some user)
        = (reply 404 (ErrorBody ''Stats not found''), DatabaseStorage_run calls Database_empty))
   \<and> MemStorage_getUserStats (snd (MemStorage_updateUserStats s now0 now u d)) u \<noteq> None
   \<and> DatabaseStorage_getUserStats (snd (DatabaseStorage_updateUserStats db now0 now u d)) u
      \<noteq> None"
proof (intro conjI impI)
  show "snd (get_stats storage st req_user) = st" by (rule get_stats_reads)
  show "MemStorage_getUserStats (snd (MemStorage_updateUserStats s now0 now u d)) u \<noteq> None"
    by (simp add: MemStorage_getUserStats_updateUserStats)
  show "DatabaseStorage_getUserStats (snd (DatabaseStorage_updateUserStats db now0 now u d)) u
      \<noteq> None"
    by (rule DatabaseStorage_updateUserStats_creates)
next
  assume "getUserStats storage st (u_id user) = None"
  then show "get_stats storage st (Some user) = (reply 404 (ErrorBody ''Stats not found''), st)"
    by (rule get_stats_404)
next
  assume "MemStorage_getUserStats s (u_id user) = None"
  then show "get_stats MemStorage_ops s (Some user) = (reply 404 (ErrorBody ''Stats not found''), s)"
    by (simp add: get_stats_404 ops_simps(8))
next
  assume "DatabaseStorage_getUserStats db (u_id user) = None"
  then show "get_stats DatabaseStorage_ops db (Some user) = (reply 404 (ErrorBody ''Stats not found''), db)"
    by (simp add: get_stats_404 ops_simps(17))
next
  assume a: "\<not> list_ex (\<lambda>c. adjusts_stats (u_id user) (snd c)) calls"
  show "get_stats MemStorage_ops (MemStorage_run calls (MemStorage_new t0)) (Some user)
        = (reply 404 (ErrorBody ''Stats not found''), MemStorage_run calls (MemStorage_new t0))"
    using MemStorage_run_no_stats [OF new_store_no_stats(1) a]
    by (simp add: get_stats_404 ops_simps(8))
  show "get_stats DatabaseStorage_ops (DatabaseStorage_run calls Database_empty) (Some user)
        = (reply 404 (ErrorBody ''Stats not found''), DatabaseStorage_run calls Database_empty)"
    using DatabaseStorage_run_no_stats [OF new_store_no_stats(2) a]
    by (simp add: get_stats_404 ops_simps(17))
qed

text \<open>
  Claim C10 on the sample stores: bob has made no upload and no share, nobody has
  downloaded a file of bob's, and no call of the history adjusts bob's statistics. Bob
  has no Stat row, and his request for his statistics is answered 404.
\<close>

theorem C10_stats_not_found_witness:
  "MemStorage_getUserStats sample_mem 3 = None
   \<and> get_stats MemStorage_ops sample_mem (Some (sample_user 3 bob 2000))
      = (reply 404 (ErrorBody ''Stats not found''), sample_mem)
   \<and> DatabaseStorage_getUserStats sample_db 3 = None
   \<and> get_stats DatabaseStorage_ops sample_db (Some (sample_user 3 bob 2000))
      = (reply 404 (ErrorBody ''Stats not found''), sample_db)
   \<and> \<not> list_ex (\<lambda>c. adjusts_stats 3 (snd c)) ((0, CreateUser testuser) # sample_calls)
   \<and> get_stats MemStorage_ops (MemStorage_run sample_calls (MemStorage_new 0))
        (Some (sample_user 3 bob 2000))
      = (reply 404 (ErrorBody ''Stats not found''), MemStorage_run sample_calls (MemStorage_new 0))
   \<and> get_stats DatabaseStorage_ops
        (DatabaseStorage_run ((0, CreateUser testuser) # sample_calls) Database_empty)
        (Some (sample_user 3 bob 2000))
      = (reply 404 (ErrorBody ''Stats not found''), DatabaseStorage_run ((0, CreateUser testuser) # sample_calls) Database_empty)"
proof -
  have quiet: "\<not> list_ex (\<lambda>c. adjusts_stats 3 (snd c)) ((0, CreateUser testuser) # sample_calls)"
    "\<not> list_ex (\<lambda>c. adjusts_stats 3 (snd c)) sample_calls"
    by (simp_all add: sample_calls_def)
  note f = sample_getUserStats(2,4) sample_request_fields(7) quiet
  have w1: "get_stats MemStorage_ops sample_mem (Some (sample_user 3 bob 2000))
      = (reply 404 (ErrorBody ''Stats not found''), sample_mem)"
    using C10_stats_not_found [of _ _ "sample_user 3 bob 2000" _ sample_mem,
      THEN conjunct2, THEN conjunct2, THEN conjunct1]
    by (simp add: f)
  have w2: "get_stats DatabaseStorage_ops sample_db (Some (sample_user 3 bob 2000))
      = (reply 404 (ErrorBody ''Stats not found''), sample_db)"
    using C10_stats_not_found [of _ _ "sample_user 3 bob 2000" _ _ sample_db,
      THEN conjunct2, THEN conjunct2, THEN conjunct2, THEN conjunct1]
    by (simp add: f)
  have w3: "get_stats MemStorage_ops (MemStorage_run sample_calls (MemStorage_new 0))
        (Some (sample_user 3 bob 2000))
      = (reply 404 (ErrorBody ''Stats not found''), MemStorage_run sample_calls (MemStorage_new 0))"
    using C10_stats_not_found [of _ _ "sample_user 3 bob 2000" _ _ _ sample_calls 0,
      THEN conjunct2, THEN conjunct2, THEN conjunct2, THEN conjunct2, THEN conjunct1]
    by (simp add: f)
  have w4: "get_stats DatabaseStorage_ops
        (DatabaseStorage_run ((0, CreateUser testuser) # sample_calls) Database_empty)
        (Some (sample_user 3 bob 2000))
      = (reply 404 (ErrorBody ''Stats not found''), DatabaseStorage_run ((0, CreateUser testuser) # sample_calls) Database_empty)"
    using C10_stats_not_found [of _ _ "sample_user 3 bob 2000" _ _ _
        "(0, CreateUser testuser) # sample_calls",
      THEN conjunct2, THEN conjunct2, THEN conjunct2, THEN conjunct2, THEN conjunct1]
    by (simp add: f)
  from w1 w2 w3 w4 quiet(1) show ?thesis
    by (simp only: sample_getUserStats(2,4) simp_thms)
qed

end
